theory Spec2Isabelle
  imports Main "HOL-Library.Word"
begin

unbundle bit_operations_syntax

section \<open>JavaScript values\<close>

text \<open>
  The result of \<open>JSON.parse\<close>. JavaScript's \<open>undefined\<close> is the \<open>None\<close> of
  \<open>json option\<close>. Strings are lists of 8-bit characters, numbers are integers.
\<close>

datatype json =
    JNull
  | JBool bool
  | JNum int
  | JStr string
  | JArr "json list"
  | JObj "(string \<times> json) list"

datatype exn =
    TypeError string
  | StoreError string
  | SocketError string
  | HandlerError string

text \<open>ToBoolean, as used by \<open>if (x)\<close>, \<open>x ? a : b\<close>, \<open>x || y\<close> and \<open>!x\<close>.\<close>

fun truthy :: "json option \<Rightarrow> bool" where
  "truthy None = False"
| "truthy (Some JNull) = False"
| "truthy (Some (JBool b)) = b"
| "truthy (Some (JNum n)) = (n \<noteq> 0)"
| "truthy (Some (JStr s)) = (s \<noteq> [])"
| "truthy (Some (JArr xs)) = True"
| "truthy (Some (JObj kvs)) = True"

text \<open>
  Property read \<open>v.k\<close> for the keys the gateway reads (none of them is an own or
  inherited property of a string, number, boolean or array): \<open>null.k\<close> and
  \<open>undefined.k\<close> throw, an object yields its member (the last duplicate wins in
  \<open>JSON.parse\<close>), every other value yields \<open>undefined\<close>.
\<close>

fun getProp :: "json option \<Rightarrow> string \<Rightarrow> exn + json option" where
  "getProp None k = Inl (TypeError (''Cannot read properties of undefined: '' @ k))"
| "getProp (Some JNull) k = Inl (TypeError (''Cannot read properties of null: '' @ k))"
| "getProp (Some (JObj kvs)) k = Inr (map_of (rev kvs) k)"
| "getProp (Some v) k = Inr None"

text \<open>Optional chaining \<open>v?.k\<close>: \<open>undefined\<close> when \<open>v\<close> is \<open>null\<close> or \<open>undefined\<close>.\<close>

fun getOpt :: "json option \<Rightarrow> string \<Rightarrow> json option" where
  "getOpt (Some (JObj kvs)) k = map_of (rev kvs) k"
| "getOpt v k = None"

text \<open>\<open>a || b\<close>\<close>

definition orElse :: "json option \<Rightarrow> json option \<Rightarrow> json option" where
  "orElse a b = (if truthy a then a else b)"

text \<open>\<open>a ?? b\<close>\<close>

fun nullish :: "json option \<Rightarrow> json \<Rightarrow> json" where
  "nullish None d = d"
| "nullish (Some JNull) d = d"
| "nullish (Some v) d = v"

section \<open>Protocol frames (gateway/protocol.ts)\<close>

definition PROTOCOL_VERSION :: int where
  "PROTOCOL_VERSION = 1"

text \<open>
  A request frame as it arrives: \<open>parseFrame\<close> casts the parsed object, so \<open>id\<close>,
  \<open>method\<close> and \<open>params\<close> are whatever the client sent, or \<open>undefined\<close>.
\<close>

record RequestFrame =
  req_id :: "json option"
  req_method :: "json option"
  req_params :: "json option"

record ErrorShape =
  err_code :: string
  err_message :: string

record ResponseFrame =
  res_id :: "json option"
  res_ok :: bool
  res_payload :: "json option"
  res_error :: "ErrorShape option"

record EventFrame =
  ev_event :: string
  ev_payload :: json
  ev_seq :: "nat option"

record HelloAuth =
  deviceToken :: string
  role :: string
  scopes :: "string list"
  issuedAtMs :: nat

record HelloOk =
  hello_protocol :: int
  server_version :: string
  server_commit :: string
  server_host :: string
  server_connId :: string
  features_methods :: "string list"
  features_events :: "string list"
  policy_maxPayload :: nat
  policy_maxBufferedBytes :: nat
  policy_tickIntervalMs :: nat
  hello_auth :: "HelloAuth option"

text \<open>What the server writes to a socket, before \<open>JSON.stringify\<close>.\<close>

datatype outFrame =
    HelloOkFrame HelloOk
  | ResFrame ResponseFrame
  | EvFrame EventFrame

definition GATEWAY_METHODS :: "string list" where
  "GATEWAY_METHODS = [
     ''health'', ''status'', ''logs.tail'', ''channels.status'', ''channels.logout'',
     ''usage.status'', ''usage.cost'', ''tts.status'', ''tts.providers'', ''config.get'',
     ''config.set'', ''config.apply'', ''config.patch'', ''config.schema'',
     ''exec.approvals.get'', ''exec.approvals.set'', ''wizard.start'', ''wizard.next'',
     ''wizard.cancel'', ''wizard.status'', ''talk.mode'', ''models.list'', ''agents.list'',
     ''skills.status'', ''skills.bins'', ''skills.install'', ''skills.update'', ''update.run'',
     ''voicewake.get'', ''voicewake.set'', ''sessions.list'', ''sessions.preview'',
     ''sessions.patch'', ''sessions.reset'', ''sessions.delete'', ''sessions.compact'',
     ''last-heartbeat'', ''set-heartbeats'', ''wake'', ''node.pair.request'', ''node.pair.list'',
     ''node.pair.approve'', ''node.pair.reject'', ''node.pair.verify'', ''device.pair.list'',
     ''device.pair.approve'', ''device.pair.reject'', ''device.token.rotate'',
     ''device.token.revoke'', ''node.rename'', ''node.list'', ''node.describe'', ''node.invoke'',
     ''node.invoke.result'', ''node.event'', ''cron.list'', ''cron.status'', ''cron.add'',
     ''cron.update'', ''cron.remove'', ''cron.run'', ''cron.runs'', ''system-presence'',
     ''system-event'', ''send'', ''agent'', ''agent.identity.get'', ''agent.wait'',
     ''browser.request'', ''chat.history'', ''chat.abort'', ''chat.send'']"

definition GATEWAY_EVENTS :: "string list" where
  "GATEWAY_EVENTS = [
     ''connect.challenge'', ''agent'', ''chat'', ''presence'', ''tick'', ''talk.mode'',
     ''shutdown'', ''health'', ''heartbeat'', ''cron'', ''node.pair.requested'',
     ''node.pair.resolved'', ''node.invoke.request'', ''device.pair.requested'',
     ''device.pair.resolved'', ''voicewake.changed'', ''exec.approval.requested'',
     ''exec.approval.resolved'']"

text \<open>\<open>fakeVersion\<close> is \<open>config.fakeVersion\<close>, read from the environment at start-up.\<close>

definition generateHelloOk :: "string \<Rightarrow> string \<Rightarrow> HelloOk" where
  "generateHelloOk fakeVersion connId =
     \<lparr> hello_protocol = PROTOCOL_VERSION,
       server_version = fakeVersion,
       server_commit = ''abc123def'',
       server_host = ''openclaw-gateway'',
       server_connId = connId,
       features_methods = GATEWAY_METHODS,
       features_events = GATEWAY_EVENTS,
       policy_maxPayload = 512 * 1024,
       policy_maxBufferedBytes = 1536 * 1024,
       policy_tickIntervalMs = 30000,
       hello_auth = None \<rparr>"

text \<open>\<open>now\<close> is \<open>Date.now()\<close>.\<close>

definition generateTickEvent :: "nat \<Rightarrow> nat \<Rightarrow> EventFrame" where
  "generateTickEvent now seq =
     \<lparr> ev_event = ''tick'', ev_payload = JObj [(''ts'', JNum (int now))], ev_seq = Some seq \<rparr>"

definition METHOD_NOT_FOUND :: string where
  "METHOD_NOT_FOUND = ''method_not_found''"

definition INTERNAL_ERROR :: string where
  "INTERNAL_ERROR = ''internal_error''"

definition createErrorResponse :: "json option \<Rightarrow> string \<Rightarrow> string \<Rightarrow> ResponseFrame" where
  "createErrorResponse i c message =
     \<lparr> res_id = i, res_ok = False, res_payload = None,
       res_error = Some \<lparr> err_code = c, err_message = message \<rparr> \<rparr>"

definition createSuccessResponse :: "json option \<Rightarrow> json option \<Rightarrow> ResponseFrame" where
  "createSuccessResponse i payload =
     \<lparr> res_id = i, res_ok = True, res_payload = payload, res_error = None \<rparr>"

text \<open>
  \<open>parseFrame\<close> on the result of \<open>JSON.parse\<close> (\<open>None\<close> when it threw): \<open>null\<close>
  unless the value is an object or array that has a \<open>type\<close> member; an array has none.
\<close>

fun parseFrame :: "json option \<Rightarrow> json option" where
  "parseFrame (Some (JObj kvs)) = (if ''type'' \<in> fst ` set kvs then Some (JObj kvs) else None)"
| "parseFrame v = None"

definition isRequestFrame :: "json \<Rightarrow> bool" where
  "isRequestFrame frame = (getOpt (Some frame) ''type'' = Some (JStr ''req''))"

definition asRequestFrame :: "json \<Rightarrow> RequestFrame" where
  "asRequestFrame frame =
     \<lparr> req_id = getOpt (Some frame) ''id'', req_method = getOpt (Some frame) ''method'',
       req_params = getOpt (Some frame) ''params'' \<rparr>"

section \<open>The store (database/queries.ts)\<close>

datatype ident = DbId nat | Uuid string

datatype connectionType = Http | Websocket

record Connection =
  conn_id :: ident
  conn_ipAddress :: string
  conn_userAgent :: "string option"
  conn_connectionType :: connectionType
  conn_disconnectedAt :: "nat option"

datatype direction = Inbound | Outbound

text \<open>
  The logged payload is what the client sent, parsed, or the frame the server sent; the
  raw form is the received text or the \<open>JSON.stringify\<close> of the frame sent.
\<close>

datatype wsPayload = Received json | Sent outFrame

datatype wire = Text string | Stringified outFrame

record WebSocketMessage =
  wsm_connectionId :: ident
  wsm_direction :: direction
  wsm_frameType :: "json option"
  wsm_method :: "json option"
  wsm_requestId :: "json option"
  wsm_payload :: wsPayload
  wsm_raw :: wire
  wsm_isSuspicious :: bool
  wsm_suspiciousReasons :: "string list option"

record AuthAttempt =
  auth_connectionId :: ident
  auth_ipAddress :: string
  auth_method :: string
  auth_credential :: string
  auth_credentialRaw :: string
  auth_success :: bool
  auth_clientId :: "json option"
  auth_clientVersion :: "json option"
  auth_platform :: "json option"

datatype severity = Low | Medium | High | Critical

record SuspiciousActivity =
  sa_type :: string
  sa_severity :: severity
  sa_description :: string
  sa_payload :: string
  sa_ipAddress :: string
  sa_userAgent :: "string option"
  sa_requestPath :: "string option"
  sa_requestMethod :: "string option"
  sa_connectionId :: "ident option"

record Request =
  rq_connectionId :: ident
  rq_method :: string
  rq_path :: string
  rq_body :: string
  rq_bodySize :: nat
  rq_responseCode :: nat
  rq_responseBody :: string

record ChannelInteraction =
  ci_channel :: string
  ci_endpoint :: string
  ci_ipAddress :: string

record AttackerSession =
  requestCount :: int
  wsMessageCount :: int
  authAttemptCount :: int
  suspiciousCount :: int
  isScanner :: bool
  isBruteforcer :: bool
  isExploiter :: bool
  lastSeen :: nat

text \<open>
  The tables, and whether the database is reachable: while \<open>down\<close> holds every query
  rejects and writes nothing.
\<close>

record store =
  connections :: "Connection list"
  requests :: "Request list"
  wsMessages :: "WebSocketMessage list"
  authAttempts :: "AuthAttempt list"
  suspiciousActivities :: "SuspiciousActivity list"
  channelInteractions :: "ChannelInteraction list"
  attackerSessions :: "string \<rightharpoonup> AttackerSession"
  down :: bool

definition emptyStore :: store where
  "emptyStore = \<lparr> connections = [], requests = [], wsMessages = [], authAttempts = [],
     suspiciousActivities = [], channelInteractions = [], attackerSessions = Map.empty,
     down = False \<rparr>"

text \<open>A query: the rejection or the value it resolves to, and the store afterwards.\<close>

type_synonym 'a query = "store \<Rightarrow> (exn + 'a) \<times> store"

definition createConnection :: "string \<Rightarrow> string option \<Rightarrow> connectionType \<Rightarrow> ident query" where
  "createConnection ipAddress userAgent connectionType s =
     (if down s then (Inl (StoreError ''connection.create''), s)
      else let i = DbId (length (connections s)) in
        (Inr i, s\<lparr>connections := connections s @
           [\<lparr> conn_id = i, conn_ipAddress = ipAddress, conn_userAgent = userAgent,
              conn_connectionType = connectionType, conn_disconnectedAt = None \<rparr>]\<rparr>))"

definition closeConnection :: "ident \<Rightarrow> nat \<Rightarrow> unit query" where
  "closeConnection i now s =
     (if down s \<or> i \<notin> conn_id ` set (connections s)
      then (Inl (StoreError ''connection.update''), s)
      else (Inr (), s\<lparr>connections :=
              map (\<lambda>c. if conn_id c = i then c\<lparr>conn_disconnectedAt := Some now\<rparr> else c)
                (connections s)\<rparr>))"

definition logRequest :: "Request \<Rightarrow> unit query" where
  "logRequest r s =
     (if down s then (Inl (StoreError ''request.create''), s)
      else (Inr (), s\<lparr>requests := requests s @ [r]\<rparr>))"

definition logWebSocketMessage :: "WebSocketMessage \<Rightarrow> unit query" where
  "logWebSocketMessage m s =
     (if down s then (Inl (StoreError ''webSocketMessage.create''), s)
      else (Inr (), s\<lparr>wsMessages := wsMessages s @ [m]\<rparr>))"

definition logAuthAttempt :: "AuthAttempt \<Rightarrow> unit query" where
  "logAuthAttempt a s =
     (if down s then (Inl (StoreError ''authAttempt.create''), s)
      else (Inr (), s\<lparr>authAttempts := authAttempts s @ [a]\<rparr>))"

definition logSuspiciousActivity :: "SuspiciousActivity \<Rightarrow> unit query" where
  "logSuspiciousActivity a s =
     (if down s then (Inl (StoreError ''suspiciousActivity.create''), s)
      else (Inr (), s\<lparr>suspiciousActivities := suspiciousActivities s @ [a]\<rparr>))"

definition logChannelInteraction :: "ChannelInteraction \<Rightarrow> unit query" where
  "logChannelInteraction c s =
     (if down s then (Inl (StoreError ''channelInteraction.create''), s)
      else (Inr (), s\<lparr>channelInteractions := channelInteractions s @ [c]\<rparr>))"

subsection \<open>Attacker session tracking\<close>

record updates =
  incrementRequests :: "bool option"
  incrementWsMessages :: "bool option"
  incrementAuthAttempts :: "bool option"
  incrementSuspicious :: "bool option"
  upd_isScanner :: "bool option"
  upd_isBruteforcer :: "bool option"
  upd_isExploiter :: "bool option"

definition noUpdates :: updates where
  "noUpdates = \<lparr> incrementRequests = None, incrementWsMessages = None,
     incrementAuthAttempts = None, incrementSuspicious = None, upd_isScanner = None,
     upd_isBruteforcer = None, upd_isExploiter = None \<rparr>"

text \<open>\<open>if (u.x)\<close> on an optional boolean.\<close>

definition isSet :: "bool option \<Rightarrow> bool" where
  "isSet b = (b = Some True)"

text \<open>\<open>u.x ?? false\<close>\<close>

definition orFalse :: "bool option \<Rightarrow> bool" where
  "orFalse b = (case b of None \<Rightarrow> False | Some v \<Rightarrow> v)"

text \<open>The \<open>create\<close> branch of the upsert: the row of an address seen for the first time.\<close>

definition createSession :: "updates \<Rightarrow> nat \<Rightarrow> AttackerSession" where
  "createSession u now =
     \<lparr> requestCount = (if isSet (incrementRequests u) then 1 else 0),
       wsMessageCount = (if isSet (incrementWsMessages u) then 1 else 0),
       authAttemptCount = (if isSet (incrementAuthAttempts u) then 1 else 0),
       suspiciousCount = (if isSet (incrementSuspicious u) then 1 else 0),
       isScanner = orFalse (upd_isScanner u),
       isBruteforcer = orFalse (upd_isBruteforcer u),
       isExploiter = orFalse (upd_isExploiter u),
       lastSeen = now \<rparr>"

text \<open>
  The \<open>update\<close> branch: \<open>lastSeen\<close> always; each counter by one when its increment is
  requested (the spread of the four counters is guarded by "some increment was
  requested", and inside it a counter that was not requested is \<open>undefined\<close>, which
  leaves it alone); each flag overwritten when the caller supplied it, whatever the value.
\<close>

definition updateSession :: "updates \<Rightarrow> nat \<Rightarrow> AttackerSession \<Rightarrow> AttackerSession" where
  "updateSession u now r =
     (let anyIncrement = (isSet (incrementRequests u) \<or> isSet (incrementWsMessages u) \<or>
                          isSet (incrementAuthAttempts u) \<or> isSet (incrementSuspicious u));
          r1 = r\<lparr>lastSeen := now\<rparr>;
          r2 = (if anyIncrement then
                  r1\<lparr> requestCount := requestCount r1 + (if isSet (incrementRequests u) then 1 else 0),
                      wsMessageCount := wsMessageCount r1 + (if isSet (incrementWsMessages u) then 1 else 0),
                      authAttemptCount := authAttemptCount r1 + (if isSet (incrementAuthAttempts u) then 1 else 0),
                      suspiciousCount := suspiciousCount r1 + (if isSet (incrementSuspicious u) then 1 else 0) \<rparr>
                else r1);
          r3 = (case upd_isScanner u of None \<Rightarrow> r2 | Some b \<Rightarrow> r2\<lparr>isScanner := b\<rparr>);
          r4 = (case upd_isBruteforcer u of None \<Rightarrow> r3 | Some b \<Rightarrow> r3\<lparr>isBruteforcer := b\<rparr>);
          r5 = (case upd_isExploiter u of None \<Rightarrow> r4 | Some b \<Rightarrow> r4\<lparr>isExploiter := b\<rparr>)
      in r5)"

definition updateAttackerSession :: "string \<Rightarrow> updates \<Rightarrow> nat \<Rightarrow> unit query" where
  "updateAttackerSession ipAddress u now s =
     (if down s then (Inl (StoreError ''attackerSession.upsert''), s)
      else (Inr (), s\<lparr>attackerSessions := (attackerSessions s)(ipAddress \<mapsto>
              (case attackerSessions s ipAddress of
                 None \<Rightarrow> createSession u now
               | Some r \<Rightarrow> updateSession u now r))\<rparr>))"

text \<open>A sequence of session updates for one address, each at its own time; a rejected one is skipped.\<close>

fun touchAll :: "string \<Rightarrow> (updates \<times> nat) list \<Rightarrow> store \<Rightarrow> store" where
  "touchAll ip [] s = s"
| "touchAll ip ((u, now) # us) s = touchAll ip us (snd (updateAttackerSession ip u now s))"

text \<open>The value of one flag of the session row of an address; false when there is no row.\<close>

definition flagOf :: "(AttackerSession \<Rightarrow> bool) \<Rightarrow> string \<Rightarrow> store \<Rightarrow> bool" where
  "flagOf f ip s = (case attackerSessions s ip of None \<Rightarrow> False | Some r \<Rightarrow> f r)"

section \<open>Regular expressions (the RegExp objects of logging/analyzer.ts)\<close>

text \<open>
  The syntax tree of a pattern literal, constructor by constructor as it is written:
  \<open>Esc c\<close> is the escaped character \<open>\c\<close>, \<open>Str\<close> a run of plain characters,
  \<open>Set negated items\<close> a bracket class.
\<close>

datatype setItem = One char | Range char char

datatype regex =
    Chr char
  | Esc char
  | Str string
  | Dot
  | Digit
  | Word
  | Space
  | Boundary
  | Set bool "setItem list"
  | Group regex
  | Seq regex regex
  | Alt regex regex
  | Opt regex
  | Star regex
  | Plus regex
  | AtLeast regex nat
  | Exactly regex nat

record RegExp =
  body :: regex
  ignoreCase :: bool

text \<open>
  \<open>Number.prototype.toString(radix)\<close> on a non-negative integer, for a radix from 2
  to 36: no leading zeros, lower case.
\<close>

definition digitChar :: "nat \<Rightarrow> char" where
  "digitChar d = ''0123456789abcdefghijklmnopqrstuvwxyz'' ! d"

function toStringRadix :: "nat \<Rightarrow> nat \<Rightarrow> string" where
  "toStringRadix r n =
     (if r < 2 \<or> n < r then [digitChar n] else toStringRadix r (n div r) @ [digitChar (n mod r)])"
  by pat_completeness auto
termination
  by (relation "measure (\<lambda>(r, n). n)") auto

text \<open>\<open>RegExp.prototype.source\<close>: the text between the slashes.\<close>

fun itemSource :: "setItem \<Rightarrow> string" where
  "itemSource (One c) = [c]"
| "itemSource (Range a b) = [a, CHR ''-'', b]"

fun source_of :: "regex \<Rightarrow> string" where
  "source_of (Chr c) = [c]"
| "source_of (Esc c) = [CHR 0x5C, c]"
| "source_of (Str s) = s"
| "source_of Dot = ''.''"
| "source_of Digit = [CHR 0x5C, CHR ''d'']"
| "source_of Word = [CHR 0x5C, CHR ''w'']"
| "source_of Space = [CHR 0x5C, CHR ''s'']"
| "source_of Boundary = [CHR 0x5C, CHR ''b'']"
| "source_of (Set negated items) =
     ''['' @ (if negated then ''^'' else []) @ concat (map itemSource items) @ '']''"
| "source_of (Group r) = ''('' @ source_of r @ '')''"
| "source_of (Seq a b) = source_of a @ source_of b"
| "source_of (Alt a b) = source_of a @ ''|'' @ source_of b"
| "source_of (Opt r) = source_of r @ ''?''"
| "source_of (Star r) = source_of r @ ''*''"
| "source_of (Plus r) = source_of r @ ''+''"
| "source_of (AtLeast r n) = source_of r @ ''{'' @ toStringRadix 10 n @ '',}''"
| "source_of (Exactly r n) = source_of r @ ''{'' @ toStringRadix 10 n @ ''}''"

definition source :: "RegExp \<Rightarrow> string" where
  "source p = source_of (body p)"

subsection \<open>Matching\<close>

definition code :: "char \<Rightarrow> nat" where
  "code c = of_char c"

definition isDigitChar :: "char \<Rightarrow> bool" where
  "isDigitChar c = (48 \<le> code c \<and> code c \<le> 57)"

definition isUpperChar :: "char \<Rightarrow> bool" where
  "isUpperChar c = (65 \<le> code c \<and> code c \<le> 90)"

definition isLowerChar :: "char \<Rightarrow> bool" where
  "isLowerChar c = (97 \<le> code c \<and> code c \<le> 122)"

text \<open>\<open>\w\<close>: letters, digits and the underscore.\<close>

definition isWordChar :: "char \<Rightarrow> bool" where
  "isWordChar c = (isDigitChar c \<or> isUpperChar c \<or> isLowerChar c \<or> code c = 95)"

text \<open>\<open>\s\<close> on 8-bit characters: tab, line feed, vertical tab, form feed, carriage return, space, no-break space.\<close>

definition isSpaceChar :: "char \<Rightarrow> bool" where
  "isSpaceChar c = (code c \<in> {9, 10, 11, 12, 13, 32, 160})"

text \<open>\<open>.\<close> matches everything but a line terminator.\<close>

definition isLineTerminator :: "char \<Rightarrow> bool" where
  "isLineTerminator c = (code c = 10 \<or> code c = 13)"

text \<open>
  The other case of an ASCII letter. Under the \<open>i\<close> flag a pattern character and an
  input character match when their canonical (upper-case) forms agree, and a
  character outside ASCII never canonicalises to an ASCII one.
\<close>

definition swapCase :: "char \<Rightarrow> char" where
  "swapCase c = (if isUpperChar c then char_of (code c + 32)
                 else if isLowerChar c then char_of (code c - 32) else c)"

definition sameChar :: "bool \<Rightarrow> char \<Rightarrow> char \<Rightarrow> bool" where
  "sameChar ic p c = (c = p \<or> (ic \<and> swapCase c = p))"

fun inItem :: "bool \<Rightarrow> setItem \<Rightarrow> char \<Rightarrow> bool" where
  "inItem ic (One p) c = sameChar ic p c"
| "inItem ic (Range lo hi) c =
     ((code lo \<le> code c \<and> code c \<le> code hi) \<or>
      (ic \<and> code lo \<le> code (swapCase c) \<and> code (swapCase c) \<le> code hi))"

text \<open>
  A position in the input: whether the character before it is a word character
  (for \<open>\b\<close>), and the rest of the input. A pattern maps the positions where a match
  may start to the positions where it may end.
\<close>

type_synonym pos = "bool \<times> string"

definition eat :: "(char \<Rightarrow> bool) \<Rightarrow> pos list \<Rightarrow> pos list" where
  "eat P ps = concat (map (\<lambda>(w, s). case s of [] \<Rightarrow> []
                 | c # cs \<Rightarrow> if P c then [(isWordChar c, cs)] else []) ps)"

definition atBoundary :: "pos \<Rightarrow> bool" where
  "atBoundary p = (fst p \<noteq> (case snd p of [] \<Rightarrow> False | c # cs \<Rightarrow> isWordChar c))"

text \<open>Up to \<open>n\<close> further rounds of \<open>f\<close>, keeping every position reached on the way.\<close>

primrec rounds :: "(pos list \<Rightarrow> pos list) \<Rightarrow> nat \<Rightarrow> pos list \<Rightarrow> pos list" where
  "rounds f 0 ps = ps"
| "rounds f (Suc n) ps = (if ps = [] then [] else ps @ rounds f n (remdups (f ps)))"

definition maxRest :: "pos list \<Rightarrow> nat" where
  "maxRest ps = fold (\<lambda>p m. max (length (snd p)) m) ps 0"

fun run :: "bool \<Rightarrow> regex \<Rightarrow> pos list \<Rightarrow> pos list" where
  "run ic (Chr p) ps = eat (sameChar ic p) ps"
| "run ic (Esc p) ps = eat (sameChar ic p) ps"
| "run ic (Str s) ps = fold (\<lambda>p. eat (sameChar ic p)) s ps"
| "run ic Dot ps = eat (\<lambda>c. \<not> isLineTerminator c) ps"
| "run ic Digit ps = eat isDigitChar ps"
| "run ic Word ps = eat isWordChar ps"
| "run ic Space ps = eat isSpaceChar ps"
| "run ic Boundary ps = filter atBoundary ps"
| "run ic (Set negated items) ps = eat (\<lambda>c. list_ex (\<lambda>i. inItem ic i c) items \<noteq> negated) ps"
| "run ic (Group r) ps = run ic r ps"
| "run ic (Seq a b) ps = run ic b (run ic a ps)"
| "run ic (Alt a b) ps = run ic a ps @ run ic b ps"
| "run ic (Opt r) ps = ps @ run ic r ps"
| "run ic (Star r) ps = rounds (\<lambda>qs. run ic r qs) (maxRest ps) ps"
| "run ic (Plus r) ps = rounds (\<lambda>qs. run ic r qs) (maxRest ps) (run ic r ps)"
| "run ic (AtLeast r n) ps =
     rounds (\<lambda>qs. run ic r qs) (maxRest ps) (((\<lambda>qs. run ic r qs) ^^ n) ps)"
| "run ic (Exactly r n) ps = ((\<lambda>qs. run ic r qs) ^^ n) ps"

text \<open>Every position of the input, the start and the end included.\<close>

fun starts :: "bool \<Rightarrow> string \<Rightarrow> pos list" where
  "starts w [] = [(w, [])]"
| "starts w (c # cs) = (w, c # cs) # starts (isWordChar c) cs"

text \<open>\<open>RegExp.prototype.test\<close> (no \<open>g\<close> or \<open>y\<close> flag): is there a match starting anywhere?\<close>

definition test :: "RegExp \<Rightarrow> string \<Rightarrow> bool" where
  "test p s = (run (ignoreCase p) (body p) (starts False s) \<noteq> [])"


subsection \<open>The pattern tables\<close>

(* SQL_INJECTION_PATTERNS in handlers.ts, by index:
     0  /(\b(SELECT|INSERT|UPDATE|DELETE|DROP|UNION|ALTER|CREATE|TRUNCATE)\b.*\b(FROM|INTO|SET|TABLE|DATABASE)\b)/i
     1  /(\b(OR|AND)\b\s+['"]?\d+['"]?\s*=\s*['"]?\d+['"]?)/i
     2  /(--|#|\/\*|\*\/)/
     3  /(\bOR\b\s+['"]?[a-z]+['"]?\s*=\s*['"]?[a-z]+['"]?)/i
     4  /('\s*(OR|AND)\s*')/i
     5  /(SLEEP\s*\(\s*\d+\s*\))/i
     6  /(BENCHMARK\s*\()/i
     7  /(LOAD_FILE\s*\()/i
     8  /(INTO\s+(OUTFILE|DUMPFILE))/i
     9  /(INFORMATION_SCHEMA)/i
    10  /(CONCAT\s*\(.*SELECT)/i
    11  /(\bEXEC\b|\bEXECUTE\b)/i
    12  /(xp_cmdshell)/i
*)
definition SQL_INJECTION_PATTERNS :: "RegExp list" where
  "SQL_INJECTION_PATTERNS = [
     \<lparr> body = (Group (Seq Boundary (Seq (Group (Alt (Str ''SELECT'') (Alt (Str ''INSERT'') (Alt (Str
         ''UPDATE'') (Alt (Str ''DELETE'') (Alt (Str ''DROP'') (Alt (Str ''UNION'') (Alt (Str
         ''ALTER'') (Alt (Str ''CREATE'') (Str ''TRUNCATE'')))))))))) (Seq Boundary (Seq (Star
         Dot) (Seq Boundary (Seq (Group (Alt (Str ''FROM'') (Alt (Str ''INTO'') (Alt (Str ''SET'')
         (Alt (Str ''TABLE'') (Str ''DATABASE'')))))) Boundary))))))),
       ignoreCase = True \<rparr>,
     \<lparr> body = (Group (Seq Boundary (Seq (Group (Alt (Str ''OR'') (Str ''AND''))) (Seq Boundary (Seq
         (Plus Space) (Seq (Opt (Set False [One (CHR 0x27), One (CHR 0x22)])) (Seq (Plus Digit)
         (Seq (Opt (Set False [One (CHR 0x27), One (CHR 0x22)])) (Seq (Star Space) (Seq (Chr (CHR
         ''='')) (Seq (Star Space) (Seq (Opt (Set False [One (CHR 0x27), One (CHR 0x22)])) (Seq
         (Plus Digit) (Opt (Set False [One (CHR 0x27), One (CHR 0x22)]))))))))))))))),
       ignoreCase = True \<rparr>,
     \<lparr> body = (Group (Alt (Str ''--'') (Alt (Chr (CHR ''#'')) (Alt (Seq (Esc (CHR ''/'')) (Esc (CHR
         0x2A))) (Seq (Esc (CHR 0x2A)) (Esc (CHR ''/''))))))),
       ignoreCase = False \<rparr>,
     \<lparr> body = (Group (Seq Boundary (Seq (Str ''OR'') (Seq Boundary (Seq (Plus Space) (Seq (Opt (Set
         False [One (CHR 0x27), One (CHR 0x22)])) (Seq (Plus (Set False [Range (CHR ''a'') (CHR
         ''z'')])) (Seq (Opt (Set False [One (CHR 0x27), One (CHR 0x22)])) (Seq (Star Space) (Seq
         (Chr (CHR ''='')) (Seq (Star Space) (Seq (Opt (Set False [One (CHR 0x27), One (CHR
         0x22)])) (Seq (Plus (Set False [Range (CHR ''a'') (CHR ''z'')])) (Opt (Set False [One
         (CHR 0x27), One (CHR 0x22)]))))))))))))))),
       ignoreCase = True \<rparr>,
     \<lparr> body = (Group (Seq (Chr (CHR 0x27)) (Seq (Star Space) (Seq (Group (Alt (Str ''OR'') (Str
         ''AND''))) (Seq (Star Space) (Chr (CHR 0x27))))))),
       ignoreCase = True \<rparr>,
     \<lparr> body = (Group (Seq (Str ''SLEEP'') (Seq (Star Space) (Seq (Esc (CHR 0x28)) (Seq (Star Space)
         (Seq (Plus Digit) (Seq (Star Space) (Esc (CHR 0x29))))))))),
       ignoreCase = True \<rparr>,
     \<lparr> body = (Group (Seq (Str ''BENCHMARK'') (Seq (Star Space) (Esc (CHR 0x28))))),
       ignoreCase = True \<rparr>,
     \<lparr> body = (Group (Seq (Str ''LOAD_FILE'') (Seq (Star Space) (Esc (CHR 0x28))))),
       ignoreCase = True \<rparr>,
     \<lparr> body = (Group (Seq (Str ''INTO'') (Seq (Plus Space) (Group (Alt (Str ''OUTFILE'') (Str
         ''DUMPFILE'')))))),
       ignoreCase = True \<rparr>,
     \<lparr> body = (Group (Str ''INFORMATION_SCHEMA'')),
       ignoreCase = True \<rparr>,
     \<lparr> body = (Group (Seq (Str ''CONCAT'') (Seq (Star Space) (Seq (Esc (CHR 0x28)) (Seq (Star Dot) (Str
         ''SELECT'')))))),
       ignoreCase = True \<rparr>,
     \<lparr> body = (Group (Alt (Seq Boundary (Seq (Str ''EXEC'') Boundary)) (Seq Boundary (Seq (Str
         ''EXECUTE'') Boundary)))),
       ignoreCase = True \<rparr>,
     \<lparr> body = (Group (Str ''xp_cmdshell'')),
       ignoreCase = True \<rparr>]"

(* COMMAND_INJECTION_PATTERNS in handlers.ts, by index:
     0  /(;|\||`|\$\(|\$\{)/
     1  /(\b(cat|ls|pwd|whoami|id|uname|wget|curl|nc|netcat|bash|sh|python|perl|ruby|php)\b)/i
     2  /(\.\.\/)|(\.\.\\)/
     3  /(\/etc\/passwd|\/etc\/shadow)/i
     4  /(\||\&\&|\|\||;)\s*(cat|ls|rm|mv|cp|wget|curl)/i
     5  /(\$\{.*\})/
     6  /(>\s*\/)/
     7  /(\breverse\b.*\bshell\b)/i
     8  /(\/bin\/bash|\/bin\/sh)/
     9  /(eval\s*\()/i
*)
definition COMMAND_INJECTION_PATTERNS :: "RegExp list" where
  "COMMAND_INJECTION_PATTERNS = [
     \<lparr> body = (Group (Alt (Chr (CHR '';'')) (Alt (Esc (CHR 0x7C)) (Alt (Chr (CHR 0x60)) (Alt (Seq (Esc
         (CHR 0x24)) (Esc (CHR 0x28))) (Seq (Esc (CHR 0x24)) (Esc (CHR 0x7B)))))))),
       ignoreCase = False \<rparr>,
     \<lparr> body = (Group (Seq Boundary (Seq (Group (Alt (Str ''cat'') (Alt (Str ''ls'') (Alt (Str ''pwd'')
         (Alt (Str ''whoami'') (Alt (Str ''id'') (Alt (Str ''uname'') (Alt (Str ''wget'') (Alt
         (Str ''curl'') (Alt (Str ''nc'') (Alt (Str ''netcat'') (Alt (Str ''bash'') (Alt (Str
         ''sh'') (Alt (Str ''python'') (Alt (Str ''perl'') (Alt (Str ''ruby'') (Str
         ''php''))))))))))))))))) Boundary))),
       ignoreCase = True \<rparr>,
     \<lparr> body = (Alt (Group (Seq (Esc (CHR 0x2E)) (Seq (Esc (CHR 0x2E)) (Esc (CHR ''/''))))) (Group (Seq
         (Esc (CHR 0x2E)) (Seq (Esc (CHR 0x2E)) (Esc (CHR 0x5C)))))),
       ignoreCase = False \<rparr>,
     \<lparr> body = (Group (Alt (Seq (Esc (CHR ''/'')) (Seq (Str ''etc'') (Seq (Esc (CHR ''/'')) (Str
         ''passwd'')))) (Seq (Esc (CHR ''/'')) (Seq (Str ''etc'') (Seq (Esc (CHR ''/'')) (Str
         ''shadow'')))))),
       ignoreCase = True \<rparr>,
     \<lparr> body = (Seq (Group (Alt (Esc (CHR 0x7C)) (Alt (Seq (Esc (CHR ''&'')) (Esc (CHR ''&''))) (Alt
         (Seq (Esc (CHR 0x7C)) (Esc (CHR 0x7C))) (Chr (CHR '';'')))))) (Seq (Star Space) (Group
         (Alt (Str ''cat'') (Alt (Str ''ls'') (Alt (Str ''rm'') (Alt (Str ''mv'') (Alt (Str
         ''cp'') (Alt (Str ''wget'') (Str ''curl'')))))))))),
       ignoreCase = True \<rparr>,
     \<lparr> body = (Group (Seq (Esc (CHR 0x24)) (Seq (Esc (CHR 0x7B)) (Seq (Star Dot) (Esc (CHR 0x7D)))))),
       ignoreCase = False \<rparr>,
     \<lparr> body = (Group (Seq (Chr (CHR ''>'')) (Seq (Star Space) (Esc (CHR ''/''))))),
       ignoreCase = False \<rparr>,
     \<lparr> body = (Group (Seq Boundary (Seq (Str ''reverse'') (Seq Boundary (Seq (Star Dot) (Seq Boundary
         (Seq (Str ''shell'') Boundary))))))),
       ignoreCase = True \<rparr>,
     \<lparr> body = (Group (Alt (Seq (Esc (CHR ''/'')) (Seq (Str ''bin'') (Seq (Esc (CHR ''/'')) (Str
         ''bash'')))) (Seq (Esc (CHR ''/'')) (Seq (Str ''bin'') (Seq (Esc (CHR ''/'')) (Str
         ''sh'')))))),
       ignoreCase = False \<rparr>,
     \<lparr> body = (Group (Seq (Str ''eval'') (Seq (Star Space) (Esc (CHR 0x28))))),
       ignoreCase = True \<rparr>]"

(* XSS_PATTERNS in handlers.ts, by index:
     0  /(<script[^>]*>)/i
     1  /(javascript\s*:)/i
     2  /(on\w+\s*=\s*["'])/i
     3  /(<img[^>]+onerror)/i
     4  /(<svg[^>]+onload)/i
     5  /(<iframe)/i
     6  /(document\.cookie)/i
     7  /(document\.location)/i
     8  /(window\.location)/i
     9  /(<body[^>]+onload)/i
    10  /(expression\s*\()/i
    11  /(vbscript\s*:)/i
*)
definition XSS_PATTERNS :: "RegExp list" where
  "XSS_PATTERNS = [
     \<lparr> body = (Group (Seq (Str ''<script'') (Seq (Star (Set True [One (CHR ''>'')])) (Chr (CHR
         ''>''))))),
       ignoreCase = True \<rparr>,
     \<lparr> body = (Group (Seq (Str ''javascript'') (Seq (Star Space) (Chr (CHR '':''))))),
       ignoreCase = True \<rparr>,
     \<lparr> body = (Group (Seq (Str ''on'') (Seq (Plus Word) (Seq (Star Space) (Seq (Chr (CHR ''='')) (Seq
         (Star Space) (Set False [One (CHR 0x22), One (CHR 0x27)]))))))),
       ignoreCase = True \<rparr>,
     \<lparr> body = (Group (Seq (Str ''<img'') (Seq (Plus (Set True [One (CHR ''>'')])) (Str ''onerror'')))),
       ignoreCase = True \<rparr>,
     \<lparr> body = (Group (Seq (Str ''<svg'') (Seq (Plus (Set True [One (CHR ''>'')])) (Str ''onload'')))),
       ignoreCase = True \<rparr>,
     \<lparr> body = (Group (Str ''<iframe'')),
       ignoreCase = True \<rparr>,
     \<lparr> body = (Group (Seq (Str ''document'') (Seq (Esc (CHR 0x2E)) (Str ''cookie'')))),
       ignoreCase = True \<rparr>,
     \<lparr> body = (Group (Seq (Str ''document'') (Seq (Esc (CHR 0x2E)) (Str ''location'')))),
       ignoreCase = True \<rparr>,
     \<lparr> body = (Group (Seq (Str ''window'') (Seq (Esc (CHR 0x2E)) (Str ''location'')))),
       ignoreCase = True \<rparr>,
     \<lparr> body = (Group (Seq (Str ''<body'') (Seq (Plus (Set True [One (CHR ''>'')])) (Str ''onload'')))),
       ignoreCase = True \<rparr>,
     \<lparr> body = (Group (Seq (Str ''expression'') (Seq (Star Space) (Esc (CHR 0x28))))),
       ignoreCase = True \<rparr>,
     \<lparr> body = (Group (Seq (Str ''vbscript'') (Seq (Star Space) (Chr (CHR '':''))))),
       ignoreCase = True \<rparr>]"

(* PATH_TRAVERSAL_PATTERNS in handlers.ts, by index:
     0  /(\.\.\/){2,}/
     1  /(\.\.\\){2,}/
     2  /(%2e%2e%2f)/i
     3  /(%252e%252e%252f)/i
     4  /(%c0%ae)/i
     5  /(\/etc\/)/i
     6  /(\/proc\/)/i
     7  /(\/var\/log)/i
     8  /(C:\\Windows)/i
     9  /(\/root\/)/i
*)
definition PATH_TRAVERSAL_PATTERNS :: "RegExp list" where
  "PATH_TRAVERSAL_PATTERNS = [
     \<lparr> body = (AtLeast (Group (Seq (Esc (CHR 0x2E)) (Seq (Esc (CHR 0x2E)) (Esc (CHR ''/''))))) 2),
       ignoreCase = False \<rparr>,
     \<lparr> body = (AtLeast (Group (Seq (Esc (CHR 0x2E)) (Seq (Esc (CHR 0x2E)) (Esc (CHR 0x5C))))) 2),
       ignoreCase = False \<rparr>,
     \<lparr> body = (Group (Str ''%2e%2e%2f'')),
       ignoreCase = True \<rparr>,
     \<lparr> body = (Group (Str ''%252e%252e%252f'')),
       ignoreCase = True \<rparr>,
     \<lparr> body = (Group (Str ''%c0%ae'')),
       ignoreCase = True \<rparr>,
     \<lparr> body = (Group (Seq (Esc (CHR ''/'')) (Seq (Str ''etc'') (Esc (CHR ''/''))))),
       ignoreCase = True \<rparr>,
     \<lparr> body = (Group (Seq (Esc (CHR ''/'')) (Seq (Str ''proc'') (Esc (CHR ''/''))))),
       ignoreCase = True \<rparr>,
     \<lparr> body = (Group (Seq (Esc (CHR ''/'')) (Seq (Str ''var'') (Seq (Esc (CHR ''/'')) (Str ''log''))))),
       ignoreCase = True \<rparr>,
     \<lparr> body = (Group (Seq (Str ''C:'') (Seq (Esc (CHR 0x5C)) (Str ''Windows'')))),
       ignoreCase = True \<rparr>,
     \<lparr> body = (Group (Seq (Esc (CHR ''/'')) (Seq (Str ''root'') (Esc (CHR ''/''))))),
       ignoreCase = True \<rparr>]"

(* PROMPT_INJECTION_PATTERNS in handlers.ts, by index:
     0  /(ignore\s+(previous|all|above)\s+(instructions?|prompts?|rules?))/i
     1  /(disregard\s+(your|the|all)\s+(instructions?|guidelines?|rules?))/i
     2  /(you\s+are\s+now\s+)/i
     3  /(from\s+now\s+on\s+you\s+(are|will|must))/i
     4  /(pretend\s+(you\s+are|to\s+be))/i
     5  /(act\s+as\s+(if|a|an))/i
     6  /(new\s+instructions?:)/i
     7  /(system\s*:)/i
     8  /(ADMIN\s*:)/i
     9  /(bypass\s+(safety|content|filter))/i
    10  /(jailbreak)/i
    11  /(DAN\s+mode)/i
    12  /(developer\s+mode)/i
    13  /(do\s+anything\s+now)/i
    14  /(\[SYSTEM\])/i
    15  /(override\s+(safety|security))/i
*)
definition PROMPT_INJECTION_PATTERNS :: "RegExp list" where
  "PROMPT_INJECTION_PATTERNS = [
     \<lparr> body = (Group (Seq (Str ''ignore'') (Seq (Plus Space) (Seq (Group (Alt (Str ''previous'') (Alt
         (Str ''all'') (Str ''above'')))) (Seq (Plus Space) (Group (Alt (Seq (Str ''instruction'')
         (Opt (Chr (CHR ''s'')))) (Alt (Seq (Str ''prompt'') (Opt (Chr (CHR ''s'')))) (Seq (Str
         ''rule'') (Opt (Chr (CHR ''s'')))))))))))),
       ignoreCase = True \<rparr>,
     \<lparr> body = (Group (Seq (Str ''disregard'') (Seq (Plus Space) (Seq (Group (Alt (Str ''your'') (Alt
         (Str ''the'') (Str ''all'')))) (Seq (Plus Space) (Group (Alt (Seq (Str ''instruction'')
         (Opt (Chr (CHR ''s'')))) (Alt (Seq (Str ''guideline'') (Opt (Chr (CHR ''s'')))) (Seq (Str
         ''rule'') (Opt (Chr (CHR ''s'')))))))))))),
       ignoreCase = True \<rparr>,
     \<lparr> body = (Group (Seq (Str ''you'') (Seq (Plus Space) (Seq (Str ''are'') (Seq (Plus Space) (Seq
         (Str ''now'') (Plus Space))))))),
       ignoreCase = True \<rparr>,
     \<lparr> body = (Group (Seq (Str ''from'') (Seq (Plus Space) (Seq (Str ''now'') (Seq (Plus Space) (Seq
         (Str ''on'') (Seq (Plus Space) (Seq (Str ''you'') (Seq (Plus Space) (Group (Alt (Str
         ''are'') (Alt (Str ''will'') (Str ''must''))))))))))))),
       ignoreCase = True \<rparr>,
     \<lparr> body = (Group (Seq (Str ''pretend'') (Seq (Plus Space) (Group (Alt (Seq (Str ''you'') (Seq (Plus
         Space) (Str ''are''))) (Seq (Str ''to'') (Seq (Plus Space) (Str ''be'')))))))),
       ignoreCase = True \<rparr>,
     \<lparr> body = (Group (Seq (Str ''act'') (Seq (Plus Space) (Seq (Str ''as'') (Seq (Plus Space) (Group
         (Alt (Str ''if'') (Alt (Chr (CHR ''a'')) (Str ''an''))))))))),
       ignoreCase = True \<rparr>,
     \<lparr> body = (Group (Seq (Str ''new'') (Seq (Plus Space) (Seq (Str ''instruction'') (Seq (Opt (Chr
         (CHR ''s''))) (Chr (CHR '':''))))))),
       ignoreCase = True \<rparr>,
     \<lparr> body = (Group (Seq (Str ''system'') (Seq (Star Space) (Chr (CHR '':''))))),
       ignoreCase = True \<rparr>,
     \<lparr> body = (Group (Seq (Str ''ADMIN'') (Seq (Star Space) (Chr (CHR '':''))))),
       ignoreCase = True \<rparr>,
     \<lparr> body = (Group (Seq (Str ''bypass'') (Seq (Plus Space) (Group (Alt (Str ''safety'') (Alt (Str
         ''content'') (Str ''filter''))))))),
       ignoreCase = True \<rparr>,
     \<lparr> body = (Group (Str ''jailbreak'')),
       ignoreCase = True \<rparr>,
     \<lparr> body = (Group (Seq (Str ''DAN'') (Seq (Plus Space) (Str ''mode'')))),
       ignoreCase = True \<rparr>,
     \<lparr> body = (Group (Seq (Str ''developer'') (Seq (Plus Space) (Str ''mode'')))),
       ignoreCase = True \<rparr>,
     \<lparr> body = (Group (Seq (Str ''do'') (Seq (Plus Space) (Seq (Str ''anything'') (Seq (Plus Space) (Str
         ''now'')))))),
       ignoreCase = True \<rparr>,
     \<lparr> body = (Group (Seq (Esc (CHR 0x5B)) (Seq (Str ''SYSTEM'') (Esc (CHR 0x5D))))),
       ignoreCase = True \<rparr>,
     \<lparr> body = (Group (Seq (Str ''override'') (Seq (Plus Space) (Group (Alt (Str ''safety'') (Str
         ''security'')))))),
       ignoreCase = True \<rparr>]"

(* SCANNER_PATTERNS in handlers.ts, by index:
     0  /(nmap|nikto|sqlmap|burp|dirbuster|gobuster|wfuzz)/i
     1  /(\/\.git\/)/i
     2  /(\/\.env)/i
     3  /(\/wp-admin|\/wp-content|\/wp-includes)/i
     4  /(\/phpmyadmin|\/pma)/i
     5  /(\/admin|\/administrator|\/manager)/i
     6  /(\/backup|\/bak|\.bak|\.backup)/i
     7  /(\/config|\/configuration)/i
     8  /(\.sql|\.db|\.sqlite)/i
     9  /(\/api\/v\d+\/)/i
    10  /(\/swagger|\/api-docs|\/openapi)/i
    11  /(robots\.txt|sitemap\.xml)/i
*)
definition SCANNER_PATTERNS :: "RegExp list" where
  "SCANNER_PATTERNS = [
     \<lparr> body = (Group (Alt (Str ''nmap'') (Alt (Str ''nikto'') (Alt (Str ''sqlmap'') (Alt (Str ''burp'')
         (Alt (Str ''dirbuster'') (Alt (Str ''gobuster'') (Str ''wfuzz'')))))))),
       ignoreCase = True \<rparr>,
     \<lparr> body = (Group (Seq (Esc (CHR ''/'')) (Seq (Esc (CHR 0x2E)) (Seq (Str ''git'') (Esc (CHR
         ''/'')))))),
       ignoreCase = True \<rparr>,
     \<lparr> body = (Group (Seq (Esc (CHR ''/'')) (Seq (Esc (CHR 0x2E)) (Str ''env'')))),
       ignoreCase = True \<rparr>,
     \<lparr> body = (Group (Alt (Seq (Esc (CHR ''/'')) (Str ''wp-admin'')) (Alt (Seq (Esc (CHR ''/'')) (Str
         ''wp-content'')) (Seq (Esc (CHR ''/'')) (Str ''wp-includes''))))),
       ignoreCase = True \<rparr>,
     \<lparr> body = (Group (Alt (Seq (Esc (CHR ''/'')) (Str ''phpmyadmin'')) (Seq (Esc (CHR ''/'')) (Str
         ''pma'')))),
       ignoreCase = True \<rparr>,
     \<lparr> body = (Group (Alt (Seq (Esc (CHR ''/'')) (Str ''admin'')) (Alt (Seq (Esc (CHR ''/'')) (Str
         ''administrator'')) (Seq (Esc (CHR ''/'')) (Str ''manager''))))),
       ignoreCase = True \<rparr>,
     \<lparr> body = (Group (Alt (Seq (Esc (CHR ''/'')) (Str ''backup'')) (Alt (Seq (Esc (CHR ''/'')) (Str
         ''bak'')) (Alt (Seq (Esc (CHR 0x2E)) (Str ''bak'')) (Seq (Esc (CHR 0x2E)) (Str
         ''backup'')))))),
       ignoreCase = True \<rparr>,
     \<lparr> body = (Group (Alt (Seq (Esc (CHR ''/'')) (Str ''config'')) (Seq (Esc (CHR ''/'')) (Str
         ''configuration'')))),
       ignoreCase = True \<rparr>,
     \<lparr> body = (Group (Alt (Seq (Esc (CHR 0x2E)) (Str ''sql'')) (Alt (Seq (Esc (CHR 0x2E)) (Str ''db''))
         (Seq (Esc (CHR 0x2E)) (Str ''sqlite''))))),
       ignoreCase = True \<rparr>,
     \<lparr> body = (Group (Seq (Esc (CHR ''/'')) (Seq (Str ''api'') (Seq (Esc (CHR ''/'')) (Seq (Chr (CHR
         ''v'')) (Seq (Plus Digit) (Esc (CHR ''/'')))))))),
       ignoreCase = True \<rparr>,
     \<lparr> body = (Group (Alt (Seq (Esc (CHR ''/'')) (Str ''swagger'')) (Alt (Seq (Esc (CHR ''/'')) (Str
         ''api-docs'')) (Seq (Esc (CHR ''/'')) (Str ''openapi''))))),
       ignoreCase = True \<rparr>,
     \<lparr> body = (Group (Alt (Seq (Str ''robots'') (Seq (Esc (CHR 0x2E)) (Str ''txt''))) (Seq (Str
         ''sitemap'') (Seq (Esc (CHR 0x2E)) (Str ''xml''))))),
       ignoreCase = True \<rparr>]"

(* EXPLOIT_PATTERNS in handlers.ts, by index:
     0  /(CVE-\d{4}-\d+)/i
     1  /(log4j|log4shell)/i
     2  /(spring4shell)/i
     3  /(shellshock)/i
     4  /(heartbleed)/i
     5  /(struts)/i
     6  /(jndi:ldap)/i
     7  /(jndi:rmi)/i
     8  /(jndi:dns)/i
     9  /(base64_decode\s*\()/i
    10  /(eval\s*\(\s*base64)/i
    11  /(gopher:\/\/)/i
    12  /(dict:\/\/)/i
    13  /(file:\/\/)/i
*)
definition EXPLOIT_PATTERNS :: "RegExp list" where
  "EXPLOIT_PATTERNS = [
     \<lparr> body = (Group (Seq (Str ''CVE-'') (Seq (Exactly Digit 4) (Seq (Chr (CHR ''-'')) (Plus Digit))))),
       ignoreCase = True \<rparr>,
     \<lparr> body = (Group (Alt (Str ''log4j'') (Str ''log4shell''))),
       ignoreCase = True \<rparr>,
     \<lparr> body = (Group (Str ''spring4shell'')),
       ignoreCase = True \<rparr>,
     \<lparr> body = (Group (Str ''shellshock'')),
       ignoreCase = True \<rparr>,
     \<lparr> body = (Group (Str ''heartbleed'')),
       ignoreCase = True \<rparr>,
     \<lparr> body = (Group (Str ''struts'')),
       ignoreCase = True \<rparr>,
     \<lparr> body = (Group (Str ''jndi:ldap'')),
       ignoreCase = True \<rparr>,
     \<lparr> body = (Group (Str ''jndi:rmi'')),
       ignoreCase = True \<rparr>,
     \<lparr> body = (Group (Str ''jndi:dns'')),
       ignoreCase = True \<rparr>,
     \<lparr> body = (Group (Seq (Str ''base64_decode'') (Seq (Star Space) (Esc (CHR 0x28))))),
       ignoreCase = True \<rparr>,
     \<lparr> body = (Group (Seq (Str ''eval'') (Seq (Star Space) (Seq (Esc (CHR 0x28)) (Seq (Star Space) (Str
         ''base64'')))))),
       ignoreCase = True \<rparr>,
     \<lparr> body = (Group (Seq (Str ''gopher:'') (Seq (Esc (CHR ''/'')) (Esc (CHR ''/''))))),
       ignoreCase = True \<rparr>,
     \<lparr> body = (Group (Seq (Str ''dict:'') (Seq (Esc (CHR ''/'')) (Esc (CHR ''/''))))),
       ignoreCase = True \<rparr>,
     \<lparr> body = (Group (Seq (Str ''file:'') (Seq (Esc (CHR ''/'')) (Esc (CHR ''/''))))),
       ignoreCase = True \<rparr>]"

section \<open>The attack classifier (logging/analyzer.ts)\<close>

record AnalysisResult =
  isSuspicious :: bool
  reasons :: "string list"
  severity :: severity
  attackTypes :: "string list"

record MatchResult =
  matched :: bool
  pattern :: "string option"

fun matchPatterns :: "string \<Rightarrow> RegExp list \<Rightarrow> MatchResult" where
  "matchPatterns payload [] = \<lparr> matched = False, pattern = None \<rparr>"
| "matchPatterns payload (p # ps) =
     (if test p payload then \<lparr> matched = True, pattern = Some (source p) \<rparr>
      else matchPatterns payload ps)"

text \<open>\<open>${r.pattern}\<close> in a template literal.\<close>

definition patternText :: "MatchResult \<Rightarrow> string" where
  "patternText r = (case pattern r of None \<Rightarrow> ''undefined'' | Some src \<Rightarrow> src)"

text \<open>
  The three accumulators of \<open>analyzePayload\<close>: reasons, attack types, maximum severity.
  Each of its seven blocks has the shape
  \<open>if (r.matched) { reasons.push(label + r.pattern); attackTypes.push(name); maxSeverity = ... }\<close>
  and differs in the label, the name and the assignment to \<open>maxSeverity\<close>.
\<close>

type_synonym acc = "string list \<times> string list \<times> severity"

fun block :: "MatchResult \<Rightarrow> string \<Rightarrow> string \<Rightarrow> (severity \<Rightarrow> severity) \<Rightarrow> acc \<Rightarrow> acc" where
  "block r label name assign (rs, ts, maxSeverity) =
     (if matched r then (rs @ [label @ patternText r], ts @ [name], assign maxSeverity)
      else (rs, ts, maxSeverity))"

definition analyzePayload :: "string \<Rightarrow> AnalysisResult" where
  "analyzePayload payload =
     (let a0 = (([], [], Low) :: acc);
          sqlResult = matchPatterns payload SQL_INJECTION_PATTERNS;
          a1 = block sqlResult ''SQL injection pattern detected: '' ''sql_injection''
                 (\<lambda>maxSeverity. High) a0;
          cmdResult = matchPatterns payload COMMAND_INJECTION_PATTERNS;
          a2 = block cmdResult ''Command injection pattern detected: '' ''command_injection''
                 (\<lambda>maxSeverity. Critical) a1;
          xssResult = matchPatterns payload XSS_PATTERNS;
          a3 = block xssResult ''XSS pattern detected: '' ''xss''
                 (\<lambda>maxSeverity. if maxSeverity = Low then Medium else maxSeverity) a2;
          pathResult = matchPatterns payload PATH_TRAVERSAL_PATTERNS;
          a4 = block pathResult ''Path traversal pattern detected: '' ''path_traversal''
                 (\<lambda>maxSeverity. if maxSeverity = Low \<or> maxSeverity = Medium then High
                                else maxSeverity) a3;
          promptResult = matchPatterns payload PROMPT_INJECTION_PATTERNS;
          a5 = block promptResult ''Prompt injection pattern detected: '' ''prompt_injection''
                 (\<lambda>maxSeverity. if maxSeverity = Low then Medium else maxSeverity) a4;
          scanResult = matchPatterns payload SCANNER_PATTERNS;
          a6 = block scanResult ''Scanner/recon pattern detected: '' ''scan''
                 (\<lambda>maxSeverity. if maxSeverity = Low then Low else maxSeverity) a5;
          exploitResult = matchPatterns payload EXPLOIT_PATTERNS;
          a7 = block exploitResult ''Exploit pattern detected: '' ''exploit''
                 (\<lambda>maxSeverity. Critical) a6
      in case a7 of (rs, ts, maxSeverity) \<Rightarrow>
           \<lparr> isSuspicious = (length rs > 0), reasons = rs, severity = maxSeverity,
             attackTypes = ts \<rparr>)"

subsection \<open>The process state and asynchronous code\<close>

datatype level = Debug | Info | Warn | Error

datatype readyState = CONNECTING | OPEN | CLOSING | CLOSED

record socket =
  readyState :: readyState
  outbox :: "outFrame list"

text \<open>The per-connection state object of gateway/websocket.ts.\<close>

record ClientState =
  connId :: string
  dbConnectionId :: ident
  ipAddress :: string
  authenticated :: bool
  clientInfo :: "json option"
  auth :: "json option"
  seq :: nat
  tickInterval :: "nat option"

text \<open>
  Everything a handler can read or change: the store, the clock (\<open>Date.now()\<close>), the
  logger's output, the sockets (by number), the state object of each socket (it lives on
  in the closures after the \<open>clients\<close> map has dropped it), the keys of the \<open>clients\<close>
  map, the sockets whose message and close listeners are registered, the running
  intervals (identifier to socket and period in milliseconds), and how many
  \<open>uuidv4()\<close> values have been drawn.
\<close>

record world =
  db :: store
  clock :: nat
  fakeVersion :: string
  logs :: "(level \<times> string) list"
  sockets :: "nat \<Rightarrow> socket"
  states :: "nat \<rightharpoonup> ClientState"
  clients :: "nat set"
  listening :: "nat set"
  intervals :: "nat \<rightharpoonup> nat \<times> nat"
  nextInterval :: nat
  uuidCount :: nat

text \<open>
  An \<open>async\<close> function: it changes the world and either returns or throws; what it did
  before throwing stays done.
\<close>

type_synonym 'a io = "world \<Rightarrow> (exn + 'a) \<times> world"

definition ret :: "'a \<Rightarrow> 'a io" where
  "ret x w = (Inr x, w)"

definition throw :: "exn \<Rightarrow> 'a io" where
  "throw e w = (Inl e, w)"

definition andThen :: "'a io \<Rightarrow> ('a \<Rightarrow> 'b io) \<Rightarrow> 'b io" where
  "andThen m f w = (case m w of (Inl e, w') \<Rightarrow> (Inl e, w') | (Inr x, w') \<Rightarrow> f x w')"

definition tryCatch :: "'a io \<Rightarrow> (exn \<Rightarrow> 'a io) \<Rightarrow> 'a io" where
  "tryCatch m h w = (case m w of (Inl e, w') \<Rightarrow> h e w' | (Inr x, w') \<Rightarrow> (Inr x, w'))"

text \<open>\<open>await\<close> of a query.\<close>

definition await :: "'a query \<Rightarrow> 'a io" where
  "await q w = (case q (db w) of (r, s') \<Rightarrow> (r, w\<lparr>db := s'\<rparr>))"

text \<open>\<open>await\<close> of a query that reads the time (\<open>new Date()\<close>).\<close>

definition awaitNow :: "(nat \<Rightarrow> 'a query) \<Rightarrow> 'a io" where
  "awaitNow q w = await (q (clock w)) w"

definition logger :: "level \<Rightarrow> string \<Rightarrow> unit io" where
  "logger l msg w = (Inr (), w\<lparr>logs := logs w @ [(l, msg)]\<rparr>)"

text \<open>\<open>for (const x of xs) await f(x)\<close>: the first rejection ends the loop.\<close>

fun forEach :: "'a list \<Rightarrow> ('a \<Rightarrow> unit io) \<Rightarrow> unit io" where
  "forEach [] f = ret ()"
| "forEach (x # xs) f = andThen (f x) (\<lambda>_. forEach xs f)"

subsection \<open>Analyse and log\<close>

record AnalyzeParams =
  ap_payload :: string
  ap_ipAddress :: string
  ap_userAgent :: "string option"
  ap_requestPath :: "string option"
  ap_requestMethod :: "string option"
  ap_connectionId :: "ident option"

text \<open>\<open>reasons.join("; ")\<close>\<close>

fun joinWith :: "string \<Rightarrow> string list \<Rightarrow> string" where
  "joinWith sep [] = []"
| "joinWith sep [x] = x"
| "joinWith sep (x # y # ys) = x @ sep @ joinWith sep (y # ys)"

definition analyzeAndLogSuspicious :: "AnalyzeParams \<Rightarrow> AnalysisResult io" where
  "analyzeAndLogSuspicious params =
     (let result = analyzePayload (ap_payload params) in
      if isSuspicious result then
        andThen (forEach (attackTypes result) (\<lambda>attackType.
          await (logSuspiciousActivity
            \<lparr> sa_type = attackType,
              sa_severity = severity result,
              sa_description = joinWith ''; '' (reasons result),
              sa_payload = take 5000 (ap_payload params),
              sa_ipAddress = ap_ipAddress params,
              sa_userAgent = ap_userAgent params,
              sa_requestPath = ap_requestPath params,
              sa_requestMethod = ap_requestMethod params,
              sa_connectionId = ap_connectionId params \<rparr>)))
        (\<lambda>_. andThen (awaitNow (updateAttackerSession (ap_ipAddress params)
            (noUpdates\<lparr> incrementSuspicious := Some True,
               upd_isScanner := Some (''scan'' \<in> set (attackTypes result)),
               upd_isExploiter := Some (''exploit'' \<in> set (attackTypes result) \<or>
                                        ''command_injection'' \<in> set (attackTypes result)) \<rparr>)))
        (\<lambda>_. andThen (logger Warn (''Suspicious activity from '' @ ap_ipAddress params))
        (\<lambda>_. ret result)))
      else ret result)"

text \<open>
  The seven categories in the order \<open>analyzePayload\<close> checks them: the name it
  reports, the text that starts its reason, its pattern table, and the base severity of
  the specification's table (section 4.1).
\<close>

definition categories :: "(string \<times> string \<times> RegExp list \<times> severity) list" where
  "categories = [
     (''sql_injection'', ''SQL injection pattern detected: '', SQL_INJECTION_PATTERNS, High),
     (''command_injection'', ''Command injection pattern detected: '',
        COMMAND_INJECTION_PATTERNS, Critical),
     (''xss'', ''XSS pattern detected: '', XSS_PATTERNS, Medium),
     (''path_traversal'', ''Path traversal pattern detected: '', PATH_TRAVERSAL_PATTERNS, High),
     (''prompt_injection'', ''Prompt injection pattern detected: '',
        PROMPT_INJECTION_PATTERNS, Medium),
     (''scan'', ''Scanner/recon pattern detected: '', SCANNER_PATTERNS, Low),
     (''exploit'', ''Exploit pattern detected: '', EXPLOIT_PATTERNS, Critical)]"

text \<open>The categories of which some pattern matches the payload, in that order.\<close>

definition matchedCategories :: "string \<Rightarrow> (string \<times> string \<times> RegExp list \<times> severity) list" where
  "matchedCategories payload =
     filter (\<lambda>(name, label, ps, sev). \<exists>p \<in> set ps. test p payload) categories"

fun rank :: "severity \<Rightarrow> nat" where
  "rank Low = 0"
| "rank Medium = 1"
| "rank High = 2"
| "rank Critical = 3"

subsection \<open>The credential hash in the specification's words\<close>

text \<open>
  A rolling hash: start from 0 and, for each character code \<open>c\<close>, replace \<open>h\<close> by
  \<open>31 h + c\<close>. The fingerprint keeps it to 32 bits, read as a signed integer.
\<close>

definition rolling31 :: "string \<Rightarrow> int" where
  "rolling31 s = foldl (\<lambda>h c. 31 * h + int (code c)) 0 s"

text \<open>The number that a string of digits denotes in radix \<open>r\<close>.\<close>

definition digitValue :: "char \<Rightarrow> nat" where
  "digitValue c = length (takeWhile (\<lambda>d. d \<noteq> c) ''0123456789abcdefghijklmnopqrstuvwxyz'')"

definition fromDigits :: "nat \<Rightarrow> string \<Rightarrow> nat" where
  "fromDigits r s = foldl (\<lambda>a c. a * r + digitValue c) 0 s"

section \<open>The method registry (gateway/handlers.ts)\<close>

record HandlerContext =
  ctx_connId :: string
  ctx_clientId :: "json option"
  ctx_ipAddress :: string

type_synonym MethodHandler = "RequestFrame \<Rightarrow> HandlerContext \<Rightarrow> ResponseFrame io"

text \<open>The \<open>handlers\<close> map.\<close>

type_synonym registry = "string \<rightharpoonup> MethodHandler"

definition registerHandler :: "string \<Rightarrow> MethodHandler \<Rightarrow> registry \<Rightarrow> registry" where
  "registerHandler method handler handlers = handlers(method \<mapsto> handler)"

text \<open>\<open>handlers.get(request.method)\<close>: the keys are strings, so only a string finds one.\<close>

fun getHandler :: "registry \<Rightarrow> json option \<Rightarrow> MethodHandler option" where
  "getHandler handlers (Some (JStr m)) = handlers m"
| "getHandler handlers v = None"

text \<open>\<open>String(n)\<close> for an integer.\<close>

definition intText :: "int \<Rightarrow> string" where
  "intText n = (if n < 0 then ''-'' @ toStringRadix 10 (nat (- n)) else toStringRadix 10 (nat n))"

text \<open>A value inside a template literal; an array joins its elements with commas.\<close>

fun valueText :: "json \<Rightarrow> string" where
  "valueText JNull = ''null''"
| "valueText (JBool b) = (if b then ''true'' else ''false'')"
| "valueText (JNum n) = intText n"
| "valueText (JStr s) = s"
| "valueText (JArr xs) = joinWith '','' (map (\<lambda>x. if x = JNull then [] else valueText x) xs)"
| "valueText (JObj kvs) = ''[object Object]''"

definition templateText :: "json option \<Rightarrow> string" where
  "templateText v = (case v of None \<Rightarrow> ''undefined'' | Some x \<Rightarrow> valueText x)"

definition handleRequest :: "registry \<Rightarrow> RequestFrame \<Rightarrow> HandlerContext \<Rightarrow> ResponseFrame io" where
  "handleRequest handlers request context =
     (case getHandler handlers (req_method request) of
        None \<Rightarrow>
          ret (createErrorResponse (req_id request) METHOD_NOT_FOUND
                (''Method not found: '' @ templateText (req_method request)))
      | Some handler \<Rightarrow>
          tryCatch (handler request context)
            (\<lambda>error. ret (createErrorResponse (req_id request) INTERNAL_ERROR
                            ''Internal server error'')))"

text \<open>
  Four of the registered handlers, the ones whose canned payload reads neither the clock
  nor a fresh identifier; the rest of the catalogue has the same shape.
\<close>

definition channelsLogout :: MethodHandler where
  "channelsLogout req ctx = ret (createSuccessResponse (req_id req) (Some (JObj [(''ok'', JBool True)])))"

definition sessionsReset :: MethodHandler where
  "sessionsReset req ctx =
     ret (createSuccessResponse (req_id req) (Some (JObj [(''ok'', JBool True), (''cleared'', JBool True)])))"

definition configSet :: MethodHandler where
  "configSet req ctx = ret (createSuccessResponse (req_id req) (Some (JObj [(''ok'', JBool True)])))"

definition chatAbort :: MethodHandler where
  "chatAbort req ctx =
     ret (createSuccessResponse (req_id req) (Some (JObj [(''ok'', JBool True), (''aborted'', JBool True)])))"

definition someHandlers :: registry where
  "someHandlers =
     registerHandler ''chat.abort'' chatAbort
       (registerHandler ''config.set'' configSet
         (registerHandler ''sessions.reset'' sessionsReset
           (registerHandler ''channels.logout'' channelsLogout Map.empty)))"


section \<open>HTTP requests and the client address\<close>

text \<open>
  An incoming request (also the upgrade request of a WebSocket). Node joins repeated
  \<open>X-Forwarded-For\<close> and \<open>X-Real-IP\<close> header lines into one string, so a header is a
  string or absent and the \<open>Array.isArray\<close> branches never run. \<open>hr_query\<close> is
  \<open>JSON.stringify(req.query)\<close>; the body is present when the raw parser produced a
  buffer; \<open>hr_ip\<close> is Express's \<open>req.ip\<close>, \<open>hr_remoteAddress\<close> the socket's.
\<close>

record HttpRequest =
  hr_headers :: "string \<rightharpoonup> string"
  hr_method :: string
  hr_path :: string
  hr_query :: string
  hr_body :: "string option"
  hr_ip :: "string option"
  hr_remoteAddress :: "string option"

text \<open>\<open>String.prototype.trim\<close>\<close>

definition trim :: "string \<Rightarrow> string" where
  "trim s = rev (dropWhile isSpaceChar (rev (dropWhile isSpaceChar s)))"

text \<open>\<open>s.split(",")[0]\<close>\<close>

definition firstField :: "string \<Rightarrow> string" where
  "firstField s = takeWhile (\<lambda>c. c \<noteq> CHR '','') s"

text \<open>A header that is present and not the empty string.\<close>

definition header :: "HttpRequest \<Rightarrow> string \<Rightarrow> string option" where
  "header req name = (case hr_headers req name of None \<Rightarrow> None
                        | Some v \<Rightarrow> if v = [] then None else Some v)"

text \<open>gateway/server.ts\<close>

definition getClientIp_server :: "HttpRequest \<Rightarrow> string" where
  "getClientIp_server req =
     (case header req ''x-forwarded-for'' of
        Some forwarded \<Rightarrow> trim (firstField forwarded)
      | None \<Rightarrow>
         (case header req ''x-real-ip'' of
            Some realIp \<Rightarrow> realIp
          | None \<Rightarrow>
             (case hr_ip req of
                Some a \<Rightarrow> a
              | None \<Rightarrow> (case hr_remoteAddress req of Some a \<Rightarrow> a | None \<Rightarrow> ''unknown''))))"

text \<open>channels/index.ts\<close>

definition getClientIp_channels :: "HttpRequest \<Rightarrow> string" where
  "getClientIp_channels req =
     (case header req ''x-forwarded-for'' of
        Some forwarded \<Rightarrow> trim (firstField forwarded)
      | None \<Rightarrow>
         (case hr_ip req of
            Some a \<Rightarrow> a
          | None \<Rightarrow> (case hr_remoteAddress req of Some a \<Rightarrow> a | None \<Rightarrow> ''unknown'')))"

text \<open>gateway/websocket.ts\<close>

definition getClientIp_websocket :: "HttpRequest \<Rightarrow> string" where
  "getClientIp_websocket req =
     (case header req ''x-forwarded-for'' of
        Some forwarded \<Rightarrow> trim (firstField forwarded)
      | None \<Rightarrow>
         (case header req ''x-real-ip'' of
            Some realIp \<Rightarrow> realIp
          | None \<Rightarrow> (case hr_remoteAddress req of Some a \<Rightarrow> a | None \<Rightarrow> ''unknown'')))"

section \<open>The WebSocket handler (gateway/websocket.ts)\<close>

subsection \<open>Credential fingerprint\<close>

text \<open>
  One round of the loop: \<open>hash = (hash << 5) - hash + char; hash = hash & hash\<close>, that
  is, arithmetic modulo \<open>2^32\<close> read as a signed 32-bit integer.
\<close>

definition hashStep :: "32 word \<Rightarrow> char \<Rightarrow> 32 word" where
  "hashStep hash c = push_bit 5 hash - hash + of_nat (code c)"

definition hashCredential :: "string \<Rightarrow> string" where
  "hashCredential credential =
     (if credential = [] then []
      else ''hash_'' @ toStringRadix 16 (nat \<bar>sint (foldl hashStep 0 credential)\<bar>))"

text \<open>
  The two arguments \<open>hashCredential(credential)\<close> and \<open>credential.slice(0, 100)\<close> of
  the \<open>logAuthAttempt\<close> call. The credential is \<open>auth.password || auth.token || ""\<close>,
  whatever JSON the client put there: a number or \<open>true\<close> has no \<open>slice\<close>, an
  object's \<open>slice\<close> is not callable, a non-empty array has no \<open>charCodeAt\<close>; the
  empty array passes both calls and the store's client rejects it as a string column's value.
\<close>

fun credentialArgs :: "json option \<Rightarrow> exn + string \<times> string" where
  "credentialArgs (Some (JStr s)) = Inr (hashCredential s, take 100 s)"
| "credentialArgs (Some (JArr [])) = Inl (StoreError ''authAttempt.create: credentialRaw'')"
| "credentialArgs v = Inl (TypeError ''credential.slice is not a function'')"

subsection \<open>Sockets, state objects, timers\<close>

text \<open>
  \<open>ws.send\<close> without a callback: it throws while the socket is still connecting, writes
  when it is open, and drops the data silently once it is closing or closed.
\<close>

definition wsSend :: "nat \<Rightarrow> outFrame \<Rightarrow> unit io" where
  "wsSend ws frame w =
     (case readyState (sockets w ws) of
        CONNECTING \<Rightarrow> (Inl (SocketError ''WebSocket is not open: readyState 0''), w)
      | OPEN \<Rightarrow> (Inr (), w\<lparr>sockets := (sockets w)
                     (ws := (sockets w ws)\<lparr>outbox := outbox (sockets w ws) @ [frame]\<rparr>)\<rparr>)
      | CLOSING \<Rightarrow> (Inr (), w)
      | CLOSED \<Rightarrow> (Inr (), w))"

definition getState :: "nat \<Rightarrow> ClientState io" where
  "getState ws w =
     (case states w ws of
        None \<Rightarrow> (Inl (TypeError ''no state object''), w)
      | Some st \<Rightarrow> (Inr st, w))"

definition modifyState :: "nat \<Rightarrow> (ClientState \<Rightarrow> ClientState) \<Rightarrow> unit io" where
  "modifyState ws f w =
     (case states w ws of
        None \<Rightarrow> (Inl (TypeError ''no state object''), w)
      | Some st \<Rightarrow> (Inr (), w\<lparr>states := (states w)(ws \<mapsto> f st)\<rparr>))"

definition liftE :: "exn + 'a \<Rightarrow> 'a io" where
  "liftE r w = (r, w)"

text \<open>\<open>uuidv4()\<close>: a string not drawn before.\<close>

definition uuidv4 :: "string io" where
  "uuidv4 w = (Inr (''uuid-'' @ toStringRadix 10 (uuidCount w)), w\<lparr>uuidCount := Suc (uuidCount w)\<rparr>)"

text \<open>\<open>setInterval(callback, ms)\<close> for the tick callback of a socket; \<open>clearInterval\<close>.\<close>

definition setInterval :: "nat \<Rightarrow> nat \<Rightarrow> nat io" where
  "setInterval ws ms w =
     (Inr (nextInterval w),
      w\<lparr>intervals := (intervals w)(nextInterval w \<mapsto> (ws, ms)),
        nextInterval := Suc (nextInterval w)\<rparr>)"

definition clearInterval :: "nat \<Rightarrow> unit io" where
  "clearInterval t w = (Inr (), w\<lparr>intervals := (intervals w)(t := None)\<rparr>)"

subsection \<open>The handshake\<close>

text \<open>
  ToNumber of a protocol bound, for numbers and booleans; a bound of another type is
  treated as not a number, for which both comparisons are false. The bounds only decide
  whether a warning is logged.
\<close>

fun toNumber :: "json \<Rightarrow> int option" where
  "toNumber (JNum n) = Some n"
| "toNumber (JBool b) = Some (if b then 1 else 0)"
| "toNumber v = None"

definition protocolMismatch :: "json \<Rightarrow> json \<Rightarrow> bool" where
  "protocolMismatch minProto maxProto =
     ((case toNumber minProto of None \<Rightarrow> False | Some lo \<Rightarrow> PROTOCOL_VERSION < lo) \<or>
      (case toNumber maxProto of None \<Rightarrow> False | Some hi \<Rightarrow> PROTOCOL_VERSION > hi))"

record Analysis =
  an_isSuspicious :: bool
  an_reasons :: "string list"

definition handleConnect :: "nat \<Rightarrow> json option \<Rightarrow> string \<Rightarrow> Analysis \<Rightarrow> unit io" where
  "handleConnect ws parsed raw analysis =
     andThen (getState ws) (\<lambda>state.
     andThen (await (logWebSocketMessage
       \<lparr> wsm_connectionId = dbConnectionId state, wsm_direction = Inbound,
         wsm_frameType = Some (JStr ''connect''), wsm_method = None, wsm_requestId = None,
         wsm_payload = Received (case parsed of None \<Rightarrow> JNull | Some p \<Rightarrow> p),
         wsm_raw = Text (take 10000 raw),
         wsm_isSuspicious = an_isSuspicious analysis,
         wsm_suspiciousReasons = Some (an_reasons analysis) \<rparr>)) (\<lambda>_.
     andThen (liftE (getProp parsed ''client'')) (\<lambda>client.
     andThen (modifyState ws (\<lambda>st. st\<lparr>clientInfo := client\<rparr>)) (\<lambda>_.
     andThen (liftE (getProp parsed ''auth'')) (\<lambda>authv.
     andThen (modifyState ws (\<lambda>st. st\<lparr>auth := authv\<rparr>)) (\<lambda>_.
     let password = getOpt authv ''password'';
         token = getOpt authv ''token'';
         authMethod = (if truthy password then ''password''
                       else if truthy token then ''token'' else ''none'');
         credential = orElse (orElse password token) (Some (JStr []))
     in
     andThen (liftE (credentialArgs credential)) (\<lambda>(hashed, rawPrefix).
     andThen (await (logAuthAttempt
       \<lparr> auth_connectionId = dbConnectionId state,
         auth_ipAddress = ipAddress state,
         auth_method = authMethod,
         auth_credential = hashed,
         auth_credentialRaw = rawPrefix,
         auth_success = True,
         auth_clientId = getOpt client ''id'',
         auth_clientVersion = getOpt client ''version'',
         auth_platform = getOpt client ''platform'' \<rparr>)) (\<lambda>_.
     andThen (awaitNow (updateAttackerSession (ipAddress state)
       (noUpdates\<lparr>incrementAuthAttempts := Some True\<rparr>))) (\<lambda>_.
     andThen (liftE (getProp parsed ''minProtocol'')) (\<lambda>minP.
     andThen (liftE (getProp parsed ''maxProtocol'')) (\<lambda>maxP.
     andThen (if protocolMismatch (nullish minP (JNum 1)) (nullish maxP (JNum 1))
              then logger Warn (''Protocol mismatch from '' @ connId state)
              else ret ()) (\<lambda>_.
     andThen (modifyState ws (\<lambda>st. st\<lparr>authenticated := True\<rparr>)) (\<lambda>_.
     andThen (\<lambda>w. ret (generateHelloOk (fakeVersion w) (connId state)) w) (\<lambda>helloOk0.
     andThen (liftE (getProp parsed ''device'')) (\<lambda>device.
     andThen (if truthy device
              then andThen uuidv4 (\<lambda>u. (\<lambda>w. ret (helloOk0\<lparr>hello_auth := Some
                     \<lparr> deviceToken = u, role = ''admin'', scopes = [''*''],
                       issuedAtMs = clock w \<rparr>\<rparr>) w))
              else ret helloOk0) (\<lambda>helloOk.
     andThen (wsSend ws (HelloOkFrame helloOk)) (\<lambda>_.
     andThen (await (logWebSocketMessage
       \<lparr> wsm_connectionId = dbConnectionId state, wsm_direction = Outbound,
         wsm_frameType = Some (JStr ''hello-ok''), wsm_method = None, wsm_requestId = None,
         wsm_payload = Sent (HelloOkFrame helloOk),
         wsm_raw = Stringified (HelloOkFrame helloOk),
         wsm_isSuspicious = False, wsm_suspiciousReasons = None \<rparr>)) (\<lambda>_.
     andThen (logger Info (''Client authenticated: '' @ connId state)) (\<lambda>_.
     andThen (setInterval ws 30000) (\<lambda>t.
     modifyState ws (\<lambda>st. st\<lparr>tickInterval := Some t\<rparr>)))))))))))))))))))))"

text \<open>The callback of the interval that \<open>handleConnect\<close> starts for socket \<open>ws\<close>.\<close>

definition tickCallback :: "nat \<Rightarrow> unit io" where
  "tickCallback ws =
     (\<lambda>w. (if readyState (sockets w ws) = OPEN
            then andThen (getState ws) (\<lambda>state.
                 andThen (modifyState ws (\<lambda>st. st\<lparr>seq := seq st + 1\<rparr>)) (\<lambda>_.
                 wsSend ws (EvFrame (generateTickEvent (clock w) (seq state)))))
            else ret ()) w)"

subsection \<open>Request frames and other messages\<close>

definition handleRequestFrame ::
    "registry \<Rightarrow> nat \<Rightarrow> RequestFrame \<Rightarrow> json \<Rightarrow> string \<Rightarrow> Analysis \<Rightarrow> unit io" where
  "handleRequestFrame handlers ws frame frameJson raw analysis =
     andThen (getState ws) (\<lambda>state.
     andThen (await (logWebSocketMessage
       \<lparr> wsm_connectionId = dbConnectionId state, wsm_direction = Inbound,
         wsm_frameType = Some (JStr ''req''), wsm_method = req_method frame,
         wsm_requestId = req_id frame,
         wsm_payload = Received frameJson,
         wsm_raw = Text (take 10000 raw),
         wsm_isSuspicious = an_isSuspicious analysis,
         wsm_suspiciousReasons = Some (an_reasons analysis) \<rparr>)) (\<lambda>_.
     let context = \<lparr> ctx_connId = connId state,
                     ctx_clientId = getOpt (clientInfo state) ''id'',
                     ctx_ipAddress = ipAddress state \<rparr>
     in
     andThen (handleRequest handlers frame context) (\<lambda>response.
     andThen (wsSend ws (ResFrame response)) (\<lambda>_.
     andThen (await (logWebSocketMessage
       \<lparr> wsm_connectionId = dbConnectionId state, wsm_direction = Outbound,
         wsm_frameType = Some (JStr ''res''), wsm_method = req_method frame,
         wsm_requestId = req_id frame,
         wsm_payload = Sent (ResFrame response),
         wsm_raw = Stringified (ResFrame response),
         wsm_isSuspicious = False, wsm_suspiciousReasons = None \<rparr>)) (\<lambda>_.
     logger Debug ''Handled request'')))))"

text \<open>
  \<open>handleMessage\<close>: \<open>raw\<close> is the text received and \<open>parsed\<close> the result of
  \<open>JSON.parse(raw)\<close>, \<open>None\<close> when it throws.
\<close>

definition handleMessage :: "registry \<Rightarrow> nat \<Rightarrow> string \<Rightarrow> json option \<Rightarrow> unit io" where
  "handleMessage handlers ws raw parsed =
     andThen (getState ws) (\<lambda>state.
     andThen (logger Debug (''Received message from '' @ connId state)) (\<lambda>_.
     let result = analyzePayload raw;
         analysis = \<lparr> an_isSuspicious = isSuspicious result, an_reasons = reasons result \<rparr>
     in
     andThen (if isSuspicious result
              then logger Warn (''Suspicious WebSocket message from '' @ ipAddress state)
              else ret ()) (\<lambda>_.
     case parsed of
       None \<Rightarrow>
         andThen (logger Warn (''Invalid JSON from '' @ connId state)) (\<lambda>_.
         await (logWebSocketMessage
           \<lparr> wsm_connectionId = dbConnectionId state, wsm_direction = Inbound,
             wsm_frameType = Some (JStr ''invalid''), wsm_method = None, wsm_requestId = None,
             wsm_payload = Received (JObj [(''raw'', JStr (take 10000 raw))]),
             wsm_raw = Text (take 10000 raw),
             wsm_isSuspicious = an_isSuspicious analysis,
             wsm_suspiciousReasons = Some (an_reasons analysis) \<rparr>))
     | Some p \<Rightarrow>
         if \<not> authenticated state then handleConnect ws parsed raw analysis
         else
           (case parseFrame parsed of
              None \<Rightarrow>
                andThen (logger Warn (''Invalid frame from '' @ connId state)) (\<lambda>_.
                await (logWebSocketMessage
                  \<lparr> wsm_connectionId = dbConnectionId state, wsm_direction = Inbound,
                    wsm_frameType = Some (JStr ''invalid''), wsm_method = None,
                    wsm_requestId = None,
                    wsm_payload = Received p,
                    wsm_raw = Text (take 10000 raw),
                    wsm_isSuspicious = an_isSuspicious analysis,
                    wsm_suspiciousReasons = Some (an_reasons analysis) \<rparr>))
            | Some frame \<Rightarrow>
                if isRequestFrame frame
                then handleRequestFrame handlers ws (asRequestFrame frame) frame raw analysis
                else await (logWebSocketMessage
                  \<lparr> wsm_connectionId = dbConnectionId state, wsm_direction = Inbound,
                    wsm_frameType = getOpt (Some frame) ''type'', wsm_method = None,
                    wsm_requestId = None,
                    wsm_payload = Received frame,
                    wsm_raw = Text (take 10000 raw),
                    wsm_isSuspicious = an_isSuspicious analysis,
                    wsm_suspiciousReasons = Some (an_reasons analysis) \<rparr>)))))"

subsection \<open>Connection set-up and the listeners\<close>

text \<open>
  \<open>handleConnection\<close>, called by the server once the upgrade is complete and the
  socket is open. The listeners are registered last, after the awaited session update.
\<close>

definition handleConnection :: "nat \<Rightarrow> HttpRequest \<Rightarrow> unit io" where
  "handleConnection ws req =
     andThen uuidv4 (\<lambda>cid.
     let ipAddr = getClientIp_websocket req;
         userAgent = hr_headers req ''user-agent''
     in
     andThen (logger Info (''New WebSocket connection from '' @ ipAddr)) (\<lambda>_.
     andThen (tryCatch (await (createConnection ipAddr userAgent Websocket))
                (\<lambda>error. andThen (logger Error ''Failed to create connection record:'')
                   (\<lambda>_. ret (Uuid cid)))) (\<lambda>dbId.
     andThen (\<lambda>w. (Inr (), w\<lparr>states := (states w)(ws \<mapsto>
                \<lparr> connId = cid, dbConnectionId = dbId, ipAddress = ipAddr,
                  authenticated = False, clientInfo = None, auth = None, seq = 0,
                  tickInterval = None \<rparr>),
                clients := insert ws (clients w)\<rparr>)) (\<lambda>_.
     andThen (awaitNow (updateAttackerSession ipAddr
                (noUpdates\<lparr>incrementWsMessages := Some True\<rparr>))) (\<lambda>_.
     (\<lambda>w. (Inr (), w\<lparr>listening := insert ws (listening w)\<rparr>)))))))"

text \<open>The \<open>message\<close> listener: whatever \<open>handleMessage\<close> throws is logged and dropped.\<close>

definition onMessage :: "registry \<Rightarrow> nat \<Rightarrow> string \<Rightarrow> json option \<Rightarrow> unit io" where
  "onMessage handlers ws raw parsed =
     tryCatch (handleMessage handlers ws raw parsed)
       (\<lambda>error. logger Error ''Error handling WebSocket message:'')"

text \<open>The \<open>close\<close> listener.\<close>

definition onClose :: "nat \<Rightarrow> unit io" where
  "onClose ws =
     andThen (getState ws) (\<lambda>state.
     andThen (logger Info (''WebSocket closed: '' @ connId state)) (\<lambda>_.
     andThen (case tickInterval state of None \<Rightarrow> ret () | Some t \<Rightarrow> clearInterval t) (\<lambda>_.
     andThen (\<lambda>w. (Inr (), w\<lparr>clients := clients w - {ws}\<rparr>)) (\<lambda>_.
     tryCatch (awaitNow (closeConnection (dbConnectionId state)))
       (\<lambda>error. logger Error ''Failed to close connection record:'')))))"

subsection \<open>What can happen to the process\<close>

text \<open>
  The events the runtime delivers. An upgrade opens socket \<open>ws\<close> and calls
  \<open>handleConnection\<close>; a message or a close reaches the listeners only if they are
  registered; on a close the socket is already closed when the listener runs, and a
  closed socket receives nothing more; an interval fires only while it is running.
  An exception that leaves an event handler is an unhandled rejection, which the
  process-wide handler of the entry point logs; the world keeps what was done before it.
\<close>

definition unhandled :: "unit io \<Rightarrow> world \<Rightarrow> world" where
  "unhandled m w = snd (tryCatch m (\<lambda>reason. logger Error ''Unhandled rejection:'') w)"

datatype event =
    Upgrade nat HttpRequest
  | Message nat string "json option"
  | Close nat
  | Fire nat
  | Elapse nat
  | StoreDown bool

definition setReadyState :: "nat \<Rightarrow> readyState \<Rightarrow> world \<Rightarrow> world" where
  "setReadyState ws r w = w\<lparr>sockets := (sockets w)(ws := (sockets w ws)\<lparr>readyState := r\<rparr>)\<rparr>"

fun step :: "registry \<Rightarrow> event \<Rightarrow> world \<Rightarrow> world" where
  "step handlers (Upgrade ws req) w =
     (if ws \<in> dom (states w) then w
      else unhandled (handleConnection ws req)
             (w\<lparr>sockets := (sockets w)(ws := \<lparr> readyState = OPEN, outbox = [] \<rparr>)\<rparr>))"
| "step handlers (Message ws raw parsed) w =
     (if ws \<in> listening w \<and> readyState (sockets w ws) = OPEN
      then unhandled (onMessage handlers ws raw parsed) w else w)"
| "step handlers (Close ws) w =
     (if readyState (sockets w ws) = CLOSED \<or> ws \<notin> dom (states w) then w
      else if ws \<in> listening w then unhandled (onClose ws) (setReadyState ws CLOSED w)
      else setReadyState ws CLOSED w)"
| "step handlers (Fire t) w =
     (case intervals w t of None \<Rightarrow> w | Some (ws, ms) \<Rightarrow> unhandled (tickCallback ws) w)"
| "step handlers (Elapse ms) w = w\<lparr>clock := clock w + ms\<rparr>"
| "step handlers (StoreDown b) w = w\<lparr>db := (db w)\<lparr>down := b\<rparr>\<rparr>"

fun run_events :: "registry \<Rightarrow> event list \<Rightarrow> world \<Rightarrow> world" where
  "run_events handlers [] w = w"
| "run_events handlers (e # es) w = run_events handlers es (step handlers e w)"

definition initialWorld :: world where
  "initialWorld =
     \<lparr> db = emptyStore, clock = 0, fakeVersion = ''2026.2.1'', logs = [],
       sockets = (\<lambda>ws. \<lparr> readyState = CLOSED, outbox = [] \<rparr>),
       states = Map.empty, clients = {}, listening = {}, intervals = Map.empty,
       nextInterval = 0, uuidCount = 0 \<rparr>"

section \<open>The HTTP pipeline (gateway/server.ts, channels/index.ts)\<close>

definition bodyText :: "HttpRequest \<Rightarrow> string" where
  "bodyText req = (case hr_body req of Some b \<Rightarrow> b | None \<Rightarrow> [])"

text \<open>
  The request-logging middleware up to its call of \<open>next()\<close>; it returns the
  connection identifier that the \<open>finish\<close> listener will use.
\<close>

definition requestLogging :: "HttpRequest \<Rightarrow> ident io" where
  "requestLogging req =
     andThen uuidv4 (\<lambda>requestId.
     let ipAddr = getClientIp_server req in
     andThen (tryCatch (await (createConnection ipAddr (hr_headers req ''user-agent'') Http))
                (\<lambda>error. ret (Uuid requestId))) (\<lambda>connectionId.
     andThen (awaitNow (updateAttackerSession ipAddr
                (noUpdates\<lparr>incrementRequests := Some True\<rparr>))) (\<lambda>_.
     andThen (analyzeAndLogSuspicious
                \<lparr> ap_payload = hr_path req @ '' '' @ hr_query req @ '' '' @ bodyText req,
                  ap_ipAddress = ipAddr,
                  ap_userAgent = hr_headers req ''user-agent'',
                  ap_requestPath = Some (hr_path req),
                  ap_requestMethod = Some (hr_method req),
                  ap_connectionId = Some connectionId \<rparr>) (\<lambda>_.
     ret connectionId))))"

text \<open>The \<open>finish\<close> listener of the response.\<close>

definition onFinish :: "HttpRequest \<Rightarrow> ident \<Rightarrow> nat \<Rightarrow> string \<Rightarrow> unit io" where
  "onFinish req connectionId statusCode responseBody =
     tryCatch (await (logRequest
       \<lparr> rq_connectionId = connectionId, rq_method = hr_method req, rq_path = hr_path req,
         rq_body = take 10000 (bodyText req), rq_bodySize = length (bodyText req),
         rq_responseCode = statusCode, rq_responseBody = take 5000 responseBody \<rparr>))
       (\<lambda>error. logger Error ''Failed to log request:'')"

text \<open>A route handler: the status code and the body it sends.\<close>

type_synonym route = "HttpRequest \<Rightarrow> (nat \<times> string) io"

text \<open>
  One request through the middleware, the route and the \<open>finish\<close> listener. When the
  middleware or the route rejects, nothing is sent (\<open>None\<close>) and the rejection goes to
  the process-wide handler.
\<close>

definition serveHttp :: "route \<Rightarrow> HttpRequest \<Rightarrow> (nat \<times> string) option io" where
  "serveHttp r req =
     tryCatch
       (andThen (requestLogging req) (\<lambda>connectionId.
        andThen (r req) (\<lambda>(statusCode, responseBody).
        andThen (onFinish req connectionId statusCode responseBody) (\<lambda>_.
        ret (Some (statusCode, responseBody))))))
       (\<lambda>reason. andThen (logger Error ''Unhandled rejection:'') (\<lambda>_. ret None))"

definition handleChannelWebhook :: "HttpRequest \<Rightarrow> string \<Rightarrow> unit io" where
  "handleChannelWebhook req channel =
     (let ipAddr = getClientIp_channels req;
          bodyStr = (case hr_body req of Some b \<Rightarrow> b | None \<Rightarrow> ''{}'')
      in
      andThen (logger Info (channel @ '' webhook received from '' @ ipAddr)) (\<lambda>_.
      andThen (analyzeAndLogSuspicious
                 \<lparr> ap_payload = bodyStr,
                   ap_ipAddress = ipAddr,
                   ap_userAgent = hr_headers req ''user-agent'',
                   ap_requestPath = Some (hr_path req),
                   ap_requestMethod = Some (hr_method req),
                   ap_connectionId = None \<rparr>) (\<lambda>_.
      andThen (tryCatch (await (logChannelInteraction
                 \<lparr> ci_channel = channel, ci_endpoint = hr_path req, ci_ipAddress = ipAddr \<rparr>))
                 (\<lambda>error. logger Error (''Failed to log '' @ channel @ '' interaction:''))) (\<lambda>_.
      awaitNow (updateAttackerSession ipAddr (noUpdates\<lparr>incrementRequests := Some True\<rparr>))))))"

text \<open>\<open>POST /webhook/whatsapp\<close>; the body is \<open>{"ok":true,"received":true}\<close>.\<close>

definition whatsappWebhook :: route where
  "whatsappWebhook req =
     andThen (handleChannelWebhook req ''whatsapp'') (\<lambda>_.
     ret (200, ''{'' @ [CHR 0x22] @ ''ok'' @ [CHR 0x22] @ '':true,'' @ [CHR 0x22] @ ''received''
               @ [CHR 0x22] @ '':true}''))"

section \<open>Concrete inputs\<close>




text \<open>
  A webhook request that carries \<open>X-Real-IP\<close> and no \<open>X-Forwarded-For\<close>, arriving from
  the socket address 10.0.0.1.
\<close>

definition reqRealIp :: HttpRequest where
  "reqRealIp = \<lparr> hr_headers = [''x-real-ip'' \<mapsto> ''203.0.113.9''], hr_method = ''POST'',
     hr_path = ''/webhook/whatsapp'', hr_query = ''{}'', hr_body = Some ''{}'',
     hr_ip = Some ''10.0.0.1'', hr_remoteAddress = Some ''10.0.0.1'' \<rparr>"

text \<open>An upgrade request without proxy headers, from the socket address 10.0.0.1.\<close>

definition reqPlain :: HttpRequest where
  "reqPlain = \<lparr> hr_headers = Map.empty, hr_method = ''GET'', hr_path = ''/'', hr_query = ''{}'',
     hr_body = None, hr_ip = None, hr_remoteAddress = Some ''10.0.0.1'' \<rparr>"

text \<open>A string between double quotes.\<close>

definition quoted :: "string \<Rightarrow> string" where
  "quoted s = [CHR 0x22] @ s @ [CHR 0x22]"

text \<open>The connect envelope \<open>{}\<close>.\<close>

definition rawEmpty :: string where
  "rawEmpty = ''{}''"

definition envEmpty :: json where
  "envEmpty = JObj []"

text \<open>The connect envelope \<open>{"auth":{"password":123}}\<close>.\<close>

definition rawNumber :: string where
  "rawNumber = ''{'' @ quoted ''auth'' @ '':{'' @ quoted ''password'' @ '':123}}''"

definition envNumber :: json where
  "envNumber = JObj [(''auth'', JObj [(''password'', JNum 123)])]"

text \<open>
  The connect envelope \<open>{"minProtocol":2,"maxProtocol":3,"auth":{"token":"abc"}}\<close>,
  whose protocol range excludes version 1.
\<close>

definition rawToken :: string where
  "rawToken = ''{'' @ quoted ''minProtocol'' @ '':2,'' @ quoted ''maxProtocol'' @ '':3,''
                @ quoted ''auth'' @ '':{'' @ quoted ''token'' @ '':'' @ quoted ''abc'' @ ''}}''"

definition envToken :: json where
  "envToken = JObj [(''minProtocol'', JNum 2), (''maxProtocol'', JNum 3),
                    (''auth'', JObj [(''token'', JStr ''abc'')])]"

text \<open>The request frame \<open>{"type":"req","id":"r1","method":"channels.logout"}\<close>.\<close>

definition rawLogout :: string where
  "rawLogout = ''{'' @ quoted ''type'' @ '':'' @ quoted ''req'' @ '','' @ quoted ''id'' @ '':''
                 @ quoted ''r1'' @ '','' @ quoted ''method'' @ '':'' @ quoted ''channels.logout''
                 @ ''}''"

definition frameLogout :: json where
  "frameLogout = JObj [(''type'', JStr ''req''), (''id'', JStr ''r1''),
                       (''method'', JStr ''channels.logout'')]"

text \<open>Two analysed payloads from the address 198.51.100.7.\<close>

definition paramsEnv :: AnalyzeParams where
  "paramsEnv = \<lparr> ap_payload = ''/.env'', ap_ipAddress = ''198.51.100.7'', ap_userAgent = None,
     ap_requestPath = None, ap_requestMethod = None, ap_connectionId = None \<rparr>"

definition paramsIframe :: AnalyzeParams where
  "paramsIframe = \<lparr> ap_payload = ''<iframe;'', ap_ipAddress = ''198.51.100.7'',
     ap_userAgent = None, ap_requestPath = None, ap_requestMethod = None,
     ap_connectionId = None \<rparr>"

definition worldAfterEnv :: world where
  "worldAfterEnv = snd (analyzeAndLogSuspicious paramsEnv initialWorld)"

definition worldAfterIframe :: world where
  "worldAfterIframe = snd (analyzeAndLogSuspicious paramsIframe worldAfterEnv)"

text \<open>A socket is opened; then one message arrives on it.\<close>

definition worldOpened :: world where
  "worldOpened = step someHandlers (Upgrade 0 reqPlain) initialWorld"

definition worldAfterEmpty :: world where
  "worldAfterEmpty = step someHandlers (Message 0 rawEmpty (Some envEmpty)) worldOpened"

definition worldAfterNumber :: world where
  "worldAfterNumber = step someHandlers (Message 0 rawNumber (Some envNumber)) worldOpened"

definition worldAfterToken :: world where
  "worldAfterToken = step someHandlers (Message 0 rawToken (Some envToken)) worldOpened"

text \<open>A session row with all three flags set, and three later updates of that address.\<close>

definition storeFlagged :: store where
  "storeFlagged = snd (updateAttackerSession ''198.51.100.7''
     (noUpdates\<lparr> upd_isScanner := Some True, upd_isBruteforcer := Some True,
        upd_isExploiter := Some True \<rparr>) 0 emptyStore)"

definition laterUpdates :: "(updates \<times> nat) list" where
  "laterUpdates = [
     (noUpdates\<lparr> incrementRequests := Some True \<rparr>, 1),
     (noUpdates\<lparr> incrementWsMessages := Some True \<rparr>, 2),
     (noUpdates\<lparr> incrementSuspicious := Some True, upd_isScanner := Some True,
        upd_isExploiter := Some True \<rparr>, 3)]"


text \<open>
  After the handshake with the token envelope, the request frame arrives: once while the
  store accepts writes, once after the store has gone down.
\<close>

definition worldUpRequest :: world where
  "worldUpRequest = step someHandlers (Message 0 rawLogout (Some frameLogout)) worldAfterToken"

definition worldDownRequest :: world where
  "worldDownRequest =
     run_events someHandlers [StoreDown True, Message 0 rawLogout (Some frameLogout)]
       worldAfterToken"

text \<open>The initial world with the store down.\<close>

definition worldDown :: world where
  "worldDown = step someHandlers (StoreDown True) initialWorld"

text \<open>An analysis that found nothing.\<close>

definition noAnalysis :: Analysis where
  "noAnalysis = \<lparr> an_isSuspicious = False, an_reasons = [] \<rparr>"

text \<open>
  The credential a connect envelope presents: \<open>auth.password || auth.token || ""\<close>.
\<close>

definition presentedCredential :: "json \<Rightarrow> json option" where
  "presentedCredential p =
     orElse (orElse (getOpt (getOpt (Some p) ''auth'') ''password'')
                    (getOpt (getOpt (Some p) ''auth'') ''token'')) (Some (JStr []))"

section \<open>Notions for reasoning about runs\<close>

text \<open>The sequence numbers of the tick events among the frames written to a socket.\<close>

fun tickSeqs :: "outFrame list \<Rightarrow> nat list" where
  "tickSeqs [] = []"
| "tickSeqs (EvFrame e # fs) =
     (if ev_event e = ''tick'' then (case ev_seq e of None \<Rightarrow> [] | Some n \<Rightarrow> [n]) else [])
     @ tickSeqs fs"
| "tickSeqs (f # fs) = tickSeqs fs"

text \<open>
  A registry is quiet when its handlers leave the store, the sockets, the state objects
  and the timers alone, as the canned handlers of the catalogue do: they only read the
  clock and draw identifiers.
\<close>

definition quiet :: "registry \<Rightarrow> bool" where
  "quiet handlers =
     (\<forall>m h req ctx w. handlers m = Some h \<longrightarrow>
        db (snd (h req ctx w)) = db w \<and> sockets (snd (h req ctx w)) = sockets w
        \<and> states (snd (h req ctx w)) = states w \<and> intervals (snd (h req ctx w)) = intervals w)"

text \<open>An action keeps a relation between the world before and the world after it.\<close>

definition keeps :: "(world \<Rightarrow> world \<Rightarrow> bool) \<Rightarrow> 'a io \<Rightarrow> bool" where
  "keeps R m = (\<forall>w. R w (snd (m w)))"

text \<open>
  Nothing happened to the ticks: every socket has the ready state and the tick events
  it had, a socket that was not open has the frames it had, and every state object
  exists as before with the sequence number it had.
\<close>

definition sameTicks :: "world \<Rightarrow> world \<Rightarrow> bool" where
  "sameTicks w w' =
     ((\<forall>ws. readyState (sockets w' ws) = readyState (sockets w ws))
      \<and> (\<forall>ws. tickSeqs (outbox (sockets w' ws)) = tickSeqs (outbox (sockets w ws)))
      \<and> (\<forall>ws. readyState (sockets w ws) \<noteq> OPEN \<longrightarrow>
                outbox (sockets w' ws) = outbox (sockets w ws))
      \<and> (\<forall>ws. map_option seq (states w' ws) = map_option seq (states w ws)))"

text \<open>The ticks already sent on each socket are increasing and below the next number.\<close>

definition ticksInOrder :: "world \<Rightarrow> bool" where
  "ticksInOrder w =
     (\<forall>ws. sorted_wrt (<) (tickSeqs (outbox (sockets w ws)))
        \<and> (states w ws = None \<longrightarrow> tickSeqs (outbox (sockets w ws)) = [])
        \<and> (\<forall>st. states w ws = Some st \<longrightarrow>
               (\<forall>n \<in> set (tickSeqs (outbox (sockets w ws))). n < seq st)))"

text \<open>A socket that is closed stays closed and is written to no more.\<close>

definition closedAs :: "nat \<Rightarrow> world \<Rightarrow> world \<Rightarrow> bool" where
  "closedAs ws w w' =
     (readyState (sockets w' ws) = CLOSED \<and> outbox (sockets w' ws) = outbox (sockets w ws)
      \<and> ws \<in> dom (states w'))"

text \<open>
  A connection is opened and authenticates with the token envelope; its timer fires
  twice, half a minute apart; the connection closes; the timer's period passes again.
\<close>

definition tickRun :: "event list" where
  "tickRun = [Upgrade 0 reqPlain, Message 0 rawToken (Some envToken),
              Elapse 30000, Fire 0, Elapse 30000, Fire 0]"

definition afterClose :: "event list" where
  "afterClose = [Elapse 30000, Fire 0, Message 0 rawLogout (Some frameLogout)]"

section \<open>Properties of the classifier\<close>

lemma matchPatterns_find:
  "matchPatterns payload ps =
     (case find (\<lambda>p. test p payload) ps of
        None \<Rightarrow> \<lparr> matched = False, pattern = None \<rparr>
      | Some p \<Rightarrow> \<lparr> matched = True, pattern = Some (source p) \<rparr>)"
  by (induction ps) auto

lemma matched_iff: "matched (matchPatterns payload ps) = (\<exists>p \<in> set ps. test p payload)"
  by (induction ps) auto

lemma patternText_find:
  "patternText (matchPatterns payload ps) =
     (case find (\<lambda>p. test p payload) ps of None \<Rightarrow> ''undefined'' | Some p \<Rightarrow> source p)"
  by (simp add: matchPatterns_find patternText_def split: option.splits)

lemma block_reasons:
  "fst (block r label name assign a) = fst a @ (if matched r then [label @ patternText r] else [])"
  by (cases a) simp

lemma block_types:
  "fst (snd (block r label name assign a)) = fst (snd a) @ (if matched r then [name] else [])"
  by (cases a) simp

lemma block_severity:
  "snd (snd (block r label name assign a)) =
     (if matched r then assign (snd (snd a)) else snd (snd a))"
  by (cases a) simp

lemma filter_cons_if:
  "map f (filter P (x # xs)) = (if P x then [f x] else []) @ map f (filter P xs)"
  by simp

lemma if_single_nil: "((if c then [x] else []) = []) = (\<not> c)"
  by simp

text \<open>\<open>analyzePayload\<close> as the result of its seven blocks, last block outermost.\<close>

lemma analyzePayload_fields:
  assumes "A =
      block (matchPatterns payload EXPLOIT_PATTERNS) ''Exploit pattern detected: '' ''exploit''
        (\<lambda>maxSeverity. Critical)
      (block (matchPatterns payload SCANNER_PATTERNS) ''Scanner/recon pattern detected: '' ''scan''
        (\<lambda>maxSeverity. if maxSeverity = Low then Low else maxSeverity)
      (block (matchPatterns payload PROMPT_INJECTION_PATTERNS)
        ''Prompt injection pattern detected: '' ''prompt_injection''
        (\<lambda>maxSeverity. if maxSeverity = Low then Medium else maxSeverity)
      (block (matchPatterns payload PATH_TRAVERSAL_PATTERNS)
        ''Path traversal pattern detected: '' ''path_traversal''
        (\<lambda>maxSeverity. if maxSeverity = Low \<or> maxSeverity = Medium then High else maxSeverity)
      (block (matchPatterns payload XSS_PATTERNS) ''XSS pattern detected: '' ''xss''
        (\<lambda>maxSeverity. if maxSeverity = Low then Medium else maxSeverity)
      (block (matchPatterns payload COMMAND_INJECTION_PATTERNS)
        ''Command injection pattern detected: '' ''command_injection''
        (\<lambda>maxSeverity. Critical)
      (block (matchPatterns payload SQL_INJECTION_PATTERNS)
        ''SQL injection pattern detected: '' ''sql_injection''
        (\<lambda>maxSeverity. High) ([], [], Low)))))))"
  shows "analyzePayload payload =
     \<lparr> isSuspicious = (length (fst A) > 0), reasons = fst A, severity = snd (snd A),
       attackTypes = fst (snd A) \<rparr>"
  unfolding assms analyzePayload_def Let_def by (simp only: split_beta)

lemma attackTypes_matched:
  "attackTypes (analyzePayload payload) = map fst (matchedCategories payload)"
  by (simp add: analyzePayload_fields [OF refl] block_types matched_iff matchedCategories_def
        categories_def filter_cons_if filter.simps(1)
      split del: if_split del: filter.simps block.simps cong: if_cong)

lemma reasons_matched:
  "reasons (analyzePayload payload) =
     map (\<lambda>(name, label, ps, sev).
            label @ (case find (\<lambda>p. test p payload) ps of None \<Rightarrow> ''undefined''
                     | Some p \<Rightarrow> source p))
         (matchedCategories payload)"
  by (simp add: analyzePayload_fields [OF refl] block_reasons matched_iff matchedCategories_def
        categories_def filter_cons_if filter.simps(1) patternText_find
      split del: if_split del: filter.simps block.simps cong: if_cong)

lemma isSuspicious_matched:
  "isSuspicious (analyzePayload payload) = (matchedCategories payload \<noteq> [])"
proof -
  have "isSuspicious (analyzePayload payload) = (attackTypes (analyzePayload payload) \<noteq> [])"
    by (simp add: analyzePayload_fields [OF refl] block_reasons block_types if_single_nil
          split del: if_split del: block.simps)
  then show ?thesis by (simp add: attackTypes_matched)
qed

lemma attackTypes_distinct: "distinct (attackTypes (analyzePayload payload))"
proof -
  have "distinct (map fst categories)" by (simp add: categories_def)
  then show ?thesis unfolding attackTypes_matched matchedCategories_def
    by (rule distinct_map_filter)
qed

lemma Max_if_cons:
  fixes f :: "'a \<Rightarrow> nat"
  shows "Max (set (0 # map f (filter P (x # xs)))) =
         max (if P x then f x else 0) (Max (set (0 # map f (filter P xs))))"
proof (cases "P x")
  case True
  have "Max (insert (f x) (insert 0 (f ` {y \<in> set xs. P y}))) =
        max (f x) (Max (insert 0 (f ` {y \<in> set xs. P y})))"
    by (rule Max_insert) auto
  with True show ?thesis by (simp add: insert_commute)
next
  case False
  then show ?thesis by simp
qed

lemma step_rank:
  "rank (g s) = max (rank s) k \<Longrightarrow>
   rank (if c then g s else s) = max (rank s) (if c then k else 0)"
  by simp

lemma severity_is_max:
  "rank (severity (analyzePayload payload)) =
     Max (set (0 # map (\<lambda>(name, label, ps, sev). rank sev) (matchedCategories payload)))"
proof -
  define b where "b ps = (\<exists>p \<in> set ps. test p payload)" for ps
  define s1 where "s1 = (if b SQL_INJECTION_PATTERNS then High else Low)"
  define s2 where "s2 = (if b COMMAND_INJECTION_PATTERNS then Critical else s1)"
  define s3 where "s3 = (if b XSS_PATTERNS then (if s2 = Low then Medium else s2) else s2)"
  define s4 where "s4 = (if b PATH_TRAVERSAL_PATTERNS
                         then (if s3 = Low \<or> s3 = Medium then High else s3) else s3)"
  define s5 where "s5 = (if b PROMPT_INJECTION_PATTERNS
                         then (if s4 = Low then Medium else s4) else s4)"
  define s6 where "s6 = (if b SCANNER_PATTERNS then (if s5 = Low then Low else s5) else s5)"
  define s7 where "s7 = (if b EXPLOIT_PATTERNS then Critical else s6)"
  have sev: "severity (analyzePayload payload) = s7"
    unfolding s7_def s6_def s5_def s4_def s3_def s2_def s1_def b_def
    by (simp add: analyzePayload_fields [OF refl] block_severity matched_iff
          split del: if_split del: block.simps cong: if_cong)
  have r1: "rank s1 = (if b SQL_INJECTION_PATTERNS then 2 else 0)"
    by (simp add: s1_def)
  have r2: "rank s2 = max (rank s1) (if b COMMAND_INJECTION_PATTERNS then 3 else 0)"
    unfolding s2_def by (rule step_rank [where g = "\<lambda>s. Critical"]) (cases s1; simp)
  have r3: "rank s3 = max (rank s2) (if b XSS_PATTERNS then 1 else 0)"
    unfolding s3_def
    by (rule step_rank [where g = "\<lambda>s. if s = Low then Medium else s"]) (cases s2; simp)
  have r4: "rank s4 = max (rank s3) (if b PATH_TRAVERSAL_PATTERNS then 2 else 0)"
    unfolding s4_def
    by (rule step_rank [where g = "\<lambda>s. if s = Low \<or> s = Medium then High else s"])
       (cases s3; simp)
  have r5: "rank s5 = max (rank s4) (if b PROMPT_INJECTION_PATTERNS then 1 else 0)"
    unfolding s5_def
    by (rule step_rank [where g = "\<lambda>s. if s = Low then Medium else s"]) (cases s4; simp)
  have r6: "rank s6 = max (rank s5) (if b SCANNER_PATTERNS then 0 else 0)"
    unfolding s6_def
    by (rule step_rank [where g = "\<lambda>s. if s = Low then Low else s"]) (cases s5; simp)
  have r7: "rank s7 = max (rank s6) (if b EXPLOIT_PATTERNS then 3 else 0)"
    unfolding s7_def by (rule step_rank [where g = "\<lambda>s. Critical"]) (cases s6; simp)
  have r: "Max (set (0 # map (\<lambda>(name, label, ps, sev). rank sev) (matchedCategories payload))) =
     max (if b SQL_INJECTION_PATTERNS then 2 else 0)
      (max (if b COMMAND_INJECTION_PATTERNS then 3 else 0)
      (max (if b XSS_PATTERNS then 1 else 0)
      (max (if b PATH_TRAVERSAL_PATTERNS then 2 else 0)
      (max (if b PROMPT_INJECTION_PATTERNS then 1 else 0)
      (max (if b SCANNER_PATTERNS then 0 else 0)
      (max (if b EXPLOIT_PATTERNS then 3 else 0) 0))))))"
    unfolding matchedCategories_def categories_def Max_if_cons b_def
    by (simp split del: if_split del: filter.simps cong: if_cong)
  show ?thesis
    unfolding sev r r7 r6 r5 r4 r3 r2 r1
    by (simp only: max.assoc max.commute max.left_commute max_0R max_0L)
qed

text \<open>Two payloads, classified by running every pattern of every table.\<close>

lemma analysis_env:
  "analyzePayload ''/.env'' =
     \<lparr> isSuspicious = True,
       reasons = [''Scanner/recon pattern detected: ('' @ [CHR 0x5C] @ ''/'' @ [CHR 0x5C] @ ''.env)''],
       severity = Low, attackTypes = [''scan''] \<rparr>"
  by code_simp

lemma analysis_iframe:
  "analyzePayload ''<iframe;'' =
     \<lparr> isSuspicious = True,
       reasons = [''Command injection pattern detected: (;|'' @ [CHR 0x5C] @ ''||`|'' @ [CHR 0x5C]
                    @ ''$'' @ [CHR 0x5C] @ ''(|'' @ [CHR 0x5C] @ ''$'' @ [CHR 0x5C] @ ''{)'',
                  ''XSS pattern detected: (<iframe)''],
       severity = Critical, attackTypes = [''command_injection'', ''xss''] \<rparr>"
  by code_simp

text \<open>
  C5. For every payload the classifier reports exactly the categories of which some
  pattern matches the payload, whatever the other categories do, each once and in the
  fixed order of the seven tables; the reason of a reported category ends with the
  source of the first pattern of its table that matches; and the overall severity is
  the maximum of the base severities of the reported categories under
  low < medium < high < critical (low when none is reported).
\<close>

theorem analyzePayload_categories:
  "attackTypes (analyzePayload payload) = map fst (matchedCategories payload)
   \<and> distinct (attackTypes (analyzePayload payload))
   \<and> reasons (analyzePayload payload) =
       map (\<lambda>(name, label, ps, sev).
              label @ (case find (\<lambda>p. test p payload) ps of None \<Rightarrow> ''undefined''
                       | Some p \<Rightarrow> source p))
           (matchedCategories payload)
   \<and> rank (severity (analyzePayload payload)) =
       Max (set (0 # map (\<lambda>(name, label, ps, sev). rank sev) (matchedCategories payload)))
   \<and> isSuspicious (analyzePayload payload) = (matchedCategories payload \<noteq> [])"
  by (simp only: attackTypes_matched [symmetric] attackTypes_distinct reasons_matched
        [unfolded attackTypes_matched] severity_is_max isSuspicious_matched simp_thms)

theorem analyzePayload_categories_witness:
  "attackTypes (analyzePayload ''<iframe;'') = [''command_injection'', ''xss'']
   \<and> map fst (matchedCategories ''<iframe;'') = [''command_injection'', ''xss'']
   \<and> Max (set (0 # map (\<lambda>(name, label, ps, sev). rank sev) (matchedCategories ''<iframe;''))) = 3"
  using analyzePayload_categories [of "''<iframe;''"] by (simp add: analysis_iframe)

section \<open>Unfolding the asynchronous code\<close>

lemmas io_defs = ret_def throw_def andThen_def tryCatch_def await_def awaitNow_def logger_def
  liftE_def getState_def modifyState_def uuidv4_def setInterval_def clearInterval_def wsSend_def

lemmas store_defs = createConnection_def closeConnection_def logRequest_def
  logWebSocketMessage_def logAuthAttempt_def logSuspiciousActivity_def
  logChannelInteraction_def updateAttackerSession_def

lemma getProp_obj: "p \<noteq> JNull \<Longrightarrow> getProp (Some p) k = Inr (getOpt (Some p) k)"
  by (cases p) simp_all

section \<open>Properties of the method registry\<close>



section \<open>The client address\<close>

text \<open>
  C7, at the request \<open>reqRealIp\<close>. The HTTP middleware and the WebSocket upgrade derive
  the address of the \<open>X-Real-IP\<close> header, as the claim says; the channel-webhook router's
  own \<open>getClientIp\<close> has no \<open>X-Real-IP\<close> branch and derives the socket's address, so
  the rows it writes carry 10.0.0.1 where the rows of the middleware carry 203.0.113.9.
\<close>

theorem getClientIp_channels_skips_real_ip:
  "getClientIp_server reqRealIp = ''203.0.113.9''
   \<and> getClientIp_websocket reqRealIp = ''203.0.113.9''
   \<and> getClientIp_channels reqRealIp = ''10.0.0.1''"
  by (simp add: getClientIp_server_def getClientIp_websocket_def getClientIp_channels_def
        reqRealIp_def header_def)

section \<open>Properties of the attacker-session flags\<close>

lemma updateAttackerSession_isScanner:
  "flagOf isScanner ip (snd (updateAttackerSession ip u now s)) =
     (if down s then flagOf isScanner ip s
      else case upd_isScanner u of Some b \<Rightarrow> b | None \<Rightarrow> flagOf isScanner ip s)"
  by (auto simp: updateAttackerSession_def flagOf_def createSession_def updateSession_def Let_def
        orFalse_def split: option.splits)

lemma updateAttackerSession_isBruteforcer:
  "flagOf isBruteforcer ip (snd (updateAttackerSession ip u now s)) =
     (if down s then flagOf isBruteforcer ip s
      else case upd_isBruteforcer u of Some b \<Rightarrow> b | None \<Rightarrow> flagOf isBruteforcer ip s)"
  by (auto simp: updateAttackerSession_def flagOf_def createSession_def updateSession_def Let_def
        orFalse_def split: option.splits)

lemma updateAttackerSession_isExploiter:
  "flagOf isExploiter ip (snd (updateAttackerSession ip u now s)) =
     (if down s then flagOf isExploiter ip s
      else case upd_isExploiter u of Some b \<Rightarrow> b | None \<Rightarrow> flagOf isExploiter ip s)"
  by (auto simp: updateAttackerSession_def flagOf_def createSession_def updateSession_def Let_def
        orFalse_def split: option.splits)

text \<open>
  A flag survives a sequence of updates when each update, whatever else it does, leaves
  the flag alone or sets it. \<open>supplied\<close> reads the flag's field of an update.
\<close>

lemma touchAll_keeps:
  assumes one: "\<And>u now s. flagOf f ip (snd (updateAttackerSession ip u now s)) =
                  (if down s then flagOf f ip s
                   else case supplied u of Some b \<Rightarrow> b | None \<Rightarrow> flagOf f ip s)"
    and "flagOf f ip s"
    and "\<forall>(u, t) \<in> set us. supplied u \<noteq> Some False"
  shows "flagOf f ip (touchAll ip us s)"
  using assms(2,3)
proof (induction us arbitrary: s)
  case Nil
  then show ?case by simp
next
  case (Cons a us)
  obtain u t where a: "a = (u, t)" by (cases a)
  from Cons.prems have "supplied u \<noteq> Some False" by (simp add: a)
  with Cons.prems(1) have "flagOf f ip (snd (updateAttackerSession ip u t s))"
    by (cases "supplied u") (auto simp: one)
  with Cons show ?case by (simp add: a)
qed

text \<open>
  C1, as the code has it. One call that the store accepts sets a flag to the value the
  caller supplied and keeps the stored value when the caller supplied none. Hence, for
  every address and every sequence of updates, a flag that is set stays set as long as
  no update of the sequence supplies \<open>false\<close> for that flag.
\<close>

theorem flags_kept_unless_false_supplied:
  "(\<not> down s \<longrightarrow>
      flagOf isScanner ip (snd (updateAttackerSession ip u now s)) =
        (case upd_isScanner u of Some b \<Rightarrow> b | None \<Rightarrow> flagOf isScanner ip s)
      \<and> flagOf isBruteforcer ip (snd (updateAttackerSession ip u now s)) =
        (case upd_isBruteforcer u of Some b \<Rightarrow> b | None \<Rightarrow> flagOf isBruteforcer ip s)
      \<and> flagOf isExploiter ip (snd (updateAttackerSession ip u now s)) =
        (case upd_isExploiter u of Some b \<Rightarrow> b | None \<Rightarrow> flagOf isExploiter ip s))
   \<and> (flagOf isScanner ip s \<and> (\<forall>(v, t) \<in> set us. upd_isScanner v \<noteq> Some False)
        \<longrightarrow> flagOf isScanner ip (touchAll ip us s))
   \<and> (flagOf isBruteforcer ip s \<and> (\<forall>(v, t) \<in> set us. upd_isBruteforcer v \<noteq> Some False)
        \<longrightarrow> flagOf isBruteforcer ip (touchAll ip us s))
   \<and> (flagOf isExploiter ip s \<and> (\<forall>(v, t) \<in> set us. upd_isExploiter v \<noteq> Some False)
        \<longrightarrow> flagOf isExploiter ip (touchAll ip us s))"
proof -
  have "flagOf isScanner ip s \<Longrightarrow> \<forall>(v, t) \<in> set us. upd_isScanner v \<noteq> Some False
        \<Longrightarrow> flagOf isScanner ip (touchAll ip us s)"
    by (rule touchAll_keeps [where supplied = upd_isScanner])
       (rule updateAttackerSession_isScanner)
  moreover have "flagOf isBruteforcer ip s \<Longrightarrow> \<forall>(v, t) \<in> set us. upd_isBruteforcer v \<noteq> Some False
        \<Longrightarrow> flagOf isBruteforcer ip (touchAll ip us s)"
    by (rule touchAll_keeps [where supplied = upd_isBruteforcer])
       (rule updateAttackerSession_isBruteforcer)
  moreover have "flagOf isExploiter ip s \<Longrightarrow> \<forall>(v, t) \<in> set us. upd_isExploiter v \<noteq> Some False
        \<Longrightarrow> flagOf isExploiter ip (touchAll ip us s)"
    by (rule touchAll_keeps [where supplied = upd_isExploiter])
       (rule updateAttackerSession_isExploiter)
  ultimately show ?thesis
    by (simp add: updateAttackerSession_isScanner updateAttackerSession_isBruteforcer
          updateAttackerSession_isExploiter)
qed

lemma storeFlagged_flags:
  "\<not> down storeFlagged" "flagOf isScanner ''198.51.100.7'' storeFlagged"
  "flagOf isBruteforcer ''198.51.100.7'' storeFlagged"
  "flagOf isExploiter ''198.51.100.7'' storeFlagged"
  by (simp_all add: storeFlagged_def updateAttackerSession_def emptyStore_def flagOf_def
        createSession_def noUpdates_def orFalse_def)

theorem flags_kept_unless_false_supplied_witness:
  "\<not> down storeFlagged
   \<and> flagOf isScanner ''198.51.100.7'' storeFlagged
   \<and> flagOf isBruteforcer ''198.51.100.7'' storeFlagged
   \<and> flagOf isExploiter ''198.51.100.7'' storeFlagged
   \<and> flagOf isScanner ''198.51.100.7'' (touchAll ''198.51.100.7'' laterUpdates storeFlagged)
   \<and> flagOf isBruteforcer ''198.51.100.7'' (touchAll ''198.51.100.7'' laterUpdates storeFlagged)
   \<and> flagOf isExploiter ''198.51.100.7'' (touchAll ''198.51.100.7'' laterUpdates storeFlagged)
   \<and> flagOf isScanner ''198.51.100.7''
        (snd (updateAttackerSession ''198.51.100.7'' (noUpdates\<lparr>upd_isScanner := Some False\<rparr>) 4
           storeFlagged)) = False"
proof -
  have a: "\<forall>(v, t) \<in> set laterUpdates. upd_isScanner v \<noteq> Some False"
    and b: "\<forall>(v, t) \<in> set laterUpdates. upd_isBruteforcer v \<noteq> Some False"
    and c: "\<forall>(v, t) \<in> set laterUpdates. upd_isExploiter v \<noteq> Some False"
    by (simp_all add: laterUpdates_def noUpdates_def)
  show ?thesis
    using flags_kept_unless_false_supplied
            [of storeFlagged "''198.51.100.7''" "noUpdates\<lparr>upd_isScanner := Some False\<rparr>" 4
                laterUpdates]
          a b c storeFlagged_flags
    by simp
qed

text \<open>How \<open>analyzeAndLogSuspicious\<close> changes the world while the store accepts writes.\<close>

lemma forEach_logSuspicious_up:
  "\<not> down (db w) \<Longrightarrow>
   forEach ts (\<lambda>t. await (logSuspiciousActivity (f t))) w =
     (Inr (), w\<lparr>db := (db w)\<lparr>suspiciousActivities := suspiciousActivities (db w) @ map f ts\<rparr>\<rparr>)"
proof (induction ts arbitrary: w)
  case Nil
  then show ?case by (simp add: ret_def)
next
  case (Cons t ts)
  let ?w1 = "w\<lparr>db := (db w)\<lparr>suspiciousActivities := suspiciousActivities (db w) @ [f t]\<rparr>\<rparr>"
  have 1: "await (logSuspiciousActivity (f t)) w = (Inr (), ?w1)"
    using Cons.prems by (simp add: await_def logSuspiciousActivity_def)
  have 2: "\<not> down (db ?w1)" using Cons.prems by simp
  show ?case
    by (simp add: andThen_def 1 Cons.IH [OF 2])
qed

lemma analyzeAndLogSuspicious_up:
  assumes "\<not> down (db w)"
  shows "analyzeAndLogSuspicious params w =
    (let result = analyzePayload (ap_payload params) in
     if isSuspicious result then
       (Inr result,
        w\<lparr>db := snd (updateAttackerSession (ap_ipAddress params)
                (noUpdates\<lparr> incrementSuspicious := Some True,
                   upd_isScanner := Some (''scan'' \<in> set (attackTypes result)),
                   upd_isExploiter := Some (''exploit'' \<in> set (attackTypes result) \<or>
                                        ''command_injection'' \<in> set (attackTypes result)) \<rparr>)
                (clock w)
                ((db w)\<lparr>suspiciousActivities := suspiciousActivities (db w) @
                     map (\<lambda>attackType.
                       \<lparr> sa_type = attackType,
                         sa_severity = severity result,
                         sa_description = joinWith ''; '' (reasons result),
                         sa_payload = take 5000 (ap_payload params),
                         sa_ipAddress = ap_ipAddress params,
                         sa_userAgent = ap_userAgent params,
                         sa_requestPath = ap_requestPath params,
                         sa_requestMethod = ap_requestMethod params,
                         sa_connectionId = ap_connectionId params \<rparr>) (attackTypes result)\<rparr>)),
          logs := logs w @ [(Warn, ''Suspicious activity from '' @ ap_ipAddress params)]\<rparr>)
     else (Inr result, w))"
  using assms
  by (simp add: analyzeAndLogSuspicious_def Let_def ret_def andThen_def
      forEach_logSuspicious_up awaitNow_def await_def updateAttackerSession_def logger_def
      split: option.splits)

lemma flagOf_suspiciousActivities:
  "flagOf f ip (s\<lparr>suspiciousActivities := x\<rparr>) = flagOf f ip s"
  by (simp add: flagOf_def)

lemma worldAfterEnv_up: "\<not> down (db worldAfterEnv)"
  by (simp add: worldAfterEnv_def analyzeAndLogSuspicious_up initialWorld_def emptyStore_def
        Let_def updateAttackerSession_def)

text \<open>
  C1, as stated, fails. The address 198.51.100.7 first sends the payload \<open>/.env\<close>, a
  scanner probe, and its session is flagged as a scanner; it then sends \<open><iframe;\<close>,
  which is suspicious but no scanner probe, and the same call that counts it writes
  \<open>isScanner = false\<close>.
\<close>

theorem scanner_flag_reverts:
  "flagOf isScanner ''198.51.100.7'' (db worldAfterEnv)
   \<and> \<not> flagOf isScanner ''198.51.100.7'' (db worldAfterIframe)"
proof -
  have 1: "flagOf isScanner ''198.51.100.7'' (db worldAfterEnv)"
    by (simp add: worldAfterEnv_def analyzeAndLogSuspicious_up initialWorld_def emptyStore_def
          Let_def paramsEnv_def analysis_env updateAttackerSession_isScanner
          flagOf_suspiciousActivities)
  have 2: "\<not> flagOf isScanner ''198.51.100.7'' (db worldAfterIframe)"
    by (simp add: worldAfterIframe_def analyzeAndLogSuspicious_up [OF worldAfterEnv_up]
          Let_def paramsIframe_def analysis_iframe updateAttackerSession_isScanner
          flagOf_suspiciousActivities worldAfterEnv_up)
  from 1 2 show ?thesis by simp
qed

section \<open>Properties of the suspicious-activity rows\<close>







section \<open>Properties of the credential fingerprint\<close>

lemma hashStep_31: "hashStep h c = 31 * h + of_nat (code c)"
  by (simp add: hashStep_def push_bit_eq_mult)

lemma foldl_hashStep:
  "foldl hashStep (word_of_int a) s =
     word_of_int (foldl (\<lambda>h c. 31 * h + int (code c)) a s)"
proof (induction s arbitrary: a)
  case Nil
  then show ?case by simp
next
  case (Cons c s)
  have h: "hashStep (word_of_int a) c = word_of_int (31 * a + int (code c))"
    by (simp add: hashStep_31)
  show ?case unfolding foldl_Cons h by (rule Cons.IH)
qed

lemma hash_is_rolling31: "foldl hashStep 0 s = word_of_int (rolling31 s)"
  using foldl_hashStep [of 0 s] by (simp add: rolling31_def)

lemma abs_sint_32: "nat \<bar>sint (x :: 32 word)\<bar> \<le> 2 ^ 31"
proof -
  have "- (2 ^ 31) \<le> sint x" "sint x < 2 ^ 31"
    using sint_ge [of x] sint_lt [of x] by simp_all
  then show ?thesis by (simp add: nat_le_iff abs_le_iff)
qed

lemma digits_16:
  "\<forall>d \<in> set [0..<16]. digitChar d \<in> set ''0123456789abcdef'' \<and> digitValue (digitChar d) = d"
  by (simp add: upt_rec digitChar_def digitValue_def)

lemma digit_below_16:
  assumes "d < 16"
  shows "digitChar d \<in> set ''0123456789abcdef''" and "digitValue (digitChar d) = d"
  using digits_16 assms by auto

lemma toStringRadix_16:
  "set (toStringRadix 16 n) \<subseteq> set ''0123456789abcdef''
   \<and> fromDigits 16 (toStringRadix 16 n) = n"
proof (induction n rule: less_induct)
  case (less n)
  show ?case
  proof (cases "n < 16")
    case True
    then have "toStringRadix 16 n = [digitChar n]" by simp
    with digit_below_16 [OF True] show ?thesis by (simp add: fromDigits_def)
  next
    case False
    then have eq: "toStringRadix 16 n = toStringRadix 16 (n div 16) @ [digitChar (n mod 16)]"
      by (subst toStringRadix.simps) simp
    have m: "n mod 16 < 16" by simp
    have d: "n div 16 < n" using False by simp
    from less.IH [OF d] digit_below_16 [OF m] show ?thesis
      unfolding eq by (simp add: fromDigits_def)
  qed
qed

lemma credentialArgs_Inr:
  "credentialArgs c = Inr (h, r) \<Longrightarrow> \<exists>s. c = Some (JStr s) \<and> h = hashCredential s \<and> r = take 100 s"
  by (erule credentialArgs.elims) auto

text \<open>The auth attempts that one handshake writes: none, or one for a string credential.\<close>

lemma handleConnect_authAttempts:
  "authAttempts (db (snd (handleConnect ws parsed raw an w))) = authAttempts (db w) \<or>
   (\<exists>p s a. parsed = Some p \<and> presentedCredential p = Some (JStr s)
      \<and> auth_credential a = hashCredential s \<and> auth_credentialRaw a = take 100 s
      \<and> auth_success a
      \<and> authAttempts (db (snd (handleConnect ws parsed raw an w))) = authAttempts (db w) @ [a])"
proof (cases "down (db w) \<or> states w ws = None")
  case True
  then show ?thesis
    by (auto simp: handleConnect_def io_defs store_defs split: option.splits)
next
  case False
  then obtain st where up: "\<not> down (db w)" and st: "states w ws = Some st" by auto
  show ?thesis
  proof (cases parsed)
    case None
    with up st show ?thesis
      by (simp add: handleConnect_def io_defs store_defs)
  next
    case (Some p)
    show ?thesis
    proof (cases "p = JNull")
      case True
      with up st Some show ?thesis
        by (simp add: handleConnect_def io_defs store_defs)
    next
      case False
      show ?thesis
      proof (cases "credentialArgs (presentedCredential p)")
        case (Inl e)
        with up st Some False show ?thesis
          by (simp add: handleConnect_def io_defs store_defs getProp_obj Let_def
                presentedCredential_def)
      next
        case (Inr hr)
        obtain h r where hr: "hr = (h, r)" by (cases hr)
        from Inr hr credentialArgs_Inr obtain s where
          s: "presentedCredential p = Some (JStr s)" "h = hashCredential s" "r = take 100 s"
          by blast
        have c: "credentialArgs (orElse (orElse (getOpt (getOpt (Some p) ''auth'') ''password'')
                    (getOpt (getOpt (Some p) ''auth'') ''token'')) (Some (JStr []))) = Inr (h, r)"
          using Inr hr by (simp add: presentedCredential_def)
        have "\<exists>a. auth_credential a = h \<and> auth_credentialRaw a = r \<and> auth_success a
           \<and> authAttempts (db (snd (handleConnect ws (Some p) raw an w))) = authAttempts (db w) @ [a]"
          using up st False c
          by (cases "readyState (sockets w ws)")
             (simp_all add: handleConnect_def io_defs store_defs getProp_obj Let_def
                split: option.splits)
        with s Some show ?thesis by blast
      qed
    qed
  qed
qed

text \<open>
  C8, as the code has it. Every auth attempt that a handshake writes belongs to a
  credential that is a string \<open>s\<close>, and stores the first 100 characters of \<open>s\<close>
  beside the fingerprint. For a non-empty \<open>s\<close> the fingerprint is \<open>hash_\<close> followed by
  the hexadecimal digits, lower case and without leading zeros, of the absolute value of
  the rolling hash \<open>h := 31 h + c\<close> kept to 32 bits as a signed integer, a number of at
  most \<open>2^31\<close>. For the empty credential (no password and no token) the fingerprint is
  the empty string.
\<close>

theorem fingerprint_of_auth_attempt:
  "\<exists>rows. authAttempts (db (snd (handleConnect ws parsed raw an w))) = authAttempts (db w) @ rows
     \<and> (\<forall>a \<in> set rows. \<exists>p s n.
           parsed = Some p \<and> presentedCredential p = Some (JStr s)
         \<and> auth_credentialRaw a = take 100 s \<and> length (auth_credentialRaw a) \<le> 100
         \<and> n = nat \<bar>sint (word_of_int (rolling31 s) :: 32 word)\<bar> \<and> n \<le> 2 ^ 31
         \<and> set (toStringRadix 16 n) \<subseteq> set ''0123456789abcdef''
         \<and> fromDigits 16 (toStringRadix 16 n) = n
         \<and> auth_credential a = (if s = [] then [] else ''hash_'' @ toStringRadix 16 n))"
proof -
  from handleConnect_authAttempts [of ws parsed raw an w]
  consider
    (none) "authAttempts (db (snd (handleConnect ws parsed raw an w))) = authAttempts (db w)"
  | (one) p s a where "parsed = Some p" "presentedCredential p = Some (JStr s)"
      "auth_credential a = hashCredential s" "auth_credentialRaw a = take 100 s"
      "authAttempts (db (snd (handleConnect ws parsed raw an w))) = authAttempts (db w) @ [a]"
    by blast
  then show ?thesis
  proof cases
    case none
    then show ?thesis by simp
  next
    case one
    let ?n = "nat \<bar>sint (word_of_int (rolling31 s) :: 32 word)\<bar>"
    have "auth_credential a = (if s = [] then [] else ''hash_'' @ toStringRadix 16 ?n)"
      using one(3) by (simp add: hashCredential_def hash_is_rolling31)
    moreover have "?n \<le> 2 ^ 31" by (rule abs_sint_32)
    moreover note toStringRadix_16 [of ?n] one(1,2,4)
    ultimately have "\<exists>p s n.
           parsed = Some p \<and> presentedCredential p = Some (JStr s)
         \<and> auth_credentialRaw a = take 100 s \<and> length (auth_credentialRaw a) \<le> 100
         \<and> n = nat \<bar>sint (word_of_int (rolling31 s) :: 32 word)\<bar> \<and> n \<le> 2 ^ 31
         \<and> set (toStringRadix 16 n) \<subseteq> set ''0123456789abcdef''
         \<and> fromDigits 16 (toStringRadix 16 n) = n
         \<and> auth_credential a = (if s = [] then [] else ''hash_'' @ toStringRadix 16 n)"
      by (intro exI [of _ p] exI [of _ s] exI [of _ ?n]) simp
    with one(5) show ?thesis by simp
  qed
qed

section \<open>Properties of the handshake\<close>

text \<open>The analysis that \<open>handleMessage\<close> hands on.\<close>

lemma handleMessage_unauthenticated:
  assumes "states w ws = Some st" and "\<not> authenticated st"
  shows "handleMessage handlers ws raw (Some p) w =
     handleConnect ws (Some p) raw
       \<lparr> an_isSuspicious = isSuspicious (analyzePayload raw),
         an_reasons = reasons (analyzePayload raw) \<rparr>
       (w\<lparr>logs := logs w @ (Debug, ''Received message from '' @ connId st) #
           (if isSuspicious (analyzePayload raw)
            then [(Warn, ''Suspicious WebSocket message from '' @ ipAddress st)] else [])\<rparr>)"
  using assms by (simp add: handleMessage_def io_defs Let_def)

lemma handleMessage_request:
  assumes "states w ws = Some st" and "authenticated st"
    and "parseFrame (Some frame) = Some frame" and "isRequestFrame frame"
  shows "handleMessage handlers ws raw (Some frame) w =
     handleRequestFrame handlers ws (asRequestFrame frame) frame raw
       \<lparr> an_isSuspicious = isSuspicious (analyzePayload raw),
         an_reasons = reasons (analyzePayload raw) \<rparr>
       (w\<lparr>logs := logs w @ (Debug, ''Received message from '' @ connId st) #
           (if isSuspicious (analyzePayload raw)
            then [(Warn, ''Suspicious WebSocket message from '' @ ipAddress st)] else [])\<rparr>)"
  using assms by (simp add: handleMessage_def io_defs Let_def)

text \<open>What the \<open>message\<close> listener leaves of an exception: a line in the error log.\<close>

lemma onMessage_result:
  "unhandled (onMessage handlers ws raw parsed) w =
     (case handleMessage handlers ws raw parsed w of
        (Inl e, w') \<Rightarrow> w'\<lparr>logs := logs w' @ [(Error, ''Error handling WebSocket message:'')]\<rparr>
      | (Inr u, w') \<Rightarrow> w')"
  by (simp add: unhandled_def onMessage_def tryCatch_def logger_def split: prod.splits sum.splits)

text \<open>A handshake that runs to its end.\<close>

lemma handleConnect_completes:
  assumes up: "\<not> down (db w)"
    and st: "states w ws = Some st"
    and p: "p \<noteq> JNull"
    and cred: "credentialArgs (presentedCredential p) = Inr (h, r)"
    and op: "readyState (sockets w ws) = OPEN"
  shows "fst (handleConnect ws (Some p) raw an w) = Inr ()"
    and "authAttempts (db (snd (handleConnect ws (Some p) raw an w))) = authAttempts (db w) @
       [\<lparr> auth_connectionId = dbConnectionId st,
         auth_ipAddress = ipAddress st,
         auth_method = (if truthy (getOpt (getOpt (Some p) ''auth'') ''password'') then ''password''
                       else if truthy (getOpt (getOpt (Some p) ''auth'') ''token'') then ''token''
                       else ''none''),
         auth_credential = h,
         auth_credentialRaw = r,
         auth_success = True,
         auth_clientId = getOpt (getOpt (Some p) ''client'') ''id'',
         auth_clientVersion = getOpt (getOpt (Some p) ''client'') ''version'',
         auth_platform = getOpt (getOpt (Some p) ''client'') ''platform'' \<rparr>]"
    and "states (snd (handleConnect ws (Some p) raw an w)) ws =
       Some (st\<lparr> clientInfo := getOpt (Some p) ''client'', auth := getOpt (Some p) ''auth'',
                 authenticated := True, tickInterval := Some (nextInterval w) \<rparr>)"
    and "intervals (snd (handleConnect ws (Some p) raw an w)) =
       (intervals w)(nextInterval w \<mapsto> (ws, 30000))"
    and "outbox (sockets (snd (handleConnect ws (Some p) raw an w)) ws) =
           outbox (sockets w ws) @
           [HelloOkFrame ((generateHelloOk (fakeVersion w) (connId st))
              \<lparr>hello_auth :=
                 if truthy (getOpt (Some p) ''device'')
                 then Some \<lparr> deviceToken = ''uuid-'' @ toStringRadix 10 (uuidCount w),
                             role = ''admin'', scopes = [''*''], issuedAtMs = clock w \<rparr>
                 else None\<rparr>)]"
    and "readyState (sockets (snd (handleConnect ws (Some p) raw an w)) ws) = OPEN"
    and "down (db (snd (handleConnect ws (Some p) raw an w))) = False"
    and "attackerSessions (db (snd (handleConnect ws (Some p) raw an w))) =
       attackerSessions (snd (updateAttackerSession (ipAddress st)
          (noUpdates\<lparr>incrementAuthAttempts := Some True\<rparr>) (clock w) (db w)))"
    and "listening (snd (handleConnect ws (Some p) raw an w)) = listening w"
  using assms
  by (simp_all add: handleConnect_def io_defs store_defs getProp_obj Let_def
        presentedCredential_def generateHelloOk_def split: option.splits)

text \<open>A handshake that the credential stops.\<close>

lemma handleConnect_bad_credential:
  assumes up: "\<not> down (db w)"
    and st: "states w ws = Some st"
    and p: "p \<noteq> JNull"
    and cred: "credentialArgs (presentedCredential p) = Inl e"
  shows "fst (handleConnect ws (Some p) raw an w) = Inl e"
    and "authAttempts (db (snd (handleConnect ws (Some p) raw an w))) = authAttempts (db w)"
    and "attackerSessions (db (snd (handleConnect ws (Some p) raw an w))) =
           attackerSessions (db w)"
    and "map wsm_frameType (wsMessages (db (snd (handleConnect ws (Some p) raw an w)))) =
           map wsm_frameType (wsMessages (db w)) @ [Some (JStr ''connect'')]"
    and "states (snd (handleConnect ws (Some p) raw an w)) ws =
       Some (st\<lparr> clientInfo := getOpt (Some p) ''client'', auth := getOpt (Some p) ''auth'' \<rparr>)"
    and "sockets (snd (handleConnect ws (Some p) raw an w)) = sockets w"
    and "intervals (snd (handleConnect ws (Some p) raw an w)) = intervals w"
    and "logs (snd (handleConnect ws (Some p) raw an w)) = logs w"
  using assms
  by (simp_all add: handleConnect_def io_defs store_defs getProp_obj Let_def
        presentedCredential_def)

text \<open>The first message on an open, listening socket, seen from outside.\<close>

lemma step_connect_completes:
  assumes lis: "ws \<in> listening w"
    and op: "readyState (sockets w ws) = OPEN"
    and up: "\<not> down (db w)"
    and st: "states w ws = Some st"
    and un: "\<not> authenticated st"
    and p: "p \<noteq> JNull"
    and cred: "credentialArgs (presentedCredential p) = Inr (h, r)"
  shows "authAttempts (db (step handlers (Message ws raw (Some p)) w)) = authAttempts (db w) @
       [\<lparr> auth_connectionId = dbConnectionId st,
         auth_ipAddress = ipAddress st,
         auth_method = (if truthy (getOpt (getOpt (Some p) ''auth'') ''password'') then ''password''
                       else if truthy (getOpt (getOpt (Some p) ''auth'') ''token'') then ''token''
                       else ''none''),
         auth_credential = h,
         auth_credentialRaw = r,
         auth_success = True,
         auth_clientId = getOpt (getOpt (Some p) ''client'') ''id'',
         auth_clientVersion = getOpt (getOpt (Some p) ''client'') ''version'',
         auth_platform = getOpt (getOpt (Some p) ''client'') ''platform'' \<rparr>]"
    and "states (step handlers (Message ws raw (Some p)) w) ws =
       Some (st\<lparr> clientInfo := getOpt (Some p) ''client'', auth := getOpt (Some p) ''auth'',
                 authenticated := True, tickInterval := Some (nextInterval w) \<rparr>)"
    and "intervals (step handlers (Message ws raw (Some p)) w) =
       (intervals w)(nextInterval w \<mapsto> (ws, 30000))"
    and "outbox (sockets (step handlers (Message ws raw (Some p)) w) ws) =
           outbox (sockets w ws) @
           [HelloOkFrame ((generateHelloOk (fakeVersion w) (connId st))
              \<lparr>hello_auth :=
                 if truthy (getOpt (Some p) ''device'')
                 then Some \<lparr> deviceToken = ''uuid-'' @ toStringRadix 10 (uuidCount w),
                             role = ''admin'', scopes = [''*''], issuedAtMs = clock w \<rparr>
                 else None\<rparr>)]"
    and "readyState (sockets (step handlers (Message ws raw (Some p)) w) ws) = OPEN"
    and "down (db (step handlers (Message ws raw (Some p)) w)) = False"
    and "attackerSessions (db (step handlers (Message ws raw (Some p)) w)) =
       attackerSessions (snd (updateAttackerSession (ipAddress st)
          (noUpdates\<lparr>incrementAuthAttempts := Some True\<rparr>) (clock w) (db w)))"
    and "listening (step handlers (Message ws raw (Some p)) w) = listening w"
proof -
  let ?an = "\<lparr> an_isSuspicious = isSuspicious (analyzePayload raw),
               an_reasons = reasons (analyzePayload raw) \<rparr>"
  let ?w1 = "w\<lparr>logs := logs w @ (Debug, ''Received message from '' @ connId st) #
           (if isSuspicious (analyzePayload raw)
            then [(Warn, ''Suspicious WebSocket message from '' @ ipAddress st)] else [])\<rparr>"
  have hm: "handleMessage handlers ws raw (Some p) w = handleConnect ws (Some p) raw ?an ?w1"
    by (rule handleMessage_unauthenticated [OF st un])
  have pre: "\<not> down (db ?w1)" "states ?w1 ws = Some st" "readyState (sockets ?w1 ws) = OPEN"
    using up st op by simp_all
  note hc = handleConnect_completes [OF pre(1) pre(2) p cred pre(3), of raw ?an]
  have res: "step handlers (Message ws raw (Some p)) w =
               snd (handleConnect ws (Some p) raw ?an ?w1)"
    using lis op hc(1)
    by (cases "handleConnect ws (Some p) raw ?an ?w1") (simp add: onMessage_result hm)
  show "authAttempts (db (step handlers (Message ws raw (Some p)) w)) = authAttempts (db w) @
       [\<lparr> auth_connectionId = dbConnectionId st,
         auth_ipAddress = ipAddress st,
         auth_method = (if truthy (getOpt (getOpt (Some p) ''auth'') ''password'') then ''password''
                       else if truthy (getOpt (getOpt (Some p) ''auth'') ''token'') then ''token''
                       else ''none''),
         auth_credential = h,
         auth_credentialRaw = r,
         auth_success = True,
         auth_clientId = getOpt (getOpt (Some p) ''client'') ''id'',
         auth_clientVersion = getOpt (getOpt (Some p) ''client'') ''version'',
         auth_platform = getOpt (getOpt (Some p) ''client'') ''platform'' \<rparr>]"
    unfolding res hc(2) by simp
  show "states (step handlers (Message ws raw (Some p)) w) ws =
       Some (st\<lparr> clientInfo := getOpt (Some p) ''client'', auth := getOpt (Some p) ''auth'',
                 authenticated := True, tickInterval := Some (nextInterval w) \<rparr>)"
    unfolding res hc(3) by simp
  show "intervals (step handlers (Message ws raw (Some p)) w) =
       (intervals w)(nextInterval w \<mapsto> (ws, 30000))"
    unfolding res hc(4) by simp
  show "outbox (sockets (step handlers (Message ws raw (Some p)) w) ws) =
           outbox (sockets w ws) @
           [HelloOkFrame ((generateHelloOk (fakeVersion w) (connId st))
              \<lparr>hello_auth :=
                 if truthy (getOpt (Some p) ''device'')
                 then Some \<lparr> deviceToken = ''uuid-'' @ toStringRadix 10 (uuidCount w),
                             role = ''admin'', scopes = [''*''], issuedAtMs = clock w \<rparr>
                 else None\<rparr>)]"
    unfolding res hc(5) by simp
  show "readyState (sockets (step handlers (Message ws raw (Some p)) w) ws) = OPEN"
    unfolding res by (rule hc(6))
  show "down (db (step handlers (Message ws raw (Some p)) w)) = False"
    unfolding res by (rule hc(7))
  show "attackerSessions (db (step handlers (Message ws raw (Some p)) w)) =
       attackerSessions (snd (updateAttackerSession (ipAddress st)
          (noUpdates\<lparr>incrementAuthAttempts := Some True\<rparr>) (clock w) (db w)))"
    unfolding res hc(8) by simp
  show "listening (step handlers (Message ws raw (Some p)) w) = listening w"
    unfolding res hc(9) by simp
qed

lemma step_connect_bad_credential:
  assumes lis: "ws \<in> listening w"
    and op: "readyState (sockets w ws) = OPEN"
    and up: "\<not> down (db w)"
    and st: "states w ws = Some st"
    and un: "\<not> authenticated st"
    and p: "p \<noteq> JNull"
    and cred: "credentialArgs (presentedCredential p) = Inl e"
  shows "authAttempts (db (step handlers (Message ws raw (Some p)) w)) = authAttempts (db w)"
    and "attackerSessions (db (step handlers (Message ws raw (Some p)) w)) =
           attackerSessions (db w)"
    and "map wsm_frameType (wsMessages (db (step handlers (Message ws raw (Some p)) w))) =
           map wsm_frameType (wsMessages (db w)) @ [Some (JStr ''connect'')]"
    and "states (step handlers (Message ws raw (Some p)) w) ws =
       Some (st\<lparr> clientInfo := getOpt (Some p) ''client'', auth := getOpt (Some p) ''auth'' \<rparr>)"
    and "sockets (step handlers (Message ws raw (Some p)) w) = sockets w"
    and "intervals (step handlers (Message ws raw (Some p)) w) = intervals w"
    and "last (logs (step handlers (Message ws raw (Some p)) w)) =
           (Error, ''Error handling WebSocket message:'')"
proof -
  let ?an = "\<lparr> an_isSuspicious = isSuspicious (analyzePayload raw),
               an_reasons = reasons (analyzePayload raw) \<rparr>"
  let ?w1 = "w\<lparr>logs := logs w @ (Debug, ''Received message from '' @ connId st) #
           (if isSuspicious (analyzePayload raw)
            then [(Warn, ''Suspicious WebSocket message from '' @ ipAddress st)] else [])\<rparr>"
  let ?w2 = "snd (handleConnect ws (Some p) raw ?an ?w1)"
  have hm: "handleMessage handlers ws raw (Some p) w = handleConnect ws (Some p) raw ?an ?w1"
    by (rule handleMessage_unauthenticated [OF st un])
  have pre: "\<not> down (db ?w1)" "states ?w1 ws = Some st"
    using up st by simp_all
  note hc = handleConnect_bad_credential [OF pre(1) pre(2) p cred, of raw ?an]
  have res: "step handlers (Message ws raw (Some p)) w =
               ?w2\<lparr>logs := logs ?w2 @ [(Error, ''Error handling WebSocket message:'')]\<rparr>"
    using lis op hc(1)
    by (cases "handleConnect ws (Some p) raw ?an ?w1") (simp add: onMessage_result hm)
  show "authAttempts (db (step handlers (Message ws raw (Some p)) w)) = authAttempts (db w)"
    unfolding res using hc(2) by simp
  show "attackerSessions (db (step handlers (Message ws raw (Some p)) w)) =
           attackerSessions (db w)"
    unfolding res using hc(3) by simp
  show "map wsm_frameType (wsMessages (db (step handlers (Message ws raw (Some p)) w))) =
           map wsm_frameType (wsMessages (db w)) @ [Some (JStr ''connect'')]"
    unfolding res using hc(4) by simp
  show "states (step handlers (Message ws raw (Some p)) w) ws =
       Some (st\<lparr> clientInfo := getOpt (Some p) ''client'', auth := getOpt (Some p) ''auth'' \<rparr>)"
    unfolding res using hc(5) by simp
  show "sockets (step handlers (Message ws raw (Some p)) w) = sockets w"
    unfolding res using hc(6) by simp
  show "intervals (step handlers (Message ws raw (Some p)) w) = intervals w"
    unfolding res using hc(7) by simp
  show "last (logs (step handlers (Message ws raw (Some p)) w)) =
           (Error, ''Error handling WebSocket message:'')"
    unfolding res by simp
qed

text \<open>The world after the upgrade of socket 0.\<close>

lemma worldOpened_facts:
  "0 \<in> listening worldOpened"
  "readyState (sockets worldOpened 0) = OPEN"
  "\<not> down (db worldOpened)"
  "states worldOpened 0 =
     Some \<lparr> connId = ''uuid-0'', dbConnectionId = DbId 0, ipAddress = ''10.0.0.1'',
            authenticated = False, clientInfo = None, auth = None, seq = 0,
            tickInterval = None \<rparr>"
  "outbox (sockets worldOpened 0) = []"
  "authAttempts (db worldOpened) = []"
  "wsMessages (db worldOpened) = []"
  "attackerSessions (db worldOpened) =
     [''10.0.0.1'' \<mapsto> \<lparr> requestCount = 0, wsMessageCount = 1, authAttemptCount = 0,
        suspiciousCount = 0, isScanner = False, isBruteforcer = False, isExploiter = False,
        lastSeen = 0 \<rparr>]"
  "intervals worldOpened = Map.empty"
  "nextInterval worldOpened = 0"
  "clock worldOpened = 0"
  "fakeVersion worldOpened = ''2026.2.1''"
  "uuidCount worldOpened = 1"
  by (simp_all add: worldOpened_def unhandled_def handleConnection_def io_defs store_defs
        getClientIp_websocket_def header_def reqPlain_def initialWorld_def emptyStore_def
        createSession_def noUpdates_def isSet_def orFalse_def Let_def digitChar_def)

lemma credentials_of_envelopes:
  "credentialArgs (presentedCredential envEmpty) = Inr ([], [])"
  "credentialArgs (presentedCredential envToken) = Inr (''hash_17862'', ''abc'')"
  "credentialArgs (presentedCredential envNumber) =
     Inl (TypeError ''credential.slice is not a function'')"
  by (simp_all add: presentedCredential_def envEmpty_def envToken_def envNumber_def orElse_def
        hashCredential_def hashStep_def code_def digitChar_def)

section \<open>Properties of request handling and of persistence failures\<close>

lemma handleRequestFrame_down:
  assumes "down (db w)" and "states w ws = Some st"
  shows "handleRequestFrame handlers ws frame frameJson raw an w =
           (Inl (StoreError ''webSocketMessage.create''), w)"
  using assms by (simp add: handleRequestFrame_def io_defs store_defs)

lemma handleRequestFrame_up:
  assumes up: "\<not> down (db w)"
    and st: "states w ws = Some st"
    and op: "readyState (sockets w ws) = OPEN"
    and pure: "\<And>w1. handleRequest handlers frame
                 \<lparr> ctx_connId = connId st, ctx_clientId = getOpt (clientInfo st) ''id'',
                   ctx_ipAddress = ipAddress st \<rparr> w1 = (Inr resp, w1)"
  shows "fst (handleRequestFrame handlers ws frame frameJson raw an w) = Inr ()"
    and "outbox (sockets (snd (handleRequestFrame handlers ws frame frameJson raw an w)) ws) =
           outbox (sockets w ws) @ [ResFrame resp]"
    and "attackerSessions (db (snd (handleRequestFrame handlers ws frame frameJson raw an w))) =
           attackerSessions (db w)"
  using up st op
  by (simp_all add: handleRequestFrame_def io_defs store_defs Let_def pure)

text \<open>
  While the store is down a request frame on an authenticated connection gets no
  response: the listener logs the rejection of the first write and the frame is dropped.
\<close>

lemma step_request_down:
  assumes lis: "ws \<in> listening w"
    and op: "readyState (sockets w ws) = OPEN"
    and dn: "down (db w)"
    and st: "states w ws = Some st"
    and au: "authenticated st"
    and fr: "parseFrame (Some frame) = Some frame" "isRequestFrame frame"
  shows "sockets (step handlers (Message ws raw (Some frame)) w) = sockets w"
    and "last (logs (step handlers (Message ws raw (Some frame)) w)) =
           (Error, ''Error handling WebSocket message:'')"
proof -
  let ?an = "\<lparr> an_isSuspicious = isSuspicious (analyzePayload raw),
               an_reasons = reasons (analyzePayload raw) \<rparr>"
  let ?w1 = "w\<lparr>logs := logs w @ (Debug, ''Received message from '' @ connId st) #
           (if isSuspicious (analyzePayload raw)
            then [(Warn, ''Suspicious WebSocket message from '' @ ipAddress st)] else [])\<rparr>"
  have hm: "handleMessage handlers ws raw (Some frame) w =
              handleRequestFrame handlers ws (asRequestFrame frame) frame raw ?an ?w1"
    by (rule handleMessage_request [OF st au fr])
  have "down (db ?w1)" "states ?w1 ws = Some st" using dn st by simp_all
  then have "handleRequestFrame handlers ws (asRequestFrame frame) frame raw ?an ?w1 =
               (Inl (StoreError ''webSocketMessage.create''), ?w1)"
    by (rule handleRequestFrame_down)
  then have res: "step handlers (Message ws raw (Some frame)) w =
               ?w1\<lparr>logs := logs ?w1 @ [(Error, ''Error handling WebSocket message:'')]\<rparr>"
    using lis op by (simp add: onMessage_result hm)
  show "sockets (step handlers (Message ws raw (Some frame)) w) = sockets w"
    unfolding res by simp
  show "last (logs (step handlers (Message ws raw (Some frame)) w)) =
           (Error, ''Error handling WebSocket message:'')"
    unfolding res by simp
qed

lemma step_request_up:
  assumes lis: "ws \<in> listening w"
    and op: "readyState (sockets w ws) = OPEN"
    and up: "\<not> down (db w)"
    and st: "states w ws = Some st"
    and au: "authenticated st"
    and fr: "parseFrame (Some frame) = Some frame" "isRequestFrame frame"
    and pure: "\<And>w1. handleRequest handlers (asRequestFrame frame)
                 \<lparr> ctx_connId = connId st, ctx_clientId = getOpt (clientInfo st) ''id'',
                   ctx_ipAddress = ipAddress st \<rparr> w1 = (Inr resp, w1)"
  shows "outbox (sockets (step handlers (Message ws raw (Some frame)) w) ws) =
           outbox (sockets w ws) @ [ResFrame resp]"
    and "attackerSessions (db (step handlers (Message ws raw (Some frame)) w)) =
           attackerSessions (db w)"
proof -
  let ?an = "\<lparr> an_isSuspicious = isSuspicious (analyzePayload raw),
               an_reasons = reasons (analyzePayload raw) \<rparr>"
  let ?w1 = "w\<lparr>logs := logs w @ (Debug, ''Received message from '' @ connId st) #
           (if isSuspicious (analyzePayload raw)
            then [(Warn, ''Suspicious WebSocket message from '' @ ipAddress st)] else [])\<rparr>"
  have hm: "handleMessage handlers ws raw (Some frame) w =
              handleRequestFrame handlers ws (asRequestFrame frame) frame raw ?an ?w1"
    by (rule handleMessage_request [OF st au fr])
  have pre: "\<not> down (db ?w1)" "states ?w1 ws = Some st" "readyState (sockets ?w1 ws) = OPEN"
    using up st op by simp_all
  note hr = handleRequestFrame_up [OF pre pure, of frame raw ?an]
  have res: "step handlers (Message ws raw (Some frame)) w =
               snd (handleRequestFrame handlers ws (asRequestFrame frame) frame raw ?an ?w1)"
    using lis op hr(1)
    by (cases "handleRequestFrame handlers ws (asRequestFrame frame) frame raw ?an ?w1")
       (simp add: onMessage_result hm)
  show "outbox (sockets (step handlers (Message ws raw (Some frame)) w) ws) =
           outbox (sockets w ws) @ [ResFrame resp]"
    unfolding res hr(2) by simp
  show "attackerSessions (db (step handlers (Message ws raw (Some frame)) w)) =
           attackerSessions (db w)"
    unfolding res hr(3) by simp
qed

text \<open>The world after the handshake with the token envelope.\<close>

lemma worldAfterToken_facts:
  "0 \<in> listening worldAfterToken"
  "readyState (sockets worldAfterToken 0) = OPEN"
  "\<not> down (db worldAfterToken)"
  "states worldAfterToken 0 =
     Some \<lparr> connId = ''uuid-0'', dbConnectionId = DbId 0, ipAddress = ''10.0.0.1'',
            authenticated = True, clientInfo = None,
            auth = Some (JObj [(''token'', JStr ''abc'')]), seq = 0,
            tickInterval = Some 0 \<rparr>"
  "outbox (sockets worldAfterToken 0) = [HelloOkFrame (generateHelloOk ''2026.2.1'' ''uuid-0'')]"
  "map auth_method (authAttempts (db worldAfterToken)) = [''token'']"
  "map auth_credential (authAttempts (db worldAfterToken)) = [''hash_17862'']"
  "map auth_credentialRaw (authAttempts (db worldAfterToken)) = [''abc'']"
  "map auth_success (authAttempts (db worldAfterToken)) = [True]"
  "intervals worldAfterToken = [0 \<mapsto> (0, 30000)]"
  "map_option authAttemptCount (attackerSessions (db worldAfterToken) ''10.0.0.1'') = Some 1"
  "map_option wsMessageCount (attackerSessions (db worldAfterToken) ''10.0.0.1'') = Some 1"
proof -
  have p: "envToken \<noteq> JNull" by (simp add: envToken_def)
  have un: "\<not> authenticated \<lparr> connId = ''uuid-0'', dbConnectionId = DbId 0,
      ipAddress = ''10.0.0.1'', authenticated = False, clientInfo = None, auth = None, seq = 0,
      tickInterval = None \<rparr>" by simp
  note s = step_connect_completes [OF worldOpened_facts(1) worldOpened_facts(2)
      worldOpened_facts(3) worldOpened_facts(4) un p credentials_of_envelopes(2),
      of someHandlers rawToken, folded worldAfterToken_def]
  show "0 \<in> listening worldAfterToken" by (simp add: s(8) worldOpened_facts)
  show "readyState (sockets worldAfterToken 0) = OPEN" by (rule s(5))
  show "\<not> down (db worldAfterToken)" by (simp add: s(6))
  show "states worldAfterToken 0 =
     Some \<lparr> connId = ''uuid-0'', dbConnectionId = DbId 0, ipAddress = ''10.0.0.1'',
            authenticated = True, clientInfo = None,
            auth = Some (JObj [(''token'', JStr ''abc'')]), seq = 0,
            tickInterval = Some 0 \<rparr>"
    by (simp add: s(2) worldOpened_facts envToken_def)
  show "outbox (sockets worldAfterToken 0) = [HelloOkFrame (generateHelloOk ''2026.2.1'' ''uuid-0'')]"
    by (simp add: s(4) worldOpened_facts envToken_def generateHelloOk_def)
  show "map auth_method (authAttempts (db worldAfterToken)) = [''token'']"
    by (simp add: s(1) worldOpened_facts envToken_def)
  show "map auth_credential (authAttempts (db worldAfterToken)) = [''hash_17862'']"
    by (simp add: s(1) worldOpened_facts)
  show "map auth_credentialRaw (authAttempts (db worldAfterToken)) = [''abc'']"
    by (simp add: s(1) worldOpened_facts)
  show "map auth_success (authAttempts (db worldAfterToken)) = [True]"
    by (simp add: s(1) worldOpened_facts)
  show "intervals worldAfterToken = [0 \<mapsto> (0, 30000)]"
    by (simp add: s(3) worldOpened_facts)
  show "map_option authAttemptCount (attackerSessions (db worldAfterToken) ''10.0.0.1'') = Some 1"
    by (simp add: s(7) worldOpened_facts updateAttackerSession_def updateSession_def
          noUpdates_def isSet_def Let_def)
  show "map_option wsMessageCount (attackerSessions (db worldAfterToken) ''10.0.0.1'') = Some 1"
    by (simp add: s(7) worldOpened_facts updateAttackerSession_def updateSession_def
          noUpdates_def isSet_def Let_def)
qed

lemma frameLogout_is_request:
  "parseFrame (Some frameLogout) = Some frameLogout" "isRequestFrame frameLogout"
  by (simp_all add: frameLogout_def isRequestFrame_def)

lemma logout_response:
  "handleRequest someHandlers (asRequestFrame frameLogout) ctx w1 =
     (Inr (createSuccessResponse (Some (JStr ''r1'')) (Some (JObj [(''ok'', JBool True)]))), w1)"
  by (simp add: handleRequest_def someHandlers_def registerHandler_def asRequestFrame_def
        frameLogout_def channelsLogout_def tryCatch_def ret_def)

lemma worldDown_down: "down (db worldDown)"
  by (simp add: worldDown_def)

text \<open>
  C3, at two failing inputs. On the authenticated connection of \<open>worldAfterToken\<close>
  the request frame \<open>{"type":"req","id":"r1","method":"channels.logout"}\<close> is answered
  while the store accepts writes; after the store has gone down the same frame gets no
  response at all, only a line in the error log. An HTTP request that arrives while the
  store is down never reaches its route: the middleware's unguarded session update
  rejects, and nothing is sent.
\<close>

theorem store_failure_blocks_response:
  "outbox (sockets worldUpRequest 0) =
     [HelloOkFrame (generateHelloOk ''2026.2.1'' ''uuid-0''),
      ResFrame (createSuccessResponse (Some (JStr ''r1'')) (Some (JObj [(''ok'', JBool True)])))]
   \<and> outbox (sockets worldDownRequest 0) =
     [HelloOkFrame (generateHelloOk ''2026.2.1'' ''uuid-0'')]
   \<and> last (logs worldDownRequest) = (Error, ''Error handling WebSocket message:'')
   \<and> fst (serveHttp whatsappWebhook reqRealIp worldDown) = Inr None"
proof -
  note t = worldAfterToken_facts
  have 1: "outbox (sockets worldUpRequest 0) =
     [HelloOkFrame (generateHelloOk ''2026.2.1'' ''uuid-0''),
      ResFrame (createSuccessResponse (Some (JStr ''r1'')) (Some (JObj [(''ok'', JBool True)])))]"
    unfolding worldUpRequest_def
    by (subst step_request_up(1) [OF t(1) t(2) t(3) t(4) _ frameLogout_is_request logout_response])
       (simp_all add: t(5))
  let ?w = "step someHandlers (StoreDown True) worldAfterToken"
  have d: "0 \<in> listening ?w" "readyState (sockets ?w 0) = OPEN" "down (db ?w)"
    "states ?w 0 = states worldAfterToken 0" "sockets ?w = sockets worldAfterToken"
    using t(1) t(2) by simp_all
  have au: "authenticated \<lparr> connId = ''uuid-0'', dbConnectionId = DbId 0,
      ipAddress = ''10.0.0.1'', authenticated = True, clientInfo = None,
      auth = Some (JObj [(''token'', JStr ''abc'')]), seq = 0, tickInterval = Some 0 \<rparr>"
    by simp
  note r = step_request_down [OF d(1) d(2) d(3) d(4) [unfolded t(4)] au frameLogout_is_request,
      of someHandlers rawLogout]
  have w: "worldDownRequest = step someHandlers (Message 0 rawLogout (Some frameLogout)) ?w"
    by (simp add: worldDownRequest_def)
  have 2: "outbox (sockets worldDownRequest 0) =
     [HelloOkFrame (generateHelloOk ''2026.2.1'' ''uuid-0'')]"
    unfolding w r(1) d(5) by (rule t(5))
  have 3: "last (logs worldDownRequest) = (Error, ''Error handling WebSocket message:'')"
    unfolding w by (rule r(2))
  have 4: "fst (serveHttp whatsappWebhook reqRealIp worldDown) = Inr None"
    using worldDown_down
    by (simp add: serveHttp_def requestLogging_def io_defs store_defs Let_def)
  from 1 2 3 4 show ?thesis by simp
qed

section \<open>The handshake on concrete envelopes\<close>

lemma worldAfterNumber_facts:
  "authAttempts (db worldAfterNumber) = []"
  "attackerSessions (db worldAfterNumber) = attackerSessions (db worldOpened)"
  "map wsm_frameType (wsMessages (db worldAfterNumber)) = [Some (JStr ''connect'')]"
  "states worldAfterNumber 0 =
     Some \<lparr> connId = ''uuid-0'', dbConnectionId = DbId 0, ipAddress = ''10.0.0.1'',
            authenticated = False, clientInfo = None,
            auth = Some (JObj [(''password'', JNum 123)]), seq = 0, tickInterval = None \<rparr>"
  "sockets worldAfterNumber = sockets worldOpened"
  "intervals worldAfterNumber = Map.empty"
  "last (logs worldAfterNumber) = (Error, ''Error handling WebSocket message:'')"
proof -
  have p: "envNumber \<noteq> JNull" by (simp add: envNumber_def)
  have un: "\<not> authenticated \<lparr> connId = ''uuid-0'', dbConnectionId = DbId 0,
      ipAddress = ''10.0.0.1'', authenticated = False, clientInfo = None, auth = None, seq = 0,
      tickInterval = None \<rparr>" by simp
  note s = step_connect_bad_credential [OF worldOpened_facts(1) worldOpened_facts(2)
      worldOpened_facts(3) worldOpened_facts(4) un p credentials_of_envelopes(3),
      of someHandlers rawNumber, folded worldAfterNumber_def]
  show "authAttempts (db worldAfterNumber) = []" by (simp add: s(1) worldOpened_facts)
  show "attackerSessions (db worldAfterNumber) = attackerSessions (db worldOpened)" by (rule s(2))
  show "map wsm_frameType (wsMessages (db worldAfterNumber)) = [Some (JStr ''connect'')]"
    by (simp add: s(3) worldOpened_facts)
  show "states worldAfterNumber 0 =
     Some \<lparr> connId = ''uuid-0'', dbConnectionId = DbId 0, ipAddress = ''10.0.0.1'',
            authenticated = False, clientInfo = None,
            auth = Some (JObj [(''password'', JNum 123)]), seq = 0, tickInterval = None \<rparr>"
    by (simp add: s(4) envNumber_def)
  show "sockets worldAfterNumber = sockets worldOpened" by (rule s(5))
  show "intervals worldAfterNumber = Map.empty" by (simp add: s(6) worldOpened_facts)
  show "last (logs worldAfterNumber) = (Error, ''Error handling WebSocket message:'')"
    by (rule s(7))
qed

text \<open>
  C4, at a failing input. The first message on a fresh connection is the JSON object
  \<open>{"auth":{"password":123}}\<close>. The password is truthy and not a string, so
  \<open>credential.slice\<close> throws inside \<open>handleConnect\<close> before the auth attempt is
  written: the listener logs the exception, the connection stays unauthenticated, no
  auth attempt exists, no hello-ok is sent and no tick timer is started. An envelope
  with a string credential is accepted, also when its protocol range (2 to 3) excludes
  version 1.
\<close>

theorem number_password_is_not_accepted:
  "map_option authenticated (states worldAfterNumber 0) = Some False
   \<and> outbox (sockets worldAfterNumber 0) = []
   \<and> authAttempts (db worldAfterNumber) = []
   \<and> intervals worldAfterNumber = Map.empty
   \<and> last (logs worldAfterNumber) = (Error, ''Error handling WebSocket message:'')
   \<and> protocolMismatch (JNum 2) (JNum 3)
   \<and> map_option authenticated (states worldAfterToken 0) = Some True
   \<and> map auth_method (authAttempts (db worldAfterToken)) = [''token'']
   \<and> map auth_success (authAttempts (db worldAfterToken)) = [True]
   \<and> outbox (sockets worldAfterToken 0) = [HelloOkFrame (generateHelloOk ''2026.2.1'' ''uuid-0'')]"
  by (simp add: worldAfterNumber_facts worldOpened_facts worldAfterToken_facts
        protocolMismatch_def PROTOCOL_VERSION_def)

text \<open>
  C10, at a failing input. The same connect envelope \<open>{"auth":{"password":123}}\<close> is
  received and logged as a \<open>connect\<close> frame, yet the session's \<open>authAttemptCount\<close>
  stays 0: the increment comes after the call that throws. (\<open>wsMessageCount\<close> is 1, from
  the connection's opening; with the token envelope \<open>authAttemptCount\<close> becomes 1.)
\<close>

theorem number_password_is_not_counted:
  "map wsm_frameType (wsMessages (db worldAfterNumber)) = [Some (JStr ''connect'')]
   \<and> map_option authAttemptCount (attackerSessions (db worldAfterNumber) ''10.0.0.1'') = Some 0
   \<and> map_option wsMessageCount (attackerSessions (db worldAfterNumber) ''10.0.0.1'') = Some 1
   \<and> map_option authAttemptCount (attackerSessions (db worldAfterToken) ''10.0.0.1'') = Some 1
   \<and> map_option wsMessageCount (attackerSessions (db worldAfterToken) ''10.0.0.1'') = Some 1"
  by (simp add: worldAfterNumber_facts worldOpened_facts worldAfterToken_facts)

text \<open>
  C8, as stated, fails. The connect envelope \<open>{}\<close> presents no credential; the auth
  attempt is written with method \<open>none\<close> and the empty string as fingerprint, which
  has no \<open>hash_\<close> prefix: \<open>hashCredential\<close> returns \<open>""\<close> for the empty credential.
\<close>

theorem empty_credential_has_empty_fingerprint:
  "map auth_method (authAttempts (db worldAfterEmpty)) = [''none'']
   \<and> map auth_credential (authAttempts (db worldAfterEmpty)) = [[]]
   \<and> map auth_credentialRaw (authAttempts (db worldAfterEmpty)) = [[]]
   \<and> map auth_success (authAttempts (db worldAfterEmpty)) = [True]"
proof -
  have p: "envEmpty \<noteq> JNull" by (simp add: envEmpty_def)
  have un: "\<not> authenticated \<lparr> connId = ''uuid-0'', dbConnectionId = DbId 0,
      ipAddress = ''10.0.0.1'', authenticated = False, clientInfo = None, auth = None, seq = 0,
      tickInterval = None \<rparr>" by simp
  note s = step_connect_completes(1) [OF worldOpened_facts(1) worldOpened_facts(2)
      worldOpened_facts(3) worldOpened_facts(4) un p credentials_of_envelopes(1),
      of someHandlers rawEmpty, folded worldAfterEmpty_def]
  show ?thesis by (simp add: s worldOpened_facts envEmpty_def)
qed

theorem fingerprint_of_auth_attempt_witness:
  "map auth_credential
     (authAttempts (db (snd (handleConnect 0 (Some envToken) rawToken noAnalysis worldOpened))))
     = [''hash_17862'']
   \<and> map auth_credentialRaw
     (authAttempts (db (snd (handleConnect 0 (Some envToken) rawToken noAnalysis worldOpened))))
     = [''abc'']
   \<and> fromDigits 16 ''17862'' = nat \<bar>sint (word_of_int (rolling31 ''abc'') :: 32 word)\<bar>"
proof -
  let ?w = "snd (handleConnect 0 (Some envToken) rawToken noAnalysis worldOpened)"
  have p: "envToken \<noteq> JNull" by (simp add: envToken_def)
  note c = handleConnect_completes(2) [OF worldOpened_facts(3) worldOpened_facts(4) p
      credentials_of_envelopes(2) worldOpened_facts(2), of rawToken noAnalysis]
  have 1: "map auth_credential (authAttempts (db ?w)) = [''hash_17862'']"
    and 2: "map auth_credentialRaw (authAttempts (db ?w)) = [''abc'']"
    by (simp_all add: c worldOpened_facts)
  have pc: "presentedCredential envToken = Some (JStr ''abc'')"
    by (simp add: presentedCredential_def envToken_def orElse_def)
  from fingerprint_of_auth_attempt [of 0 "Some envToken" rawToken noAnalysis worldOpened]
  obtain rows where rows: "authAttempts (db ?w) = authAttempts (db worldOpened) @ rows"
    and each: "\<forall>a \<in> set rows. \<exists>p s n.
           Some envToken = Some p \<and> presentedCredential p = Some (JStr s)
         \<and> auth_credentialRaw a = take 100 s \<and> length (auth_credentialRaw a) \<le> 100
         \<and> n = nat \<bar>sint (word_of_int (rolling31 s) :: 32 word)\<bar> \<and> n \<le> 2 ^ 31
         \<and> set (toStringRadix 16 n) \<subseteq> set ''0123456789abcdef''
         \<and> fromDigits 16 (toStringRadix 16 n) = n
         \<and> auth_credential a = (if s = [] then [] else ''hash_'' @ toStringRadix 16 n)"
    by (elim exE conjE) auto
  from rows 1 obtain a where a: "rows = [a]" "auth_credential a = ''hash_17862''"
    by (auto simp: worldOpened_facts)
  with each pc obtain n where
    n: "n = nat \<bar>sint (word_of_int (rolling31 ''abc'') :: 32 word)\<bar>"
       "fromDigits 16 (toStringRadix 16 n) = n"
       "''hash_17862'' = ''hash_'' @ toStringRadix 16 n"
    by auto
  from n(3) have "toStringRadix 16 n = ''17862''" by simp
  with n(1,2) have "fromDigits 16 ''17862'' = nat \<bar>sint (word_of_int (rolling31 ''abc'') :: 32 word)\<bar>"
    by simp
  with 1 2 show ?thesis by simp
qed

section \<open>Properties of the tick timer\<close>

lemma tickSeqs_append: "tickSeqs (xs @ ys) = tickSeqs xs @ tickSeqs ys"
  by (induction xs rule: tickSeqs.induct) simp_all

lemma sameTicks_refl: "sameTicks w w"
  by (simp add: sameTicks_def)

lemma sameTicks_trans: "sameTicks a b \<Longrightarrow> sameTicks b c \<Longrightarrow> sameTicks a c"
  by (simp add: sameTicks_def)

lemma keeps_andThen:
  assumes "keeps sameTicks m" and "\<And>x. keeps sameTicks (f x)"
  shows "keeps sameTicks (andThen m f)"
  unfolding keeps_def
proof
  fix w
  obtain r w1 where m: "m w = (r, w1)" by (cases "m w")
  from assms(1) m have 1: "sameTicks w w1" by (auto simp: keeps_def dest: spec [of _ w])
  show "sameTicks w (snd (andThen m f w))"
  proof (cases r)
    case (Inl e)
    with m 1 show ?thesis by (simp add: andThen_def)
  next
    case (Inr x)
    from assms(2) [of x] have "sameTicks w1 (snd (f x w1))" by (simp add: keeps_def)
    with 1 have "sameTicks w (snd (f x w1))" by (rule sameTicks_trans)
    with m Inr show ?thesis by (simp add: andThen_def)
  qed
qed

lemma keeps_tryCatch:
  assumes "keeps sameTicks m" and "\<And>e. keeps sameTicks (h e)"
  shows "keeps sameTicks (tryCatch m h)"
  unfolding keeps_def
proof
  fix w
  obtain r w1 where m: "m w = (r, w1)" by (cases "m w")
  from assms(1) m have 1: "sameTicks w w1" by (auto simp: keeps_def dest: spec [of _ w])
  show "sameTicks w (snd (tryCatch m h w))"
  proof (cases r)
    case (Inr x)
    with m 1 show ?thesis by (simp add: tryCatch_def)
  next
    case (Inl e)
    from assms(2) [of e] have "sameTicks w1 (snd (h e w1))" by (simp add: keeps_def)
    with 1 have "sameTicks w (snd (h e w1))" by (rule sameTicks_trans)
    with m Inl show ?thesis by (simp add: tryCatch_def)
  qed
qed

lemma keeps_same:
  assumes "\<And>w. sockets (snd (m w)) = sockets w" and "\<And>w. states (snd (m w)) = states w"
  shows "keeps sameTicks m"
  using assms by (simp add: keeps_def sameTicks_def)

lemma keeps_ret: "keeps sameTicks (ret x)"
  by (rule keeps_same) (simp_all add: ret_def)

lemma keeps_throw: "keeps sameTicks (throw e)"
  by (rule keeps_same) (simp_all add: throw_def)

lemma keeps_liftE: "keeps sameTicks (liftE r)"
  by (rule keeps_same) (simp_all add: liftE_def)

lemma keeps_logger: "keeps sameTicks (logger l msg)"
  by (rule keeps_same) (simp_all add: logger_def)

lemma keeps_await: "keeps sameTicks (await q)"
  by (rule keeps_same) (simp_all add: await_def split: prod.splits)

lemma keeps_awaitNow: "keeps sameTicks (awaitNow q)"
  by (rule keeps_same) (simp_all add: awaitNow_def await_def split: prod.splits)

lemma keeps_getState: "keeps sameTicks (getState ws)"
  by (rule keeps_same) (simp_all add: getState_def split: option.splits)

lemma keeps_uuidv4: "keeps sameTicks uuidv4"
  by (rule keeps_same) (simp_all add: uuidv4_def)

lemma keeps_setInterval: "keeps sameTicks (setInterval ws ms)"
  by (rule keeps_same) (simp_all add: setInterval_def)

lemma keeps_clearInterval: "keeps sameTicks (clearInterval t)"
  by (rule keeps_same) (simp_all add: clearInterval_def)

lemma keeps_reader: "keeps sameTicks (\<lambda>w. ret (g w) w)"
  by (rule keeps_same) (simp_all add: ret_def)

lemma keeps_modifyState:
  assumes "\<And>st. seq (f st) = seq st"
  shows "keeps sameTicks (modifyState ws f)"
  using assms by (simp add: keeps_def sameTicks_def modifyState_def split: option.splits)

lemma keeps_wsSend:
  assumes "tickSeqs [frame] = []"
  shows "keeps sameTicks (wsSend ws frame)"
  using assms
  by (simp add: keeps_def sameTicks_def wsSend_def tickSeqs_append split: readyState.splits)

lemma keeps_if:
  "keeps sameTicks a \<Longrightarrow> keeps sameTicks b \<Longrightarrow> keeps sameTicks (if c then a else b)"
  by simp

lemma keeps_case_prod:
  "(\<And>a b. keeps sameTicks (f a b)) \<Longrightarrow> keeps sameTicks (case_prod f x)"
  by (cases x) simp

lemma keeps_case_option:
  "keeps sameTicks a \<Longrightarrow> (\<And>y. keeps sameTicks (f y)) \<Longrightarrow>
   keeps sameTicks (case_option a f x)"
  by (cases x) simp_all

lemmas keeps_steps = keeps_case_prod keeps_case_option keeps_andThen keeps_tryCatch keeps_ret keeps_throw keeps_liftE
  keeps_logger keeps_await keeps_awaitNow keeps_getState keeps_uuidv4 keeps_setInterval
  keeps_clearInterval keeps_reader keeps_if

lemma handleConnect_keeps: "keeps sameTicks (handleConnect ws parsed raw an)"
  unfolding handleConnect_def Let_def
  by (intro keeps_steps keeps_modifyState keeps_wsSend) simp_all

lemma getHandler_Some: "getHandler handlers m = Some h \<Longrightarrow> \<exists>name. handlers name = Some h"
  by (erule getHandler.elims) auto

lemma handleRequest_keeps:
  assumes "quiet handlers"
  shows "keeps sameTicks (handleRequest handlers frame ctx)"
proof (cases "getHandler handlers (req_method frame)")
  case None
  then show ?thesis by (simp add: handleRequest_def keeps_ret)
next
  case (Some h)
  then obtain name where "handlers name = Some h" using getHandler_Some by blast
  with assms have "keeps sameTicks (h frame ctx)"
    by (intro keeps_same) (simp_all add: quiet_def)
  with Some show ?thesis
    by (simp add: handleRequest_def) (intro keeps_steps, simp_all)
qed

lemma handleRequestFrame_keeps:
  assumes "quiet handlers"
  shows "keeps sameTicks (handleRequestFrame handlers ws frame frameJson raw an)"
  unfolding handleRequestFrame_def Let_def
  by (intro keeps_steps keeps_wsSend handleRequest_keeps [OF assms]) simp_all

lemma handleMessage_keeps:
  assumes "quiet handlers"
  shows "keeps sameTicks (handleMessage handlers ws raw parsed)"
  unfolding handleMessage_def Let_def
  by (intro keeps_steps handleConnect_keeps handleRequestFrame_keeps [OF assms])

lemma unhandled_keeps:
  assumes "keeps sameTicks m"
  shows "sameTicks w (unhandled m w)"
proof -
  have "keeps sameTicks (tryCatch m (\<lambda>reason. logger Error ''Unhandled rejection:''))"
    by (intro keeps_tryCatch assms keeps_logger)
  then show ?thesis by (simp add: unhandled_def keeps_def)
qed

lemma onMessage_keeps:
  assumes "quiet handlers"
  shows "keeps sameTicks (onMessage handlers ws raw parsed)"
  unfolding onMessage_def
  by (intro keeps_steps handleMessage_keeps [OF assms])

lemma onClose_keeps: "keeps sameTicks (onClose ws)"
  unfolding onClose_def
  by (intro keeps_steps keeps_same) simp_all

text \<open>Opening a connection writes to no socket and creates its state object with \<open>seq = 0\<close>.\<close>

lemma handleConnection_effect:
  "sockets (snd (handleConnection ws req w)) = sockets w"
  "states (snd (handleConnection ws req w)) = (states w)(ws \<mapsto>
     \<lparr> connId = ''uuid-'' @ toStringRadix 10 (uuidCount w),
       dbConnectionId = (if down (db w) then Uuid (''uuid-'' @ toStringRadix 10 (uuidCount w))
                         else DbId (length (connections (db w)))),
       ipAddress = getClientIp_websocket req, authenticated = False, clientInfo = None,
       auth = None, seq = 0, tickInterval = None \<rparr>)"
  by (simp_all add: handleConnection_def io_defs store_defs Let_def)

text \<open>The timer's callback: one tick when the socket is open, nothing otherwise.\<close>

lemma tickCallback_effect:
  assumes "states w ws = Some st"
  shows "tickCallback ws w =
     (Inr (),
      if readyState (sockets w ws) = OPEN
      then w\<lparr>states := (states w)(ws \<mapsto> st\<lparr>seq := seq st + 1\<rparr>),
             sockets := (sockets w)(ws := (sockets w ws)
               \<lparr>outbox := outbox (sockets w ws) @
                  [EvFrame \<lparr> ev_event = ''tick'',
                             ev_payload = JObj [(''ts'', JNum (int (clock w)))],
                             ev_seq = Some (seq st) \<rparr>]\<rparr>)\<rparr>
      else w)"
  using assms by (simp add: tickCallback_def io_defs generateTickEvent_def)

lemma tickCallback_no_state:
  assumes "states w ws = None"
  shows "snd (tickCallback ws w) = w"
  using assms by (simp add: tickCallback_def io_defs)

lemma unhandled_fields:
  "sockets (unhandled m w) = sockets (snd (m w))"
  "states (unhandled m w) = states (snd (m w))"
  "intervals (unhandled m w) = intervals (snd (m w))"
  by (simp_all add: unhandled_def tryCatch_def logger_def split: prod.splits sum.splits)

lemma sameTicks_ticksInOrder:
  assumes "sameTicks w w'" and "ticksInOrder w"
  shows "ticksInOrder w'"
  unfolding ticksInOrder_def
proof (intro allI conjI impI ballI)
  fix ws
  from assms(1) have t: "tickSeqs (outbox (sockets w' ws)) = tickSeqs (outbox (sockets w ws))"
    and s: "map_option seq (states w' ws) = map_option seq (states w ws)"
    by (simp_all add: sameTicks_def)
  from assms(2) show "sorted_wrt (<) (tickSeqs (outbox (sockets w' ws)))"
    unfolding t by (simp add: ticksInOrder_def)
  {
    assume "states w' ws = None"
    with s have "states w ws = None" by simp
    with assms(2) show "tickSeqs (outbox (sockets w' ws)) = []"
      unfolding t by (simp add: ticksInOrder_def)
  }
  {
    fix st' n
    assume st': "states w' ws = Some st'" and n: "n \<in> set (tickSeqs (outbox (sockets w' ws)))"
    from s st' obtain st where st: "states w ws = Some st" "seq st = seq st'"
      by (cases "states w ws") auto
    from assms(2) st(1) n have "n < seq st"
      unfolding t ticksInOrder_def by blast
    with st(2) show "n < seq st'" by simp
  }
qed

lemma ticksInOrder_cong:
  assumes "sockets w' = sockets w" and "states w' = states w"
  shows "ticksInOrder w' = ticksInOrder w"
  using assms by (simp add: ticksInOrder_def)

lemma ticksInOrder_at:
  "ticksInOrder w \<Longrightarrow>
     sorted_wrt (<) (tickSeqs (outbox (sockets w x))) \<and>
     (states w x = None \<longrightarrow> tickSeqs (outbox (sockets w x)) = []) \<and>
     (\<forall>st'. states w x = Some st' \<longrightarrow>
        (\<forall>n \<in> set (tickSeqs (outbox (sockets w x))). n < seq st'))"
  unfolding ticksInOrder_def by (rule spec)

lemma setReadyState_ticksInOrder: "ticksInOrder (setReadyState ws r w) = ticksInOrder w"
proof -
  have "outbox (sockets (setReadyState ws r w) x) = outbox (sockets w x)" for x
    by (simp add: setReadyState_def)
  moreover have "states (setReadyState ws r w) = states w"
    by (simp add: setReadyState_def)
  ultimately show ?thesis by (simp add: ticksInOrder_def)
qed

lemma sorted_snoc_less:
  "sorted_wrt (<) xs \<Longrightarrow> \<forall>n \<in> set xs. n < (k :: nat) \<Longrightarrow> sorted_wrt (<) (xs @ [k])"
  by (simp add: sorted_wrt_append)

lemma ticksInOrder_tick:
  assumes inv: "ticksInOrder w" and st: "states w ws = Some st"
    and so: "sockets w' = (sockets w)(ws := (sockets w ws)
               \<lparr>outbox := outbox (sockets w ws) @
                  [EvFrame \<lparr> ev_event = ''tick'', ev_payload = pl, ev_seq = Some (seq st) \<rparr>]\<rparr>)"
    and sa: "states w' = (states w)(ws \<mapsto> st\<lparr>seq := seq st + 1\<rparr>)"
  shows "ticksInOrder w'"
  unfolding ticksInOrder_def
proof (intro allI)
  fix x
  from inv st have o: "sorted_wrt (<) (tickSeqs (outbox (sockets w ws)))"
    and b: "\<forall>n \<in> set (tickSeqs (outbox (sockets w ws))). n < seq st"
    unfolding ticksInOrder_def by blast+
  have n: "sorted_wrt (<) (tickSeqs (outbox (sockets w ws)) @ [seq st])"
    using o b by (rule sorted_snoc_less)
  show "sorted_wrt (<) (tickSeqs (outbox (sockets w' x))) \<and>
        (states w' x = None \<longrightarrow> tickSeqs (outbox (sockets w' x)) = []) \<and>
        (\<forall>st'. states w' x = Some st' \<longrightarrow>
           (\<forall>n \<in> set (tickSeqs (outbox (sockets w' x))). n < seq st'))"
  proof (cases "x = ws")
    case True
    have t: "tickSeqs (outbox (sockets w' ws)) = tickSeqs (outbox (sockets w ws)) @ [seq st]"
      by (simp add: so tickSeqs_append)
    have s: "states w' ws = Some (st\<lparr>seq := seq st + 1\<rparr>)" by (simp add: sa)
    have "\<forall>k \<in> set (tickSeqs (outbox (sockets w ws)) @ [seq st]). k < seq st + 1"
      using b by auto
    with n show ?thesis unfolding True t s by simp
  next
    case False
    then have "sockets w' x = sockets w x" "states w' x = states w x"
      by (simp_all add: so sa)
    with ticksInOrder_at [OF inv, of x] show ?thesis by simp
  qed
qed

lemma fire_ticksInOrder:
  assumes "ticksInOrder w"
  shows "ticksInOrder (unhandled (tickCallback ws) w)"
proof (cases "states w ws")
  case None
  then have "snd (tickCallback ws w) = w" by (rule tickCallback_no_state)
  then have "sockets (unhandled (tickCallback ws) w) = sockets w"
    "states (unhandled (tickCallback ws) w) = states w"
    by (simp_all add: unhandled_fields)
  then have "ticksInOrder (unhandled (tickCallback ws) w) = ticksInOrder w"
    by (rule ticksInOrder_cong)
  with assms show ?thesis by simp
next
  case (Some st)
  note eff = tickCallback_effect [OF Some]
  show ?thesis
  proof (cases "readyState (sockets w ws) = OPEN")
    case False
    with eff have "snd (tickCallback ws w) = w" by simp
    then have "sockets (unhandled (tickCallback ws) w) = sockets w"
      "states (unhandled (tickCallback ws) w) = states w"
      by (simp_all add: unhandled_fields)
    then have "ticksInOrder (unhandled (tickCallback ws) w) = ticksInOrder w"
    by (rule ticksInOrder_cong)
  with assms show ?thesis by simp
  next
    case True
    have so: "sockets (unhandled (tickCallback ws) w) =
        (sockets w)(ws := (sockets w ws)\<lparr>outbox := outbox (sockets w ws) @
           [EvFrame \<lparr> ev_event = ''tick'', ev_payload = JObj [(''ts'', JNum (int (clock w)))],
                      ev_seq = Some (seq st) \<rparr>]\<rparr>)"
      by (simp add: unhandled_fields eff True)
    have sa: "states (unhandled (tickCallback ws) w) = (states w)(ws \<mapsto> st\<lparr>seq := seq st + 1\<rparr>)"
      by (simp add: unhandled_fields eff True)
    from assms Some so sa show ?thesis by (rule ticksInOrder_tick)
  qed
qed

lemma ticksInOrder_fresh:
  assumes inv: "ticksInOrder w"
    and so: "sockets w' = (sockets w)(ws := \<lparr> readyState = OPEN, outbox = [] \<rparr>)"
    and sa: "states w' = (states w)(ws \<mapsto> st)"
  shows "ticksInOrder w'"
  unfolding ticksInOrder_def
proof (intro allI)
  fix x
  show "sorted_wrt (<) (tickSeqs (outbox (sockets w' x))) \<and>
        (states w' x = None \<longrightarrow> tickSeqs (outbox (sockets w' x)) = []) \<and>
        (\<forall>st'. states w' x = Some st' \<longrightarrow>
           (\<forall>n \<in> set (tickSeqs (outbox (sockets w' x))). n < seq st'))"
  proof (cases "x = ws")
    case True
    then show ?thesis by (simp add: so sa)
  next
    case False
    then have "sockets w' x = sockets w x" "states w' x = states w x"
      by (simp_all add: so sa)
    with ticksInOrder_at [OF inv, of x] show ?thesis by simp
  qed
qed

lemma step_ticksInOrder:
  assumes q: "quiet handlers" and inv: "ticksInOrder w"
  shows "ticksInOrder (step handlers e w)"
proof (cases e)
  case (Upgrade ws req)
  show ?thesis
  proof (cases "ws \<in> dom (states w)")
    case True
    with Upgrade inv show ?thesis by simp
  next
    case False
    let ?w0 = "w\<lparr>sockets := (sockets w)(ws := \<lparr> readyState = OPEN, outbox = [] \<rparr>)\<rparr>"
    let ?w1 = "unhandled (handleConnection ws req) ?w0"
    have so: "sockets ?w1 = (sockets w)(ws := \<lparr> readyState = OPEN, outbox = [] \<rparr>)"
      by (simp add: unhandled_fields handleConnection_effect)
    have "\<exists>st. states ?w1 = (states w)(ws \<mapsto> st)"
      by (intro exI) (simp add: unhandled_fields handleConnection_effect)
    then obtain st where sa: "states ?w1 = (states w)(ws \<mapsto> st)" ..
    from inv so sa have "ticksInOrder ?w1" by (rule ticksInOrder_fresh)
    with Upgrade False show ?thesis by simp
  qed
next
  case (Message ws raw parsed)
  have "sameTicks w (unhandled (onMessage handlers ws raw parsed) w)"
    by (rule unhandled_keeps [OF onMessage_keeps [OF q]])
  then have "ticksInOrder (unhandled (onMessage handlers ws raw parsed) w)"
    using inv by (rule sameTicks_ticksInOrder)
  with Message inv show ?thesis by simp
next
  case (Close ws)
  have "sameTicks (setReadyState ws CLOSED w) (unhandled (onClose ws) (setReadyState ws CLOSED w))"
    by (rule unhandled_keeps [OF onClose_keeps])
  moreover have "ticksInOrder (setReadyState ws CLOSED w)"
    using inv by (simp add: setReadyState_ticksInOrder)
  ultimately have "ticksInOrder (unhandled (onClose ws) (setReadyState ws CLOSED w))"
    by (rule sameTicks_ticksInOrder)
  with Close inv show ?thesis by (simp add: setReadyState_ticksInOrder)
next
  case (Fire t)
  show ?thesis
  proof (cases "intervals w t")
    case None
    with Fire inv show ?thesis by simp
  next
    case (Some a)
    obtain ws ms where "a = (ws, ms)" by (cases a)
    with Fire Some fire_ticksInOrder [OF inv, of ws] show ?thesis by simp
  qed
next
  case (Elapse ms)
  with inv show ?thesis by (simp add: ticksInOrder_def)
next
  case (StoreDown b)
  with inv show ?thesis by (simp add: ticksInOrder_def)
qed

lemma run_ticksInOrder:
  assumes "quiet handlers" and "ticksInOrder w"
  shows "ticksInOrder (run_events handlers es w)"
  using assms(2)
proof (induction es arbitrary: w)
  case Nil
  then show ?case by simp
next
  case (Cons e es)
  from assms(1) Cons.prems have "ticksInOrder (step handlers e w)" by (rule step_ticksInOrder)
  then show ?case by (simp add: Cons.IH)
qed

lemma initialWorld_ticksInOrder: "ticksInOrder initialWorld"
  by (simp add: ticksInOrder_def initialWorld_def)


text \<open>What a firing timer does to the world.\<close>

lemma fire_effect:
  assumes "states w ws = Some st"
  shows "unhandled (tickCallback ws) w =
     (if readyState (sockets w ws) = OPEN
      then w\<lparr>states := (states w)(ws \<mapsto> st\<lparr>seq := seq st + 1\<rparr>),
             sockets := (sockets w)(ws := (sockets w ws)
               \<lparr>outbox := outbox (sockets w ws) @
                  [EvFrame (generateTickEvent (clock w) (seq st))]\<rparr>)\<rparr>
      else w)"
  by (simp add: unhandled_def tryCatch_def tickCallback_effect [OF assms] generateTickEvent_def)

lemma sameTicks_closed:
  assumes "sameTicks w w'" and "readyState (sockets w ws) = CLOSED" and "ws \<in> dom (states w)"
  shows "closedAs ws w w'"
proof -
  from assms(1) have r: "readyState (sockets w' ws) = readyState (sockets w ws)"
    and o: "readyState (sockets w ws) \<noteq> OPEN \<longrightarrow> outbox (sockets w' ws) = outbox (sockets w ws)"
    and s: "map_option seq (states w' ws) = map_option seq (states w ws)"
    by (simp_all add: sameTicks_def)
  from s assms(3) have "ws \<in> dom (states w')" by (cases "states w' ws") auto
  with r o assms(2) show ?thesis by (simp add: closedAs_def)
qed

lemma fire_closed:
  assumes "readyState (sockets w ws) = CLOSED" and "ws \<in> dom (states w)"
  shows "closedAs ws w (unhandled (tickCallback x) w)"
proof (cases "states w x")
  case None
  then have "snd (tickCallback x w) = w" by (rule tickCallback_no_state)
  then have "sockets (unhandled (tickCallback x) w) = sockets w"
    "states (unhandled (tickCallback x) w) = states w"
    by (simp_all add: unhandled_fields)
  with assms show ?thesis by (simp add: closedAs_def)
next
  case (Some st)
  from assms show ?thesis
    by (auto simp add: closedAs_def fire_effect [OF Some])
qed

lemma step_closed:
  assumes q: "quiet handlers" and c: "readyState (sockets w ws) = CLOSED"
    and d: "ws \<in> dom (states w)"
  shows "closedAs ws w (step handlers e w)"
proof (cases e)
  case (Upgrade x req)
  show ?thesis
  proof (cases "x \<in> dom (states w)")
    case True
    with Upgrade c d show ?thesis by (simp add: closedAs_def)
  next
    case False
    with d have "x \<noteq> ws" by auto
    with Upgrade False c d show ?thesis
      by (auto simp add: closedAs_def unhandled_fields handleConnection_effect)
  qed
next
  case (Message x raw parsed)
  have "sameTicks w (unhandled (onMessage handlers x raw parsed) w)"
    by (rule unhandled_keeps [OF onMessage_keeps [OF q]])
  then have "closedAs ws w (unhandled (onMessage handlers x raw parsed) w)"
    using c d by (rule sameTicks_closed)
  moreover from c d have "closedAs ws w w" by (simp add: closedAs_def)
  ultimately show ?thesis using Message by simp
next
  case (Close x)
  let ?w0 = "setReadyState x CLOSED w"
  have c0: "readyState (sockets ?w0 ws) = CLOSED" and d0: "ws \<in> dom (states ?w0)"
    and o0: "outbox (sockets ?w0 ws) = outbox (sockets w ws)"
    using c d by (simp_all add: setReadyState_def)
  have "sameTicks ?w0 (unhandled (onClose x) ?w0)"
    by (rule unhandled_keeps [OF onClose_keeps])
  then have "closedAs ws ?w0 (unhandled (onClose x) ?w0)"
    using c0 d0 by (rule sameTicks_closed)
  then have "closedAs ws w (unhandled (onClose x) ?w0)"
    by (simp add: closedAs_def o0)
  moreover from c0 d0 o0 have "closedAs ws w ?w0" by (simp add: closedAs_def)
  moreover from c d have "closedAs ws w w" by (simp add: closedAs_def)
  ultimately show ?thesis using Close by simp
next
  case (Fire t)
  show ?thesis
  proof (cases "intervals w t")
    case None
    with Fire c d show ?thesis by (simp add: closedAs_def)
  next
    case (Some a)
    obtain x ms where "a = (x, ms)" by (cases a)
    with Fire Some fire_closed [OF c d, of x] show ?thesis by simp
  qed
next
  case (Elapse ms)
  with c d show ?thesis by (simp add: closedAs_def)
next
  case (StoreDown b)
  with c d show ?thesis by (simp add: closedAs_def)
qed

lemma run_closed:
  assumes q: "quiet handlers"
  shows "readyState (sockets w ws) = CLOSED \<Longrightarrow> ws \<in> dom (states w) \<Longrightarrow>
         closedAs ws w (run_events handlers es w)"
proof (induction es arbitrary: w)
  case Nil
  then show ?case by (simp add: closedAs_def)
next
  case (Cons e es)
  from q Cons.prems have s: "closedAs ws w (step handlers e w)" by (rule step_closed)
  then have "closedAs ws (step handlers e w) (run_events handlers es (step handlers e w))"
    by (intro Cons.IH) (simp_all add: closedAs_def)
  with s show ?case by (simp add: closedAs_def)
qed

text \<open>The close of a connection: the socket is closed and the timer is cleared.\<close>

lemma close_closes:
  assumes d: "ws \<in> dom (states w)"
  shows "closedAs ws w (step handlers (Close ws) w)"
proof -
  let ?w0 = "setReadyState ws CLOSED w"
  have c0: "readyState (sockets ?w0 ws) = CLOSED" and d0: "ws \<in> dom (states ?w0)"
    and o0: "outbox (sockets ?w0 ws) = outbox (sockets w ws)"
    using d by (simp_all add: setReadyState_def)
  have "sameTicks ?w0 (unhandled (onClose ws) ?w0)"
    by (rule unhandled_keeps [OF onClose_keeps])
  then have "closedAs ws ?w0 (unhandled (onClose ws) ?w0)"
    using c0 d0 by (rule sameTicks_closed)
  then have "closedAs ws w (unhandled (onClose ws) ?w0)"
    by (simp add: closedAs_def o0)
  moreover from c0 d0 o0 have "closedAs ws w ?w0" by (simp add: closedAs_def)
  moreover have "readyState (sockets w ws) = CLOSED \<Longrightarrow> closedAs ws w w"
    using d by (simp add: closedAs_def)
  ultimately show ?thesis using d by auto
qed

lemma close_clears_timer:
  assumes "states w ws = Some st" and "tickInterval st = Some t"
    and "ws \<in> listening w" and "readyState (sockets w ws) \<noteq> CLOSED"
  shows "intervals (step handlers (Close ws) w) t = None"
  using assms
  by (auto simp add: unhandled_fields onClose_def setReadyState_def io_defs store_defs
        split: option.splits)

lemma quiet_someHandlers: "quiet someHandlers"
  by (auto simp add: quiet_def someHandlers_def registerHandler_def channelsLogout_def
        sessionsReset_def configSet_def chatAbort_def ret_def split: if_splits)
end
